theory Spec2Isabelle
  imports Complex_Main "HOL-Library.Monad_Syntax" "HOL-Library.Product_Lexorder"
begin

section \<open>Python values\<close>

text \<open>
  A Python \<^verbatim>\<open>str\<close> is a sequence of Unicode code points, so \<open>length\<close> is Python's
  \<^verbatim>\<open>len\<close>. ASCII literals are written \<open>ascii ''...''\<close>. Python floats are read as
  real numbers (rounding is not modelled).
\<close>

type_synonym str = "nat list"

definition ascii :: "string \<Rightarrow> str" where
  "ascii s = map of_char s"

text \<open>\<^verbatim>\<open>decimal.Decimal\<close>: sign, coefficient and exponent (finite values only).\<close>

record decimal =
  negative :: bool
  coefficient :: nat
  exponent :: int

definition dec_val :: "decimal \<Rightarrow> real" where
  "dec_val d =
     (if negative d then - 1 else 1) *
     (if 0 \<le> exponent d then real (coefficient d) * 10 ^ nat (exponent d)
      else real (coefficient d) / 10 ^ nat (- exponent d))"

record date =
  year :: nat
  month :: nat
  day :: nat

datatype datetime = Datetime date nat

text \<open>
  The values a \<^verbatim>\<open>FieldValue.value\<close> or a JSON document can hold. The extractor stores
  \<^verbatim>\<open>str\<close>, \<^verbatim>\<open>float\<close>, \<^verbatim>\<open>Decimal\<close>, \<^verbatim>\<open>date\<close> and \<^verbatim>\<open>None\<close>; a patch stores whatever
  \<^verbatim>\<open>json.loads\<close> produced. No path of the repository stores a \<^verbatim>\<open>datetime\<close> there.
\<close>

datatype pyvalue =
    VNone
  | VBool bool
  | VInt int
  | VFloat real
  | VStr str
  | VDecimal decimal
  | VDate date
  | VList "pyvalue list"
  | VDict "(str \<times> pyvalue) list"

datatype error = ValidationError

text \<open>\<^verbatim>\<open>hashlib.md5(text.encode()).hexdigest()\<close> is kept symbolic: the digest of a text is
  the value \<open>MD5 text\<close>. A digest is 32 characters long, so it is never an empty string.\<close>

datatype hexdigest = MD5 str

section \<open>schemas/invoice.py\<close>

type_synonym bbox = "real \<times> real \<times> real \<times> real"

record evidence =
  ev_page :: int
  ev_bbox :: bbox
  ev_text :: str
  ev_confidence :: real

record field_value =
  val :: pyvalue
  confidence :: real
  evidence :: "evidence list"

text \<open>
  The constructor \<^verbatim>\<open>FieldValue(...)\<close>. The value must belong to
  \<^verbatim>\<open>Optional[Union[str, int, float, Decimal, date, datetime]]\<close>, so a list or a dictionary
  is refused, and the confidence must lie in \<open>[0, 1]\<close> (\<^verbatim>\<open>Field(ge=0.0, le=1.0)\<close> and
  the validator \<^verbatim>\<open>confidence_range\<close>). Whether the validation library converts an accepted
  value into another member of the union depends on its version and is not modelled: the
  value is stored as given, and no property below is about the stored value.
\<close>

fun union_member :: "pyvalue \<Rightarrow> bool" where
  "union_member (VList xs) = False"
| "union_member (VDict kvs) = False"
| "union_member v = True"

definition FieldValue :: "pyvalue \<Rightarrow> real \<Rightarrow> evidence list \<Rightarrow> error + field_value" where
  "FieldValue v c ev =
     (if \<not> union_member v \<or> \<not> (0 \<le> c \<and> c \<le> 1) then Inl ValidationError
      else Inr \<lparr>val = v, confidence = c, evidence = ev\<rparr>)"

record vendor =
  name :: field_value
  address :: "field_value option"
  tax_id :: "field_value option"
  phone :: "field_value option"
  email :: "field_value option"
  layout_hash :: "hexdigest option"

record amounts =
  subtotal :: "field_value option"
  tax_amount :: "field_value option"
  tax_rate :: "field_value option"
  discount :: "field_value option"
  shipping :: "field_value option"
  grand_total :: field_value
  currency :: field_value

record line_item =
  description :: field_value
  quantity :: "field_value option"
  unit_price :: "field_value option"
  total :: "field_value option"
  li_tax_amount :: "field_value option"
  li_tax_rate :: "field_value option"
  category :: "str option"
  category_confidence :: "real option"

record invoice =
  invoice_number :: field_value
  invoice_date :: field_value
  due_date :: "field_value option"
  vendor :: vendor
  amounts :: amounts
  line_items :: "line_item list"
  inv_notes :: "field_value option"
  payment_terms :: "field_value option"
  po_number :: "field_value option"
  processing_id :: str
  created_at :: datetime
  source_file :: str
  extraction_method :: str
  llm_patch_applied :: bool
  human_reviewed :: bool
  duplicate_hash :: "hexdigest option"

text \<open>A failure dictionary of the rules engine. The keys \<^verbatim>\<open>reason\<close> and
  \<^verbatim>\<open>suggested_fix\<close> hold message texts for the reader and are left out.\<close>

record failure =
  rule :: str
  path :: str
  expected :: "real option"
  actual :: "real option"
  tolerance :: "real option"

text \<open>A failure that carries only its rule and its path.\<close>

definition mk_failure :: "string \<Rightarrow> string \<Rightarrow> failure" where
  "mk_failure r p =
     \<lparr>rule = ascii r, path = ascii p, expected = None, actual = None, tolerance = None\<rparr>"

record rule_report =
  passed :: bool
  failures :: "failure list"
  warnings :: "failure list"

definition ok :: "rule_report \<Rightarrow> bool" where
  "ok r = (passed r \<and> length (failures r) = 0)"

record thresholds =
  field_confidence_threshold :: real
  category_confidence_threshold :: real
  arithmetic_tolerance :: real
  rounding_decimal_places :: nat
  duplicate_hash_window_days :: nat

definition ProcessingThresholds :: thresholds where
  "ProcessingThresholds =
     \<lparr>field_confidence_threshold = 82 / 100,
      category_confidence_threshold = 75 / 100,
      arithmetic_tolerance = 2 / 100,
      rounding_decimal_places = 2,
      duplicate_hash_window_days = 180\<rparr>"

section \<open>pipeline/route.py: the decision\<close>

datatype action = auto_post | llm_fallback | needs_review

fun field_confidence_loop :: "thresholds \<Rightarrow> field_value list \<Rightarrow> bool" where
  "field_confidence_loop th [] = True"
| "field_confidence_loop th (field # rest) =
     (if confidence field < field_confidence_threshold th then False
      else field_confidence_loop th rest)"

definition check_field_confidence :: "thresholds \<Rightarrow> invoice \<Rightarrow> bool" where
  "check_field_confidence th invoice =
     field_confidence_loop th
       [invoice_number invoice, invoice_date invoice, name (vendor invoice),
        grand_total (amounts invoice), currency (amounts invoice)]"

text \<open>\<^verbatim>\<open>if line_item.category_confidence and ... < threshold\<close>: \<^verbatim>\<open>None\<close> and \<^verbatim>\<open>0.0\<close>
  are both falsy.\<close>

fun category_confidence_loop :: "thresholds \<Rightarrow> line_item list \<Rightarrow> bool" where
  "category_confidence_loop th [] = True"
| "category_confidence_loop th (li # lis) =
     (case category_confidence li of
        None \<Rightarrow> category_confidence_loop th lis
      | Some c \<Rightarrow>
          if c \<noteq> 0 \<and> c < category_confidence_threshold th then False
          else category_confidence_loop th lis)"

definition check_category_confidence :: "thresholds \<Rightarrow> invoice \<Rightarrow> bool" where
  "check_category_confidence th invoice =
     (if line_items invoice = [] then True
      else category_confidence_loop th (line_items invoice))"

definition fixable_rules :: "str list" where
  "fixable_rules =
     [ascii ''arithmetic_balance'', ascii ''line_sum_subtotal'', ascii ''line_sum_tax'',
      ascii ''date_format'', ascii ''currency_format'', ascii ''tax_coherence'',
      ascii ''rounding_policy'']"

fun fixable_loop :: "failure list \<Rightarrow> bool" where
  "fixable_loop [] = False"
| "fixable_loop (f # fs) = (if rule f \<in> set fixable_rules then True else fixable_loop fs)"

definition has_fixable_rules :: "rule_report \<Rightarrow> bool" where
  "has_fixable_rules rr = fixable_loop (failures rr)"

definition make_processing_decision :: "thresholds \<Rightarrow> invoice \<Rightarrow> rule_report \<Rightarrow> action" where
  "make_processing_decision th invoice rr =
     (let field_conf_ok = check_field_confidence th invoice;
          rules_ok = passed rr;
          category_ok = check_category_confidence th invoice
      in if field_conf_ok \<and> rules_ok \<and> category_ok then auto_post
         else if \<not> rules_ok \<and> has_fixable_rules rr then llm_fallback
         else needs_review)"

section \<open>Strings\<close>

fun startswith :: "str \<Rightarrow> str \<Rightarrow> bool" where
  "startswith s [] = True"
| "startswith [] (p # ps) = False"
| "startswith (c # cs) (p # ps) = (c = p \<and> startswith cs ps)"

text \<open>\<^verbatim>\<open>p in s\<close> on strings: \<open>p\<close> occurs in \<open>s\<close> as a contiguous piece.\<close>

fun str_contains :: "str \<Rightarrow> str \<Rightarrow> bool" where
  "str_contains [] p = (p = [])"
| "str_contains (c # cs) p = (startswith (c # cs) p \<or> str_contains cs p)"

text \<open>The characters \<^verbatim>\<open>str.strip()\<close> removes (\<^verbatim>\<open>str.isspace\<close>).\<close>

definition is_space :: "nat \<Rightarrow> bool" where
  "is_space c =
     ((9 \<le> c \<and> c \<le> 13) \<or> (28 \<le> c \<and> c \<le> 32) \<or> c = 133 \<or> c = 160 \<or> c = 5760 \<or>
      (8192 \<le> c \<and> c \<le> 8202) \<or> c = 8232 \<or> c = 8233 \<or> c = 8239 \<or> c = 8287 \<or> c = 12288)"

definition strip :: "str \<Rightarrow> str" where
  "strip s = rev (dropWhile is_space (rev (dropWhile is_space s)))"

text \<open>\<^verbatim>\<open>\d\<close> and \<^verbatim>\<open>[A-Za-z]\<close> of the regular expressions. \<^verbatim>\<open>\d\<close> is read on the ASCII
  digits: the OCR adapter maps Arabic-Indic and Persian digits to them, and the digits
  of other scripts are outside the model.\<close>

definition is_digit :: "nat \<Rightarrow> bool" where
  "is_digit c = (48 \<le> c \<and> c \<le> 57)"

definition is_alpha :: "nat \<Rightarrow> bool" where
  "is_alpha c = ((65 \<le> c \<and> c \<le> 90) \<or> (97 \<le> c \<and> c \<le> 122))"

text \<open>\<^verbatim>\<open>str.lower()\<close>: the ASCII capitals, and the two other characters whose lower
  case contains an ASCII letter (U+0130 and the Kelvin sign U+212A). The lower case of the
  remaining cased characters is not ASCII and not Arabic, so it never takes part in a
  match against the label tables below; those characters are left as they are.\<close>

fun lower :: "str \<Rightarrow> str" where
  "lower [] = []"
| "lower (c # cs) =
     (if 65 \<le> c \<and> c \<le> 90 then (c + 32) # lower cs
      else if c = 304 then 105 # 775 # lower cs
      else if c = 8490 then 107 # lower cs
      else c # lower cs)"

definition digit_val :: "nat \<Rightarrow> nat" where
  "digit_val c = c - 48"

definition nat_of_digits :: "str \<Rightarrow> nat" where
  "nat_of_digits ds = foldl (\<lambda>a c. 10 * a + digit_val c) 0 ds"

section \<open>Decimal from text\<close>

text \<open>
  \<^verbatim>\<open>Decimal(s)\<close> for a string: surrounding whitespace and underscores are dropped, then
  an optional sign, digits with an optional point, and an optional exponent must fill the
  whole string. \<open>None\<close> stands for \<^verbatim>\<open>InvalidOperation\<close>. The spellings of infinity
  and NaN are outside the model (they are read as invalid).
\<close>

definition parse_exponent :: "str \<Rightarrow> int option" where
  "parse_exponent s =
     (case s of
        [] \<Rightarrow> Some 0
      | e # r \<Rightarrow>
          if e = 69 \<or> e = 101 then
            (let (neg, ds) =
                   (case r of
                      [] \<Rightarrow> (False, [])
                    | c # r' \<Rightarrow> if c = 45 then (True, r') else if c = 43 then (False, r') else (False, r))
             in if ds \<noteq> [] \<and> list_all is_digit ds
                then Some (if neg then - int (nat_of_digits ds) else int (nat_of_digits ds))
                else None)
          else None)"

definition Decimal_of_str :: "str \<Rightarrow> decimal option" where
  "Decimal_of_str s =
     (let s1 = filter (\<lambda>c. c \<noteq> 95) (strip s);
          (neg, body) =
            (case s1 of
               [] \<Rightarrow> (False, [])
             | c # r \<Rightarrow> if c = 45 then (True, r) else if c = 43 then (False, r) else (False, s1));
          intpart = takeWhile is_digit body;
          r2 = dropWhile is_digit body;
          (fracpart, r3) =
            (case r2 of
               [] \<Rightarrow> ([], [])
             | c # r \<Rightarrow> if c = 46 then (takeWhile is_digit r, dropWhile is_digit r) else ([], r2))
      in if intpart = [] \<and> fracpart = [] then None
         else (case parse_exponent r3 of
                 None \<Rightarrow> None
               | Some e \<Rightarrow>
                   Some \<lparr>negative = neg, coefficient = nat_of_digits (intpart @ fracpart),
                         exponent = e - int (length fracpart)\<rparr>))"

section \<open>extract/deterministic.py: tokens, amounts and currency\<close>

record token =
  tok_text :: str
  tok_confidence :: real
  tok_page :: int
  tok_bbox :: bbox

text \<open>\<^verbatim>\<open>Evidence(page=token.page, bbox=token.bbox, text=token.text,
  confidence=token.confidence)\<close>. A token was validated when it was built, so the
  constructor has nothing to refuse.\<close>

definition evidence_of :: "token \<Rightarrow> evidence" where
  "evidence_of t =
     \<lparr>ev_page = tok_page t, ev_bbox = tok_bbox t, ev_text = tok_text t,
      ev_confidence = tok_confidence t\<rparr>"

text \<open>\<^verbatim>\<open>_parse_amount\<close>. \<open>44\<close> is the comma, \<open>46\<close> the point, \<open>45\<close> the minus sign.\<close>

definition parse_amount :: "str \<Rightarrow> decimal option" where
  "parse_amount text0 =
     (let amount_text = filter (\<lambda>c. is_digit c \<or> c = 46 \<or> c = 44 \<or> c = 45) text0
      in if amount_text = [] then None
         else Decimal_of_str
           (if 44 \<in> set amount_text \<and> 46 \<in> set amount_text
            then filter (\<lambda>c. c \<noteq> 44) amount_text
            else if 44 \<in> set amount_text
            then (if count_list amount_text 44 = 1 \<and>
                     length (drop 1 (dropWhile (\<lambda>c. c \<noteq> 44) amount_text)) \<le> 2
                  then map (\<lambda>c. if c = 44 then 46 else c) amount_text
                  else filter (\<lambda>c. c \<noteq> 44) amount_text)
            else amount_text))"

definition currency_patterns :: "(str \<times> str list) list" where
  "currency_patterns =
     [(ascii ''EUR'',
       [[8364], ascii ''EUR'', ascii ''euro'', ascii ''euros'', [1610, 1608, 1585, 1608]]),
      (ascii ''USD'',
       [ascii ''$'', ascii ''USD'', ascii ''dollar'', ascii ''dollars'',
        [1583, 1608, 1604, 1575, 1585]]),
      (ascii ''GBP'',
       [[163], ascii ''GBP'', ascii ''pound'', ascii ''pounds'', [1580, 1606, 1610, 1607]]),
      (ascii ''JPY'',
       [[165], ascii ''JPY'', ascii ''yen'', [1610, 1606]]),
      (ascii ''SAR'',
       [ascii ''SAR'', ascii ''riyal'', [1585, 1610, 1575, 1604]]),
      (ascii ''AED'',
       [ascii ''AED'', ascii ''dirham'', [1583, 1585, 1607, 1605]]),
      (ascii ''EGP'',
       [ascii ''EGP'', ascii ''pound'', [1580, 1606, 1610, 1607, 32, 1605, 1589, 1585, 1610]]),
      (ascii ''QAR'',
       [ascii ''QAR'', ascii ''riyal'', [1585, 1610, 1575, 1604, 32, 1602, 1591, 1585, 1610]]),
      (ascii ''KWD'',
       [ascii ''KWD'', ascii ''dinar'', [1583, 1610, 1606, 1575, 1585]]),
      (ascii ''BHD'',
       [ascii ''BHD'', ascii ''dinar'',
        [1583, 1610, 1606, 1575, 1585, 32, 1576, 1581, 1585, 1610, 1606, 1610]])]"

text \<open>\<^verbatim>\<open>_find_currency\<close>: three nested iterations over the tokens, the entries of the table
  and the symbols of an entry, carrying \<^verbatim>\<open>best_match\<close> and \<^verbatim>\<open>best_confidence\<close>.\<close>

type_synonym best = "field_value option \<times> real"

fun currency_symbols_loop :: "token \<Rightarrow> str \<Rightarrow> str list \<Rightarrow> best \<Rightarrow> best" where
  "currency_symbols_loop t currency_code [] b = b"
| "currency_symbols_loop t currency_code (symbol # symbols) b =
     currency_symbols_loop t currency_code symbols
       (if str_contains (tok_text t) symbol
        then (let confidence = 9 / 10
              in if confidence > snd b
                 then (Some \<lparr>val = VStr currency_code, confidence = confidence,
                             evidence = [evidence_of t]\<rparr>, confidence)
                 else b)
        else b)"

fun currency_codes_loop :: "token \<Rightarrow> (str \<times> str list) list \<Rightarrow> best \<Rightarrow> best" where
  "currency_codes_loop t [] b = b"
| "currency_codes_loop t ((currency_code, symbols) # entries) b =
     currency_codes_loop t entries (currency_symbols_loop t currency_code symbols b)"

fun currency_tokens_loop :: "token list \<Rightarrow> best \<Rightarrow> best" where
  "currency_tokens_loop [] b = b"
| "currency_tokens_loop (t # ts) b =
     currency_tokens_loop ts (currency_codes_loop t currency_patterns b)"

definition find_currency :: "token list \<Rightarrow> bool \<Rightarrow> field_value option" where
  "find_currency tokens required =
     (let best_match = fst (currency_tokens_loop tokens (None, 0))
      in if required \<and> best_match = None
         then Some \<lparr>val = VStr (ascii ''EUR''), confidence = 1 / 10, evidence = []\<rparr>
         else best_match)"

section \<open>Python truthiness and number conversions\<close>

fun truthy :: "pyvalue \<Rightarrow> bool" where
  "truthy VNone = False"
| "truthy (VBool b) = b"
| "truthy (VInt i) = (i \<noteq> 0)"
| "truthy (VFloat r) = (r \<noteq> 0)"
| "truthy (VStr s) = (s \<noteq> [])"
| "truthy (VDecimal d) = (coefficient d \<noteq> 0)"
| "truthy (VDate d) = True"
| "truthy (VList xs) = (xs \<noteq> [])"
| "truthy (VDict kvs) = (kvs \<noteq> [])"

text \<open>\<^verbatim>\<open>field and field.value\<close>: the value of an optional field when the field is there
  and its value is truthy.\<close>

definition present :: "field_value option \<Rightarrow> pyvalue option" where
  "present f =
     (case f of None \<Rightarrow> None | Some fv \<Rightarrow> if truthy (val fv) then Some (val fv) else None)"

fun digits_of :: "nat \<Rightarrow> str" where
  "digits_of n = (if n < 10 then [48 + n] else digits_of (n div 10) @ [48 + n mod 10])"

declare digits_of.simps [simp del]

definition signed_digits :: "int \<Rightarrow> str" where
  "signed_digits k = (if k < 0 then 45 # digits_of (nat (- k)) else 43 # digits_of (nat k))"

text \<open>\<^verbatim>\<open>str(d)\<close> for a \<^verbatim>\<open>Decimal\<close> (\<^verbatim>\<open>Decimal.__str__\<close>, scientific notation included).\<close>

definition Decimal_str :: "decimal \<Rightarrow> str" where
  "Decimal_str d =
     (let sign = (if negative d then [45] else []);
          ds = digits_of (coefficient d);
          leftdigits = exponent d + int (length ds);
          dotplace = (if exponent d \<le> 0 \<and> leftdigits > - 6 then leftdigits else 1);
          intpart =
            (if dotplace \<le> 0 then [48]
             else if dotplace \<ge> int (length ds)
             then ds @ replicate (nat (dotplace - int (length ds))) 48
             else take (nat dotplace) ds);
          fracpart =
            (if dotplace \<le> 0 then 46 # replicate (nat (- dotplace)) 48 @ ds
             else if dotplace \<ge> int (length ds) then []
             else 46 # drop (nat dotplace) ds);
          exp = (if leftdigits = dotplace then [] else 69 # signed_digits (leftdigits - dotplace))
      in sign @ intpart @ fracpart @ exp)"

text \<open>\<^verbatim>\<open>str(x)\<close> for a float, read back as a \<^verbatim>\<open>Decimal\<close>: the decimal expansion with at
  least one and at most 17 places (Python prints the shortest expansion that reads back as
  the same float; the scientific notation of very large and very small floats is not
  modelled).\<close>

fun float_places :: "nat \<Rightarrow> nat \<Rightarrow> real \<Rightarrow> nat" where
  "float_places 0 k r = k"
| "float_places (Suc fuel) k r =
     (if of_int \<lfloor>r * 10 ^ k\<rfloor> = r * 10 ^ k then k else float_places fuel (Suc k) r)"

definition decimal_of_float :: "real \<Rightarrow> decimal" where
  "decimal_of_float r =
     (let k = float_places 16 1 r
      in \<lparr>negative = (r < 0), coefficient = nat \<lfloor>\<bar>r\<bar> * 10 ^ k\<rfloor>, exponent = - int k\<rparr>)"

text \<open>\<^verbatim>\<open>Decimal(str(v))\<close>; \<open>None\<close> when the constructor raises.\<close>

fun Decimal_of_value :: "pyvalue \<Rightarrow> decimal option" where
  "Decimal_of_value VNone = None"
| "Decimal_of_value (VBool b) = None"
| "Decimal_of_value (VInt i) = Some \<lparr>negative = (i < 0), coefficient = nat \<bar>i\<bar>, exponent = 0\<rparr>"
| "Decimal_of_value (VFloat r) = Some (decimal_of_float r)"
| "Decimal_of_value (VStr s) = Decimal_of_str s"
| "Decimal_of_value (VDecimal d) = Some d"
| "Decimal_of_value (VDate d) = None"
| "Decimal_of_value (VList xs) = None"
| "Decimal_of_value (VDict kvs) = None"

definition to_decimal :: "pyvalue \<Rightarrow> real option" where
  "to_decimal v = map_option dec_val (Decimal_of_value v)"

text \<open>\<^verbatim>\<open>float(v)\<close>; \<open>None\<close> when it raises. Strings are read with the syntax of decimal
  literals.\<close>

fun float_of_value :: "pyvalue \<Rightarrow> real option" where
  "float_of_value VNone = None"
| "float_of_value (VBool b) = Some (if b then 1 else 0)"
| "float_of_value (VInt i) = Some (of_int i)"
| "float_of_value (VFloat r) = Some r"
| "float_of_value (VStr s) = map_option dec_val (Decimal_of_str s)"
| "float_of_value (VDecimal d) = Some (dec_val d)"
| "float_of_value (VDate d) = None"
| "float_of_value (VList xs) = None"
| "float_of_value (VDict kvs) = None"

definition date_less :: "date \<Rightarrow> date \<Rightarrow> bool" where
  "date_less a b =
     (year a < year b \<or> (year a = year b \<and> (month a < month b \<or> (month a = month b \<and> day a < day b))))"

section \<open>rules/engine.py\<close>

text \<open>Each \<^verbatim>\<open>try\<close> block is a function into \<open>option\<close>: \<open>None\<close> is an exception, which the
  \<^verbatim>\<open>except\<close> clause turns into a failure of its own.\<close>

definition add_present :: "field_value option \<Rightarrow> real \<Rightarrow> real option" where
  "add_present f acc =
     (case present f of None \<Rightarrow> Some acc | Some v \<Rightarrow> map_option (\<lambda>d. acc + d) (to_decimal v))"

definition sub_present :: "field_value option \<Rightarrow> real \<Rightarrow> real option" where
  "sub_present f acc =
     (case present f of None \<Rightarrow> Some acc | Some v \<Rightarrow> map_option (\<lambda>d. acc - d) (to_decimal v))"

definition validate_arithmetic_try :: "thresholds \<Rightarrow> invoice \<Rightarrow> failure list option" where
  "validate_arithmetic_try th invoice =
     do {
       grand_total' \<leftarrow> to_decimal (val (grand_total (amounts invoice)));
       with_subtotal \<leftarrow>
         (case present (subtotal (amounts invoice)) of
            Some v \<Rightarrow> map_option (\<lambda>subtotal'. 0 + subtotal') (to_decimal v)
          | None \<Rightarrow> Some grand_total');
       with_tax \<leftarrow> add_present (tax_amount (amounts invoice)) with_subtotal;
       with_shipping \<leftarrow> add_present (shipping (amounts invoice)) with_tax;
       expected_total \<leftarrow> sub_present (discount (amounts invoice)) with_shipping;
       Some (if expected_total \<noteq> 0
             then (let relative_error = \<bar>grand_total' - expected_total\<bar> / \<bar>expected_total\<bar>
                   in if relative_error > arithmetic_tolerance th
                      then [\<lparr>rule = ascii ''arithmetic_balance'', path = ascii ''/amounts/grand_total'',
                             expected = Some expected_total, actual = Some grand_total',
                             tolerance = Some (arithmetic_tolerance th)\<rparr>]
                      else [])
             else [])
     }"

definition validate_arithmetic :: "thresholds \<Rightarrow> invoice \<Rightarrow> failure list" where
  "validate_arithmetic th invoice =
     (case validate_arithmetic_try th invoice of
        Some fs \<Rightarrow> fs
      | None \<Rightarrow> [mk_failure ''arithmetic_balance'' ''/amounts''])"

fun line_totals :: "line_item list \<Rightarrow> real \<times> real \<Rightarrow> (real \<times> real) option" where
  "line_totals [] acc = Some acc"
| "line_totals (li # lis) (line_total, line_tax_total) =
     do {
       line_total' \<leftarrow>
         (case (present (quantity li), present (unit_price li)) of
            (Some q, Some p) \<Rightarrow>
               do { qty \<leftarrow> to_decimal q; unit_price' \<leftarrow> to_decimal p;
                    Some (line_total + qty * unit_price') }
          | _ \<Rightarrow> Some line_total);
       line_tax_total' \<leftarrow> add_present (li_tax_amount li) line_tax_total;
       line_totals lis (line_total', line_tax_total')
     }"

definition validate_line_sum_try :: "thresholds \<Rightarrow> invoice \<Rightarrow> failure list option" where
  "validate_line_sum_try th invoice =
     do {
       (line_total, line_tax_total) \<leftarrow> line_totals (line_items invoice) (0, 0);
       invoice_subtotal \<leftarrow>
         (case present (subtotal (amounts invoice)) of Some v \<Rightarrow> to_decimal v | None \<Rightarrow> Some 0);
       invoice_tax_total \<leftarrow>
         (case present (tax_amount (amounts invoice)) of Some v \<Rightarrow> to_decimal v | None \<Rightarrow> Some 0);
       Some ((if invoice_subtotal \<noteq> 0
              then (let subtotal_error = \<bar>invoice_subtotal - line_total\<bar> / \<bar>invoice_subtotal\<bar>
                    in if subtotal_error > arithmetic_tolerance th
                       then [\<lparr>rule = ascii ''line_sum_subtotal'', path = ascii ''/amounts/subtotal'',
                              expected = Some line_total, actual = Some invoice_subtotal,
                              tolerance = None\<rparr>]
                       else [])
              else []) @
             (if invoice_tax_total \<noteq> 0
              then (let tax_error = \<bar>invoice_tax_total - line_tax_total\<bar> / \<bar>invoice_tax_total\<bar>
                    in if tax_error > arithmetic_tolerance th
                       then [\<lparr>rule = ascii ''line_sum_tax'', path = ascii ''/amounts/tax_amount'',
                              expected = Some line_tax_total, actual = Some invoice_tax_total,
                              tolerance = None\<rparr>]
                       else [])
              else []))
     }"

definition validate_line_sum :: "thresholds \<Rightarrow> invoice \<Rightarrow> failure list" where
  "validate_line_sum th invoice =
     (case validate_line_sum_try th invoice of
        Some fs \<Rightarrow> fs
      | None \<Rightarrow> [mk_failure ''line_sum'' ''/line_items''])"

fun is_date :: "pyvalue \<Rightarrow> bool" where
  "is_date (VDate d) = True"
| "is_date v = False"

definition validate_dates :: "invoice \<Rightarrow> failure list" where
  "validate_dates invoice =
     (if \<not> truthy (val (invoice_date invoice))
      then [mk_failure ''required_date'' ''/invoice_date'']
      else if \<not> is_date (val (invoice_date invoice))
      then [mk_failure ''date_format'' ''/invoice_date'']
      else []) @
     (case present (due_date invoice) of
        None \<Rightarrow> []
      | Some due \<Rightarrow>
          (case due of
             VDate d \<Rightarrow>
               (case val (invoice_date invoice) of
                  VDate i \<Rightarrow> if date_less d i then [mk_failure ''date_logic'' ''/due_date''] else []
                | _ \<Rightarrow> [])
           | _ \<Rightarrow> [mk_failure ''date_format'' ''/due_date'']))"

definition currency_codes :: "str list" where
  "currency_codes =
     [ascii ''EUR'', ascii ''USD'', ascii ''GBP'', ascii ''JPY'', ascii ''SAR'', ascii ''AED'',
      ascii ''EGP'', ascii ''QAR'', ascii ''KWD'', ascii ''BHD'']"

definition amount_fields :: "invoice \<Rightarrow> (string \<times> field_value option) list" where
  "amount_fields invoice =
     [(''grand_total'', Some (grand_total (amounts invoice))),
      (''subtotal'', subtotal (amounts invoice)),
      (''tax_amount'', tax_amount (amounts invoice)),
      (''discount'', discount (amounts invoice)),
      (''shipping'', shipping (amounts invoice))]"

fun non_negative_loop :: "(string \<times> field_value option) list \<Rightarrow> failure list" where
  "non_negative_loop [] = []"
| "non_negative_loop ((field_name, field_value) # rest) =
     (case field_value of
        None \<Rightarrow> []
      | Some fv \<Rightarrow>
          if val fv \<noteq> VNone
          then (case to_decimal (val fv) of
                  Some amount \<Rightarrow>
                    if amount < 0
                    then [mk_failure ''non_negative_amount'' (''/amounts/'' @ field_name)]
                    else []
                | None \<Rightarrow> [mk_failure ''amount_format'' (''/amounts/'' @ field_name)])
          else []) @
     non_negative_loop rest"

definition validate_currency :: "invoice \<Rightarrow> failure list" where
  "validate_currency invoice =
     (if \<not> truthy (val (currency (amounts invoice)))
      then [mk_failure ''required_currency'' ''/amounts/currency'']
      else if val (currency (amounts invoice)) \<notin> set (map VStr currency_codes)
      then [mk_failure ''currency_format'' ''/amounts/currency'']
      else []) @
     non_negative_loop (amount_fields invoice)"

definition validate_duplicate_hash :: "invoice \<Rightarrow> failure list" where
  "validate_duplicate_hash invoice =
     (if duplicate_hash invoice = None
      then [mk_failure ''duplicate_hash'' ''/duplicate_hash'']
      else [])"

definition validate_tax_coherence_try :: "thresholds \<Rightarrow> invoice \<Rightarrow> failure list option" where
  "validate_tax_coherence_try th invoice =
     (case (present (tax_rate (amounts invoice)), present (tax_amount (amounts invoice))) of
        (Some r, Some t) \<Rightarrow>
          do {
            tax_rate' \<leftarrow> float_of_value r;
            tax_amount' \<leftarrow> to_decimal t;
            (case present (subtotal (amounts invoice)) of
               None \<Rightarrow> Some []
             | Some s \<Rightarrow>
                 do {
                   subtotal' \<leftarrow> to_decimal s;
                   Some (let expected_tax = subtotal' * (tax_rate' / 100)
                         in if expected_tax \<noteq> 0
                            then (let tax_error = \<bar>tax_amount' - expected_tax\<bar> / \<bar>expected_tax\<bar>
                                  in if tax_error > arithmetic_tolerance th
                                     then [\<lparr>rule = ascii ''tax_coherence'',
                                            path = ascii ''/amounts/tax_amount'',
                                            expected = Some expected_tax, actual = Some tax_amount',
                                            tolerance = None\<rparr>]
                                     else [])
                            else [])
                 })
          }
      | _ \<Rightarrow> Some [])"

definition validate_tax_coherence :: "thresholds \<Rightarrow> invoice \<Rightarrow> failure list" where
  "validate_tax_coherence th invoice =
     (case validate_tax_coherence_try th invoice of
        Some fs \<Rightarrow> fs
      | None \<Rightarrow> [mk_failure ''tax_coherence'' ''/amounts''])"

text \<open>\<^verbatim>\<open>len(str(amount).split('.')[-1]) if '.' in str(amount) else 0\<close>\<close>

definition decimal_places :: "decimal \<Rightarrow> nat" where
  "decimal_places amount =
     (let s = Decimal_str amount
      in if 46 \<in> set s then length (takeWhile (\<lambda>c. c \<noteq> 46) (rev s)) else 0)"

fun rounding_loop :: "thresholds \<Rightarrow> (string \<times> field_value option) list \<Rightarrow> failure list" where
  "rounding_loop th [] = []"
| "rounding_loop th ((field_name, field_value) # rest) =
     (case field_value of
        None \<Rightarrow> []
      | Some fv \<Rightarrow>
          if val fv \<noteq> VNone
          then (case Decimal_of_value (val fv) of
                  Some amount \<Rightarrow>
                    if decimal_places amount > rounding_decimal_places th
                    then [mk_failure ''rounding_policy'' (''/amounts/'' @ field_name)]
                    else []
                | None \<Rightarrow> [])
          else []) @
     rounding_loop th rest"

definition validate_rounding_policy :: "thresholds \<Rightarrow> invoice \<Rightarrow> failure list" where
  "validate_rounding_policy th invoice = rounding_loop th (amount_fields invoice)"

definition validate_invoice :: "thresholds \<Rightarrow> invoice \<Rightarrow> rule_report" where
  "validate_invoice th invoice =
     (let failures' =
            validate_arithmetic th invoice @
            validate_line_sum th invoice @
            validate_dates invoice @
            validate_currency invoice @
            validate_duplicate_hash invoice @
            validate_tax_coherence th invoice @
            validate_rounding_policy th invoice;
          passed' = (length failures' = 0)
      in \<lparr>passed = passed', failures = failures', warnings = []\<rparr>)"

section \<open>Regular expressions\<close>

text \<open>
  The regular expressions of the extractor are sequences of bounded or unbounded
  repetitions of a character class (\<open>Cls P lo hi\<close>, \<open>hi = None\<close> for no upper bound),
  optional groups and the end anchor. \<open>re_match\<close> follows the order in which a
  backtracking matcher tries them: one more repetition first, the rest of the pattern when
  that fails. It returns what is left of the input behind the match.
\<close>

datatype rx = Cls "nat \<Rightarrow> bool" nat "nat option" | Opt "rx list" | End

function re_match :: "rx list \<Rightarrow> str \<Rightarrow> str option" where
  "re_match [] s = Some s"
| "re_match (Cls P lo hi # rs) s =
     (case (case s of
              [] \<Rightarrow> None
            | c # cs \<Rightarrow>
                if hi \<noteq> Some 0 \<and> P c
                then re_match (Cls P (lo - 1) (map_option (\<lambda>h. h - 1) hi) # rs) cs
                else None) of
        Some rest \<Rightarrow> Some rest
      | None \<Rightarrow> if lo = 0 then re_match rs s else None)"
| "re_match (Opt g # rs) s =
     (case re_match (g @ rs) s of Some rest \<Rightarrow> Some rest | None \<Rightarrow> re_match rs s)"
| "re_match (End # rs) s = (if s = [] then re_match rs s else None)"
  by pat_completeness auto
termination
  by (relation "measures [\<lambda>(rs, s). length s, \<lambda>(rs, s). size_list size rs]") auto

text \<open>\<^verbatim>\<open>re.search(pattern, s)\<close>: the text of the leftmost match (\<^verbatim>\<open>match.group(0)\<close>).\<close>

fun re_search :: "rx list \<Rightarrow> str \<Rightarrow> str option" where
  "re_search rs [] = (case re_match rs [] of Some rest \<Rightarrow> Some [] | None \<Rightarrow> None)"
| "re_search rs (c # cs) =
     (case re_match rs (c # cs) of
        Some rest \<Rightarrow> Some (take (length (c # cs) - length rest) (c # cs))
      | None \<Rightarrow> re_search rs cs)"

definition lit :: "nat \<Rightarrow> rx" where
  "lit c = Cls (\<lambda>x. x = c) 1 (Some 1)"

text \<open>\<^verbatim>\<open>s.split(sep)\<close> for a separator of one character.\<close>

fun split_on :: "nat \<Rightarrow> str \<Rightarrow> str list" where
  "split_on sep [] = [[]]"
| "split_on sep (c # cs) =
     (if c = sep then [] # split_on sep cs
      else (case split_on sep cs of p # ps \<Rightarrow> (c # p) # ps | [] \<Rightarrow> [[c]]))"

section \<open>extract/deterministic.py: dates and percentages\<close>

datatype date_order = YMD | DMY | MDY

definition rx_iso :: "rx list" where
  "rx_iso = [Cls is_digit 4 (Some 4), lit 45, Cls is_digit 2 (Some 2), lit 45, Cls is_digit 2 (Some 2)]"

definition rx_short :: "nat \<Rightarrow> rx list" where
  "rx_short sep =
     [Cls is_digit 1 (Some 2), lit sep, Cls is_digit 1 (Some 2), lit sep, Cls is_digit 4 (Some 4)]"

text \<open>\<^verbatim>\<open>_build_date_patterns\<close>: each pattern with the order of the fields in its format and
  the separator (\<open>47\<close> is the slash, \<open>45\<close> the hyphen, \<open>46\<close> the point).\<close>

definition date_patterns :: "(rx list \<times> date_order \<times> nat) list" where
  "date_patterns =
     [(rx_iso, YMD, 45),
      (rx_short 47, DMY, 47),
      (rx_short 47, MDY, 47),
      (rx_short 45, DMY, 45),
      (rx_short 45, MDY, 45),
      (rx_short 46, DMY, 46),
      (rx_short 46, MDY, 46),
      (rx_short 47, DMY, 47)]"

definition is_leap :: "nat \<Rightarrow> bool" where
  "is_leap y = (y mod 4 = 0 \<and> (y mod 100 \<noteq> 0 \<or> y mod 400 = 0))"

definition days_in_month :: "nat \<Rightarrow> nat \<Rightarrow> nat" where
  "days_in_month y m =
     (if m = 2 then (if is_leap y then 29 else 28)
      else if m = 4 \<or> m = 6 \<or> m = 9 \<or> m = 11 then 30 else 31)"

definition make_date :: "nat \<Rightarrow> nat \<Rightarrow> nat \<Rightarrow> date option" where
  "make_date y m d =
     (if 1 \<le> y \<and> 1 \<le> m \<and> m \<le> 12 \<and> 1 \<le> d \<and> d \<le> days_in_month y m
      then Some \<lparr>year = y, month = m, day = d\<rparr>
      else None)"

text \<open>
  \<^verbatim>\<open>datetime.strptime(date_str, format_str).date()\<close> on a text that one of the patterns
  above has matched: the three fields are numbers of the widths the pattern fixes;
  \<^verbatim>\<open>%m\<close> takes 1 to 12, \<^verbatim>\<open>%d\<close> takes 1 to 31, and the date must exist in the calendar.
  \<open>None\<close> stands for \<^verbatim>\<open>ValueError\<close>.
\<close>

definition strptime :: "str \<Rightarrow> date_order \<times> nat \<Rightarrow> date option" where
  "strptime date_str fmt =
     (case split_on (snd fmt) date_str of
        [a, b, c] \<Rightarrow>
          (case fst fmt of
             YMD \<Rightarrow> make_date (nat_of_digits a) (nat_of_digits b) (nat_of_digits c)
           | DMY \<Rightarrow> make_date (nat_of_digits c) (nat_of_digits b) (nat_of_digits a)
           | MDY \<Rightarrow> make_date (nat_of_digits c) (nat_of_digits a) (nat_of_digits b))
      | _ \<Rightarrow> None)"

fun parse_date_loop :: "(rx list \<times> date_order \<times> nat) list \<Rightarrow> str \<Rightarrow> date option" where
  "parse_date_loop [] text0 = None"
| "parse_date_loop ((pattern, format_str) # patterns) text0 =
     (case re_search pattern text0 of
        Some date_str \<Rightarrow>
          (case strptime date_str format_str of
             Some d \<Rightarrow> Some d
           | None \<Rightarrow> parse_date_loop patterns text0)
      | None \<Rightarrow> parse_date_loop patterns text0)"

definition parse_date :: "str \<Rightarrow> date option" where
  "parse_date text0 = parse_date_loop date_patterns text0"

text \<open>\<^verbatim>\<open>_parse_percentage\<close>: \<^verbatim>\<open>(\d+(?:\.\d+)?)\s*%\<close>; the first group is the part of the
  match made of digits and the point.\<close>

definition rx_percentage :: "rx list" where
  "rx_percentage =
     [Cls is_digit 1 None, Opt [lit 46, Cls is_digit 1 None], Cls is_space 0 None, lit 37]"

definition parse_percentage :: "str \<Rightarrow> real option" where
  "parse_percentage text0 =
     (case re_search rx_percentage text0 of
        Some m \<Rightarrow> map_option dec_val (Decimal_of_str (takeWhile (\<lambda>c. is_digit c \<or> c = 46) m))
      | None \<Rightarrow> None)"

section \<open>extract/deterministic.py: finding a field\<close>

definition label_patterns :: "(str \<times> str list) list" where
  "label_patterns =
     [(ascii ''total'',
       [ascii ''total'', ascii ''grand total'', ascii ''amount due'', ascii ''net total'',
        ascii ''final total'', ascii ''amount'', ascii ''sum'', ascii ''subtotal'',
        ascii ''total amount'', ascii ''invoice total'',
        [1575, 1604, 1573, 1580, 1605, 1575, 1604, 1610],
        [1575, 1604, 1605, 1580, 1605, 1608, 1593],
        [1575, 1604, 1605, 1576, 1604, 1594, 32, 1575, 1604, 1573, 1580, 1605, 1575, 1604, 1610],
        [1575, 1604, 1605, 1576, 1604, 1594, 32, 1575, 1604, 1605, 1587, 1578, 1581, 1602],
        [1575, 1604, 1605, 1576, 1604, 1594, 32, 1575, 1604, 1606, 1607, 1575, 1574, 1610],
        [1575, 1604, 1605, 1576, 1604, 1594, 32, 1575, 1604, 1589, 1575, 1601, 1610],
        [1573, 1580, 1605, 1575, 1604, 1610, 32, 1575, 1604, 1601, 1575, 1578, 1608, 1585, 1577]]),
      (ascii ''tax'',
       [ascii ''tax'', ascii ''vat'', ascii ''gst'', ascii ''sales tax'', ascii ''tax amount'',
        ascii ''tax total'', ascii ''value added tax'', ascii ''taxable amount'',
        ascii ''tax rate'', [1590, 1585, 1610, 1576, 1577],
        [1590, 1585, 1610, 1576, 1577, 32, 1575, 1604, 1602, 1610, 1605, 1577, 32, 1575, 1604, 1605, 1590, 1575, 1601, 1577],
        [1590, 1585, 1610, 1576, 1577, 32, 1575, 1604, 1605, 1576, 1610, 1593, 1575, 1578],
        [1605, 1576, 1604, 1594, 32, 1575, 1604, 1590, 1585, 1610, 1576, 1577],
        [1573, 1580, 1605, 1575, 1604, 1610, 32, 1575, 1604, 1590, 1585, 1610, 1576, 1577],
        [1606, 1587, 1576, 1577, 32, 1575, 1604, 1590, 1585, 1610, 1576, 1577],
        [1575, 1604, 1605, 1576, 1604, 1594, 32, 1575, 1604, 1582, 1575, 1590, 1593, 32, 1604, 1604, 1590, 1585, 1610, 1576, 1577]]),
      (ascii ''discount'',
       [ascii ''discount'', ascii ''deduction'', ascii ''rebate'', ascii ''discount amount'',
        ascii ''discount total'', ascii ''reduction'', ascii ''off'', ascii ''less'',
        ascii ''minus'', [1582, 1589, 1605], [1578, 1582, 1601, 1610, 1590],
        [1582, 1589, 1605, 32, 1575, 1604, 1605, 1576, 1604, 1594],
        [1573, 1580, 1605, 1575, 1604, 1610, 32, 1575, 1604, 1582, 1589, 1605],
        [1606, 1575, 1602, 1589], [1571, 1602, 1604]]),
      (ascii ''shipping'',
       [ascii ''shipping'', ascii ''delivery'', ascii ''freight'', ascii ''transport'',
        ascii ''shipping cost'', ascii ''delivery fee'', ascii ''freight charge'',
        ascii ''shipping fee'', [1575, 1604, 1588, 1581, 1606],
        [1575, 1604, 1578, 1608, 1589, 1610, 1604],
        [1575, 1604, 1588, 1581, 1606, 32, 1608, 1575, 1604, 1578, 1608, 1589, 1610, 1604],
        [1585, 1587, 1608, 1605, 32, 1575, 1604, 1588, 1581, 1606],
        [1578, 1603, 1604, 1601, 1577, 32, 1575, 1604, 1588, 1581, 1606]]),
      (ascii ''invoice_number'',
       [ascii ''invoice'', ascii ''invoice no'', ascii ''invoice number'', ascii ''inv no'',
        ascii ''inv number'', ascii ''bill'', ascii ''bill no'', ascii ''bill number'',
        ascii ''receipt'', ascii ''receipt no'', [1601, 1575, 1578, 1608, 1585, 1577],
        [1585, 1602, 1605, 32, 1575, 1604, 1601, 1575, 1578, 1608, 1585, 1577],
        [1601, 1575, 1578, 1608, 1585, 1577, 32, 1585, 1602, 1605],
        [1601, 1575, 1578, 1608, 1585, 1577, 32, 1585, 1602, 1605],
        [1573, 1610, 1589, 1575, 1604],
        [1585, 1602, 1605, 32, 1575, 1604, 1573, 1610, 1589, 1575, 1604]]),
      (ascii ''date'',
       [ascii ''date'', ascii ''invoice date'', ascii ''issue date'', ascii ''billing date'',
        ascii ''created'', ascii ''due date'', ascii ''payment due'', ascii ''expiry'',
        ascii ''valid until'', [1578, 1575, 1585, 1610, 1582],
        [1578, 1575, 1585, 1610, 1582, 32, 1575, 1604, 1601, 1575, 1578, 1608, 1585, 1577],
        [1578, 1575, 1585, 1610, 1582, 32, 1575, 1604, 1573, 1589, 1583, 1575, 1585],
        [1578, 1575, 1585, 1610, 1582, 32, 1575, 1604, 1575, 1587, 1578, 1581, 1602, 1575, 1602],
        [1578, 1575, 1585, 1610, 1582, 32, 1575, 1604, 1583, 1601, 1593],
        [1589, 1575, 1604, 1581, 32, 1581, 1578, 1609],
        [1578, 1575, 1585, 1610, 1582, 32, 1575, 1604, 1575, 1606, 1578, 1607, 1575, 1569]]),
      (ascii ''vendor'',
       [ascii ''from'', ascii ''vendor'', ascii ''supplier'', ascii ''company'',
        ascii ''business'', ascii ''seller'', ascii ''merchant'', ascii ''provider'',
        ascii ''contractor'', [1605, 1606], [1575, 1604, 1605, 1608, 1585, 1583],
        [1575, 1604, 1605, 1586, 1608, 1583], [1575, 1604, 1588, 1585, 1603, 1577],
        [1575, 1604, 1578, 1575, 1580, 1585], [1575, 1604, 1605, 1602, 1575, 1608, 1604]])]"

definition patterns_for :: "str \<Rightarrow> str list" where
  "patterns_for field_type =
     (case map_of label_patterns field_type of Some patterns \<Rightarrow> patterns | None \<Rightarrow> [])"

definition amount_types :: "str list" where
  "amount_types =
     [ascii ''total'', ascii ''tax'', ascii ''discount'', ascii ''shipping'', ascii ''subtotal'']"

definition is_sep :: "nat \<Rightarrow> bool" where
  "is_sep c = (c = 47 \<or> c = 45 \<or> c = 46)"

definition rx_number_chars :: "rx list" where
  "rx_number_chars = [Cls (\<lambda>c. is_digit c \<or> c = 46 \<or> c = 44) 1 None]"

definition rx_alnum :: "rx list" where
  "rx_alnum = [Cls (\<lambda>c. is_alpha c \<or> is_digit c) 1 (Some 1)]"

definition rx_date_like :: "rx list" where
  "rx_date_like =
     [Cls is_digit 1 (Some 4), Cls is_sep 1 (Some 1), Cls is_digit 1 (Some 2),
      Cls is_sep 1 (Some 1), Cls is_digit 1 (Some 4)]"

definition looks_like_value :: "str \<Rightarrow> str \<Rightarrow> bool" where
  "looks_like_value text0 field_type =
     (let text1 = strip text0
      in if field_type \<in> set amount_types
         then re_search rx_number_chars text1 \<noteq> None \<and> length text1 < 50
         else if field_type = ascii ''invoice_number''
         then re_search rx_alnum text1 \<noteq> None \<and> length text1 < 30
         else if field_type = ascii ''date''
         then re_search rx_date_like text1 \<noteq> None
         else if field_type = ascii ''vendor''
         then length text1 > 2 \<and> length text1 < 100 \<and> re_search rx_number_chars text1 = None
         else False)"

definition parse_field_value :: "str \<Rightarrow> str \<Rightarrow> pyvalue" where
  "parse_field_value text0 field_type =
     (let text1 = strip text0
      in if field_type \<in> set amount_types
         then (case parse_amount text1 of Some d \<Rightarrow> VDecimal d | None \<Rightarrow> VNone)
         else if field_type = ascii ''invoice_number'' then VStr text1
         else if field_type = ascii ''date''
         then (case parse_date text1 of Some d \<Rightarrow> VDate d | None \<Rightarrow> VNone)
         else if field_type = ascii ''vendor'' then VStr text1
         else if field_type = ascii ''tax_rate''
         then (case parse_percentage text1 of Some r \<Rightarrow> VFloat r | None \<Rightarrow> VNone)
         else VStr text1)"

definition calculate_token_distance :: "token \<Rightarrow> token \<Rightarrow> real" where
  "calculate_token_distance token1 token2 =
     (case tok_bbox token1 of (x1, y1, x2, y2) \<Rightarrow>
      case tok_bbox token2 of (x3, y3, x4, y4) \<Rightarrow>
        (let center1 = ((x1 + x2) / 2, (y1 + y2) / 2);
             center2 = ((x3 + x4) / 2, (y3 + y4) / 2)
         in sqrt ((fst center1 - fst center2)\<^sup>2 + (snd center1 - snd center2)\<^sup>2)))"

text \<open>\<^verbatim>\<open>_find_value_near_token\<close>: the tokens of the page within 200 units, sorted by
  distance (the sort is stable), and the first of them that looks like a value.\<close>

definition find_value_near_token :: "token list \<Rightarrow> token \<Rightarrow> str \<Rightarrow> token option" where
  "find_value_near_token tokens label_token field_type =
     (let nearby_tokens =
            filter (\<lambda>(t, distance). tok_page t = tok_page label_token \<and> distance < 200)
              (map (\<lambda>t. (t, calculate_token_distance label_token t)) tokens)
      in map_option fst
           (find (\<lambda>(t, distance). looks_like_value (tok_text t) field_type)
              (sort_key snd nearby_tokens)))"

definition calculate_field_confidence :: "token \<Rightarrow> token \<Rightarrow> str \<Rightarrow> real" where
  "calculate_field_confidence label_token value_token field_type =
     (let base_confidence = min (tok_confidence label_token) (tok_confidence value_token);
          distance = calculate_token_distance label_token value_token;
          distance_factor = max (1 / 10) (1 - distance / 500);
          pattern_factor = 8 / 10;
          text_quality = (if looks_like_value (tok_text value_token) field_type then 1 else 3 / 10);
          final_confidence = base_confidence * distance_factor * pattern_factor * text_quality
      in min 1 (max 0 final_confidence))"

text \<open>The body of \<^verbatim>\<open>if pattern.lower() in text:\<close> in \<^verbatim>\<open>_find_field_by_patterns\<close>.\<close>

definition field_update :: "token list \<Rightarrow> str \<Rightarrow> token \<Rightarrow> best \<Rightarrow> best" where
  "field_update tokens field_type t b =
     (case find_value_near_token tokens t field_type of
        None \<Rightarrow> b
      | Some value_token \<Rightarrow>
          (let confidence = calculate_field_confidence t value_token field_type
           in if confidence > snd b
              then (Some \<lparr>val = parse_field_value (tok_text value_token) field_type,
                          confidence = confidence,
                          evidence = [evidence_of value_token]\<rparr>, confidence)
              else b))"

fun field_patterns_loop :: "token list \<Rightarrow> str \<Rightarrow> token \<Rightarrow> str list \<Rightarrow> best \<Rightarrow> best" where
  "field_patterns_loop tokens field_type t [] b = b"
| "field_patterns_loop tokens field_type t (pattern # patterns) b =
     field_patterns_loop tokens field_type t patterns
       (if str_contains (lower (tok_text t)) (lower pattern)
        then field_update tokens field_type t b
        else b)"

fun field_tokens_loop :: "token list \<Rightarrow> str \<Rightarrow> str list \<Rightarrow> token list \<Rightarrow> best \<Rightarrow> best" where
  "field_tokens_loop tokens field_type patterns [] b = b"
| "field_tokens_loop tokens field_type patterns (t # ts) b =
     field_tokens_loop tokens field_type patterns ts
       (field_patterns_loop tokens field_type t patterns b)"

definition find_field_by_patterns :: "token list \<Rightarrow> str \<Rightarrow> bool \<Rightarrow> field_value option" where
  "find_field_by_patterns tokens field_type required =
     (let patterns = patterns_for field_type;
          best_match = fst (field_tokens_loop tokens field_type patterns tokens (None, 0))
      in if required \<and> best_match = None
         then Some \<lparr>val = VNone, confidence = 0, evidence = []\<rparr>
         else best_match)"

section \<open>extract/deterministic.py: the invoice\<close>

text \<open>The constructors of \<^verbatim>\<open>Amounts\<close>, \<^verbatim>\<open>LineItem\<close> and \<^verbatim>\<open>Invoice\<close> with their validators.
  \<^verbatim>\<open>str(v.value).strip() == ""\<close> can only hold for a string.\<close>

definition blank :: "pyvalue \<Rightarrow> bool" where
  "blank v = (case v of VNone \<Rightarrow> True | VStr s \<Rightarrow> strip s = [] | _ \<Rightarrow> False)"

definition Amounts :: "amounts \<Rightarrow> error + amounts" where
  "Amounts a =
     (if val (grand_total a) = VNone \<or> val (currency a) = VNone then Inl ValidationError
      else Inr a)"

definition LineItem :: "line_item \<Rightarrow> error + line_item" where
  "LineItem li = (if blank (val (description li)) then Inl ValidationError else Inr li)"

definition Invoice :: "invoice \<Rightarrow> error + invoice" where
  "Invoice i =
     (if blank (val (invoice_number i)) \<or> val (invoice_date i) = VNone \<or>
         blank (val (name (vendor i))) \<or> val (grand_total (amounts i)) = VNone \<or>
         val (currency (amounts i)) = VNone
      then Inl ValidationError
      else Inr i)"

fun join :: "str \<Rightarrow> str list \<Rightarrow> str" where
  "join sep [] = []"
| "join sep [s] = s"
| "join sep (s # t # ts) = s @ sep @ join sep (t # ts)"

text \<open>\<^verbatim>\<open>_create_layout_fingerprint\<close>: the texts of the first 15 tokens in the order of
  \<^verbatim>\<open>(page, bbox[1], bbox[0])\<close>, joined by \<open>|\<close>.\<close>

definition create_layout_fingerprint :: "token list \<Rightarrow> hexdigest" where
  "create_layout_fingerprint tokens =
     (let sorted_tokens =
            sort_key (\<lambda>t. (tok_page t, fst (snd (tok_bbox t)), fst (tok_bbox t))) tokens;
          top_texts = map tok_text (take 15 sorted_tokens)
      in MD5 (join [124] top_texts))"

text \<open>The vendor cache \<^verbatim>\<open>self.vendor_cache\<close> is the state of the extractor: a dictionary
  from layout hashes to the four cached fields.\<close>

record zones =
  z_address :: "field_value option"
  z_tax_id :: "field_value option"
  z_phone :: "field_value option"
  z_email :: "field_value option"

type_synonym vendor_cache = "hexdigest \<rightharpoonup> zones"

text \<open>\<^verbatim>\<open>a or b\<close> on optional fields (a \<^verbatim>\<open>FieldValue\<close> is truthy).\<close>

definition or_else :: "'a option \<Rightarrow> 'a option \<Rightarrow> 'a option" where
  "or_else a b = (case a of Some x \<Rightarrow> Some x | None \<Rightarrow> b)"

definition extract_vendor ::
  "vendor_cache \<Rightarrow> token list \<Rightarrow> hexdigest \<Rightarrow> (error + vendor) \<times> vendor_cache" where
  "extract_vendor cache tokens layout_hash' =
     (case find_field_by_patterns tokens (ascii ''vendor'') True of
        None \<Rightarrow> (Inl ValidationError, cache)
      | Some vendor_name \<Rightarrow>
          (let cached_zones = cache layout_hash';
               vendor' =
                 \<lparr>name = vendor_name,
                  address = or_else (find_field_by_patterns tokens (ascii ''address'') False)
                              (Option.bind cached_zones z_address),
                  tax_id = or_else (find_field_by_patterns tokens (ascii ''tax_id'') False)
                             (Option.bind cached_zones z_tax_id),
                  phone = or_else (find_field_by_patterns tokens (ascii ''phone'') False)
                            (Option.bind cached_zones z_phone),
                  email = or_else (find_field_by_patterns tokens (ascii ''email'') False)
                            (Option.bind cached_zones z_email),
                  layout_hash = Some layout_hash'\<rparr>
           in (Inr vendor',
               if cache layout_hash' = None
               then cache(layout_hash' \<mapsto>
                      \<lparr>z_address = address vendor', z_tax_id = tax_id vendor',
                       z_phone = phone vendor', z_email = email vendor'\<rparr>)
               else cache)))"

definition extract_amounts :: "token list \<Rightarrow> error + amounts" where
  "extract_amounts tokens =
     (case (find_field_by_patterns tokens (ascii ''total'') True, find_currency tokens True) of
        (Some grand_total', Some currency') \<Rightarrow>
          Amounts
            \<lparr>subtotal = find_field_by_patterns tokens (ascii ''subtotal'') False,
             tax_amount = find_field_by_patterns tokens (ascii ''tax'') False,
             tax_rate = find_field_by_patterns tokens (ascii ''tax_rate'') False,
             discount = find_field_by_patterns tokens (ascii ''discount'') False,
             shipping = find_field_by_patterns tokens (ascii ''shipping'') False,
             grand_total = grand_total',
             currency = currency'\<rparr>
      | _ \<Rightarrow> Inl ValidationError)"

text \<open>A field whose confidence and evidence are those of one token.\<close>

definition token_field :: "token \<Rightarrow> pyvalue \<Rightarrow> field_value" where
  "token_field t v = \<lparr>val = v, confidence = tok_confidence t, evidence = [evidence_of t]\<rparr>"

definition looks_like_line_item :: "str \<Rightarrow> bool" where
  "looks_like_line_item text0 =
     (re_search [Cls is_alpha 1 (Some 1)] text0 \<noteq> None \<and>
      re_search [Cls is_digit 1 (Some 1)] text0 \<noteq> None \<and> length text0 > 5)"

fun line_item_groups :: "token list \<Rightarrow> token list \<Rightarrow> token list list" where
  "line_item_groups [] current_item = (if current_item \<noteq> [] then [current_item] else [])"
| "line_item_groups (t # ts) current_item =
     (if looks_like_line_item (tok_text t) then line_item_groups ts (current_item @ [t])
      else if current_item \<noteq> [] then current_item # line_item_groups ts []
      else line_item_groups ts [])"

definition find_line_item_tokens :: "token list \<Rightarrow> token list list" where
  "find_line_item_tokens tokens = line_item_groups tokens []"

text \<open>\<^verbatim>\<open>max(tokens, key=lambda t: len(t.text))\<close>: the first token of greatest length.\<close>

fun longest_token :: "token \<Rightarrow> token list \<Rightarrow> token" where
  "longest_token best_token [] = best_token"
| "longest_token best_token (t # ts) =
     longest_token (if length (tok_text t) > length (tok_text best_token) then t else best_token) ts"

definition extract_line_description :: "token list \<Rightarrow> field_value option" where
  "extract_line_description tokens =
     (case tokens of
        [] \<Rightarrow> None
      | t # ts \<Rightarrow>
          (let best_token = longest_token t ts
           in Some (token_field best_token (VStr (tok_text best_token)))))"

definition rx_quantity :: "rx list" where
  "rx_quantity = [Cls is_digit 1 None, Opt [lit 46, Cls is_digit 1 None], End]"

definition extract_line_quantity :: "token list \<Rightarrow> field_value option" where
  "extract_line_quantity tokens =
     (case find (\<lambda>t. re_match rx_quantity (strip (tok_text t)) \<noteq> None) tokens of
        None \<Rightarrow> None
      | Some t \<Rightarrow>
          Some (token_field t
            (case Decimal_of_str (tok_text t) of Some d \<Rightarrow> VFloat (dec_val d) | None \<Rightarrow> VNone)))"

text \<open>\<^verbatim>\<open>if amount:\<close> holds for a \<^verbatim>\<open>Decimal\<close> other than zero.\<close>

definition truthy_amount :: "str \<Rightarrow> decimal option" where
  "truthy_amount text0 =
     (case parse_amount text0 of
        Some d \<Rightarrow> if coefficient d \<noteq> 0 then Some d else None
      | None \<Rightarrow> None)"

definition extract_line_unit_price :: "token list \<Rightarrow> field_value option" where
  "extract_line_unit_price tokens =
     (case find (\<lambda>t. truthy_amount (tok_text t) \<noteq> None) tokens of
        None \<Rightarrow> None
      | Some t \<Rightarrow> map_option (\<lambda>d. token_field t (VDecimal d)) (truthy_amount (tok_text t)))"

definition extract_line_total :: "token list \<Rightarrow> field_value option" where
  "extract_line_total tokens =
     (case rev (filter (\<lambda>t. truthy_amount (tok_text t) \<noteq> None) tokens) of
        [] \<Rightarrow> None
      | t # ts \<Rightarrow> map_option (\<lambda>d. token_field t (VDecimal d)) (truthy_amount (tok_text t)))"

definition contains_any :: "str \<Rightarrow> str list \<Rightarrow> bool" where
  "contains_any text0 keywords = list_ex (\<lambda>keyword. str_contains text0 keyword) keywords"

definition extract_line_tax_amount :: "token list \<Rightarrow> field_value option" where
  "extract_line_tax_amount tokens =
     (case find (\<lambda>t. contains_any (lower (tok_text t))
                        [ascii ''tax'', ascii ''vat'', [1590, 1585, 1610, 1576, 1577]] \<and>
                      truthy_amount (tok_text t) \<noteq> None) tokens of
        None \<Rightarrow> None
      | Some t \<Rightarrow> map_option (\<lambda>d. token_field t (VDecimal d)) (truthy_amount (tok_text t)))"

definition truthy_percentage :: "str \<Rightarrow> real option" where
  "truthy_percentage text0 =
     (case parse_percentage text0 of
        Some r \<Rightarrow> if r \<noteq> 0 then Some r else None
      | None \<Rightarrow> None)"

definition extract_line_tax_rate :: "token list \<Rightarrow> field_value option" where
  "extract_line_tax_rate tokens =
     (case find (\<lambda>t. truthy_percentage (tok_text t) \<noteq> None) tokens of
        None \<Rightarrow> None
      | Some t \<Rightarrow> map_option (\<lambda>r. token_field t (VFloat r)) (truthy_percentage (tok_text t)))"

fun line_items_loop :: "token list list \<Rightarrow> error + line_item list" where
  "line_items_loop [] = Inr []"
| "line_items_loop (item_token_group # groups) =
     (case present (extract_line_description item_token_group) of
        None \<Rightarrow> line_items_loop groups
      | Some v \<Rightarrow>
          (case extract_line_description item_token_group of
             None \<Rightarrow> line_items_loop groups
           | Some description' \<Rightarrow>
               (case LineItem
                       \<lparr>description = description',
                        quantity = extract_line_quantity item_token_group,
                        unit_price = extract_line_unit_price item_token_group,
                        total = extract_line_total item_token_group,
                        li_tax_amount = extract_line_tax_amount item_token_group,
                        li_tax_rate = extract_line_tax_rate item_token_group,
                        category = None,
                        category_confidence = None\<rparr> of
                  Inl e \<Rightarrow> Inl e
                | Inr line_item' \<Rightarrow>
                    (case line_items_loop groups of
                       Inl e \<Rightarrow> Inl e
                     | Inr rest \<Rightarrow> Inr (line_item' # rest)))))"

definition extract_line_items :: "token list \<Rightarrow> error + line_item list" where
  "extract_line_items tokens = line_items_loop (find_line_item_tokens tokens)"

definition extract_notes :: "token list \<Rightarrow> field_value option" where
  "extract_notes tokens =
     (case filter (\<lambda>t. length (tok_text t) > 20 \<and> \<not> looks_like_value (tok_text t) (ascii ''total''))
             tokens of
        [] \<Rightarrow> None
      | t # ts \<Rightarrow>
          Some \<lparr>val = VStr (join [32] (map tok_text (t # ts))),
                confidence = foldl min (tok_confidence t) (map tok_confidence ts),
                evidence = map evidence_of (t # ts)\<rparr>)"

definition extract_payment_terms :: "token list \<Rightarrow> field_value option" where
  "extract_payment_terms tokens =
     map_option (\<lambda>t. token_field t (VStr (tok_text t)))
       (find (\<lambda>t. contains_any (lower (tok_text t))
                     [ascii ''payment'', ascii ''terms'', ascii ''due'', ascii ''net'', ascii ''days''])
          tokens)"

definition extract_po_number :: "token list \<Rightarrow> field_value option" where
  "extract_po_number tokens =
     map_option (\<lambda>t. token_field t (VStr (tok_text t)))
       (find (\<lambda>t. contains_any (lower (tok_text t))
                     [ascii ''po'', ascii ''purchase order'', ascii ''order no'', ascii ''order number''])
          tokens)"

definition zero_pad :: "nat \<Rightarrow> str \<Rightarrow> str" where
  "zero_pad n s = replicate (n - length s) 48 @ s"

text \<open>\<^verbatim>\<open>f"{v}"\<close> for the values the duplicate hash is built from: \<^verbatim>\<open>None\<close>, a string, a
  date (\<^verbatim>\<open>YYYY-MM-DD\<close>) or a \<^verbatim>\<open>Decimal\<close>. The extractor gives it no list or dictionary.\<close>

fun py_str :: "pyvalue \<Rightarrow> str" where
  "py_str VNone = ascii ''None''"
| "py_str (VBool b) = (if b then ascii ''True'' else ascii ''False'')"
| "py_str (VInt i) = (if i < 0 then 45 # digits_of (nat (- i)) else digits_of (nat i))"
| "py_str (VFloat r) = Decimal_str (decimal_of_float r)"
| "py_str (VStr s) = s"
| "py_str (VDecimal d) = Decimal_str d"
| "py_str (VDate d) =
     zero_pad 4 (digits_of (year d)) @ [45] @ zero_pad 2 (digits_of (month d)) @ [45] @
     zero_pad 2 (digits_of (day d))"
| "py_str (VList xs) = []"
| "py_str (VDict kvs) = []"

definition create_duplicate_hash :: "pyvalue \<Rightarrow> pyvalue \<Rightarrow> pyvalue \<Rightarrow> pyvalue \<Rightarrow> hexdigest" where
  "create_duplicate_hash vendor_name invoice_number' invoice_date' grand_total' =
     MD5 (py_str vendor_name @ [124] @ py_str invoice_number' @ [124] @
          py_str invoice_date' @ [124] @ py_str grand_total')"

text \<open>
  \<^verbatim>\<open>extract_invoice\<close>. The state of the extractor (the vendor cache) and the clock that
  \<^verbatim>\<open>created_at\<close> reads (\<^verbatim>\<open>default_factory=datetime.now\<close>) are arguments; the new cache is
  returned with the result. \<open>Inl\<close> is the \<^verbatim>\<open>ValidationError\<close> of a constructor.
\<close>

definition extract_invoice ::
  "vendor_cache \<Rightarrow> datetime \<Rightarrow> token list \<Rightarrow> str \<Rightarrow> str \<Rightarrow> (error + invoice) \<times> vendor_cache" where
  "extract_invoice cache now tokens filename processing_id' =
     (let layout_hash' = create_layout_fingerprint tokens;
          (vendor_result, cache') = extract_vendor cache tokens layout_hash'
      in ((case vendor_result of
             Inl e \<Rightarrow> Inl e
           | Inr vendor' \<Rightarrow>
               (case extract_amounts tokens of
                  Inl e \<Rightarrow> Inl e
                | Inr amounts' \<Rightarrow>
                    (case (find_field_by_patterns tokens (ascii ''invoice_number'') True,
                           find_field_by_patterns tokens (ascii ''date'') True) of
                       (Some invoice_number', Some invoice_date') \<Rightarrow>
                         (case extract_line_items tokens of
                            Inl e \<Rightarrow> Inl e
                          | Inr line_items' \<Rightarrow>
                              Invoice
                                \<lparr>invoice_number = invoice_number',
                                 invoice_date = invoice_date',
                                 due_date = find_field_by_patterns tokens (ascii ''due_date'') False,
                                 vendor = vendor',
                                 amounts = amounts',
                                 line_items = line_items',
                                 inv_notes = extract_notes tokens,
                                 payment_terms = extract_payment_terms tokens,
                                 po_number = extract_po_number tokens,
                                 processing_id = processing_id',
                                 created_at = now,
                                 source_file = filename,
                                 extraction_method = ascii ''deterministic'',
                                 llm_patch_applied = False,
                                 human_reviewed = False,
                                 duplicate_hash =
                                   Some (create_duplicate_hash (val (name vendor'))
                                           (val invoice_number') (val invoice_date')
                                           (val (grand_total amounts')))\<rparr>)
                     | _ \<Rightarrow> Inl ValidationError))),
          cache'))"

section \<open>llm/fallback.py\<close>

record json_patch =
  op :: str
  patch_path :: str
  patch_value :: pyvalue
  rationale :: str
  cites_bbox :: "str list"

fun str_items :: "pyvalue list \<Rightarrow> str list option" where
  "str_items [] = Some []"
| "str_items (VStr s # vs) = map_option ((#) s) (str_items vs)"
| "str_items (v # vs) = None"

text \<open>
  \<^verbatim>\<open>JsonPatch(**patch_dict)\<close>; \<open>None\<close> when it raises. The element must be a dictionary
  that has the keys \<^verbatim>\<open>op\<close>, \<^verbatim>\<open>path\<close>, \<^verbatim>\<open>value\<close> and \<^verbatim>\<open>rationale\<close>; \<^verbatim>\<open>cites_bbox\<close> defaults
  to the empty list; other keys are ignored. A string field is given a JSON string and
  \<^verbatim>\<open>cites_bbox\<close> a list of JSON strings (what else the validation library would convert to
  a string is not modelled).
\<close>

definition JsonPatch :: "pyvalue \<Rightarrow> json_patch option" where
  "JsonPatch patch_dict =
     (case patch_dict of
        VDict kvs \<Rightarrow>
          (case map_of kvs (ascii ''op'') of
             Some (VStr op') \<Rightarrow>
               (case map_of kvs (ascii ''path'') of
                  Some (VStr path') \<Rightarrow>
                    (case map_of kvs (ascii ''value'') of
                       Some value' \<Rightarrow>
                         (case map_of kvs (ascii ''rationale'') of
                            Some (VStr rationale') \<Rightarrow>
                              (case map_of kvs (ascii ''cites_bbox'') of
                                 None \<Rightarrow>
                                   Some \<lparr>op = op', patch_path = path', patch_value = value',
                                         rationale = rationale', cites_bbox = []\<rparr>
                               | Some (VList xs) \<Rightarrow>
                                   map_option
                                     (\<lambda>cites. \<lparr>op = op', patch_path = path', patch_value = value',
                                                rationale = rationale', cites_bbox = cites\<rparr>)
                                     (str_items xs)
                               | Some _ \<Rightarrow> None)
                          | _ \<Rightarrow> None)
                     | None \<Rightarrow> None)
                | _ \<Rightarrow> None)
           | _ \<Rightarrow> None)
      | _ \<Rightarrow> None)"

text \<open>
  \<^verbatim>\<open>_parse_llm_response\<close>. The argument is what \<^verbatim>\<open>json.loads(response)\<close> returned, \<open>None\<close>
  when it raised \<^verbatim>\<open>JSONDecodeError\<close>. An element that \<^verbatim>\<open>JsonPatch\<close> refuses is skipped.
\<close>

definition parse_llm_response :: "pyvalue option \<Rightarrow> json_patch list option" where
  "parse_llm_response loaded =
     (case loaded of
        Some (VList patch_data) \<Rightarrow> Some (List.map_filter JsonPatch patch_data)
      | _ \<Rightarrow> None)"

text \<open>\<^verbatim>\<open>propose_patch\<close> for a given response of the model: the parsed list, or the empty
  list when there is none.\<close>

definition propose_patch :: "pyvalue option \<Rightarrow> json_patch list option" where
  "propose_patch loaded =
     (case parse_llm_response loaded of
        Some (p # ps) \<Rightarrow> Some (p # ps)
      | _ \<Rightarrow> Some [])"

text \<open>\<^verbatim>\<open>_validate_patch\<close>. No function of the repository calls it.\<close>

definition validate_patch :: "json_patch \<Rightarrow> bool" where
  "validate_patch patch =
     (if \<not> startswith (patch_path patch) (ascii ''/'') then False
      else if op patch \<notin> set [ascii ''replace'', ascii ''add''] then False
      else if rationale patch = [] \<or> length (strip (rationale patch)) < 10 then False
      else if cites_bbox patch = [] then False
      else True)"

section \<open>pipeline/route.py: patches and the final result\<close>

definition strip_char :: "nat \<Rightarrow> str \<Rightarrow> str" where
  "strip_char c s = rev (dropWhile (\<lambda>x. x = c) (rev (dropWhile (\<lambda>x. x = c) s)))"

text \<open>\<^verbatim>\<open>_apply_replace_patch\<close>; \<open>None\<close> when it raises (\<^verbatim>\<open>IndexError\<close> for a path that stops
  at \<^verbatim>\<open>amounts\<close>, \<^verbatim>\<open>AttributeError\<close> for a field that is absent), before anything is changed.\<close>

definition apply_replace_patch :: "invoice \<Rightarrow> json_patch \<Rightarrow> invoice option" where
  "apply_replace_patch invoice patch =
     (case split_on 47 (strip_char 47 (patch_path patch)) of
        [] \<Rightarrow> None
      | p0 # rest \<Rightarrow>
          if p0 = ascii ''amounts'' then
            (case rest of
               [] \<Rightarrow> None
             | p1 # rest' \<Rightarrow>
                 if p1 = ascii ''grand_total'' then
                   Some (invoice\<lparr>amounts := (amounts invoice)
                           \<lparr>grand_total := (grand_total (amounts invoice))\<lparr>val := patch_value patch\<rparr>\<rparr>\<rparr>)
                 else if p1 = ascii ''subtotal'' then
                   (case subtotal (amounts invoice) of
                      None \<Rightarrow> None
                    | Some fv \<Rightarrow>
                        Some (invoice\<lparr>amounts := (amounts invoice)
                                \<lparr>subtotal := Some (fv\<lparr>val := patch_value patch\<rparr>)\<rparr>\<rparr>))
                 else if p1 = ascii ''tax_amount'' then
                   (case tax_amount (amounts invoice) of
                      None \<Rightarrow> None
                    | Some fv \<Rightarrow>
                        Some (invoice\<lparr>amounts := (amounts invoice)
                                \<lparr>tax_amount := Some (fv\<lparr>val := patch_value patch\<rparr>)\<rparr>\<rparr>))
                 else Some invoice)
          else if p0 = ascii ''invoice_number'' then
            Some (invoice\<lparr>invoice_number := (invoice_number invoice)\<lparr>val := patch_value patch\<rparr>\<rparr>)
          else if p0 = ascii ''invoice_date'' then
            Some (invoice\<lparr>invoice_date := (invoice_date invoice)\<lparr>val := patch_value patch\<rparr>\<rparr>)
          else Some invoice)"

text \<open>\<^verbatim>\<open>_apply_patch_to_invoice\<close>: an exception of one patch is logged and the loop goes
  on; \<^verbatim>\<open>_apply_add_patch\<close> does nothing.\<close>

fun apply_patch_to_invoice :: "invoice \<Rightarrow> json_patch list \<Rightarrow> invoice" where
  "apply_patch_to_invoice invoice [] = invoice"
| "apply_patch_to_invoice invoice (patch # llm_patch) =
     apply_patch_to_invoice
       (if op patch = ascii ''replace''
        then (case apply_replace_patch invoice patch of Some invoice' \<Rightarrow> invoice' | None \<Rightarrow> invoice)
        else invoice)
       llm_patch"

text \<open>\<^verbatim>\<open>ProcessingResult\<close>; \<^verbatim>\<open>final_json\<close> is \<^verbatim>\<open>invoice.dict()\<close> of the invoice of the result
  and \<^verbatim>\<open>audit_trail\<close> is empty, so neither is kept.\<close>

record processing_result =
  res_invoice :: invoice
  res_rule_report :: rule_report
  res_llm_patch :: "json_patch list option"
  res_status :: str

text \<open>
  \<^verbatim>\<open>_process_invoice_async\<close> from the validation stage on, for an extracted and
  classified invoice. \<open>fallback\<close> is what \<^verbatim>\<open>_apply_llm_fallback\<close> returns when it is called
  (\<open>None\<close> when the call failed).
\<close>

definition process_from_validation ::
  "thresholds \<Rightarrow> invoice \<Rightarrow> json_patch list option \<Rightarrow> processing_result" where
  "process_from_validation th invoice fallback =
     (let rule_report = validate_invoice th invoice;
          decision = make_processing_decision th invoice rule_report
      in case decision of
           auto_post \<Rightarrow>
             \<lparr>res_invoice = invoice, res_rule_report = rule_report, res_llm_patch = None,
              res_status = ascii ''auto_posted''\<rparr>
         | llm_fallback \<Rightarrow>
             (case fallback of
                Some (p # ps) \<Rightarrow>
                  (let invoice' = apply_patch_to_invoice invoice (p # ps);
                       rule_report' = validate_invoice th invoice'
                   in if passed rule_report'
                      then \<lparr>res_invoice = invoice', res_rule_report = rule_report',
                            res_llm_patch = Some (p # ps), res_status = ascii ''auto_posted''\<rparr>
                      else \<lparr>res_invoice = invoice', res_rule_report = rule_report',
                            res_llm_patch = Some (p # ps), res_status = ascii ''needs_review''\<rparr>)
              | _ \<Rightarrow>
                  \<lparr>res_invoice = invoice, res_rule_report = rule_report, res_llm_patch = None,
                   res_status = ascii ''needs_review''\<rparr>)
         | needs_review \<Rightarrow>
             \<lparr>res_invoice = invoice, res_rule_report = rule_report, res_llm_patch = None,
              res_status = ascii ''needs_review''\<rparr>)"

section \<open>The specification's predicates\<close>

text \<open>
  Section 4.5 of the specification: \<open>field_conf_ok\<close> holds when every required field has a
  confidence of at least \<open>field_confidence_threshold\<close>; \<open>category_ok\<close> holds when every line
  item with a category has a \<open>category_confidence\<close> of at least
  \<open>category_confidence_threshold\<close>, and so it holds when there is no line item. The required
  fields are those of section 3: the invoice number, the invoice date, the vendor name, the
  grand total and the currency.
\<close>

definition spec_required_fields :: "invoice \<Rightarrow> field_value list" where
  "spec_required_fields invoice =
     [invoice_number invoice, invoice_date invoice, name (vendor invoice),
      grand_total (amounts invoice), currency (amounts invoice)]"

definition spec_field_conf_ok :: "thresholds \<Rightarrow> invoice \<Rightarrow> bool" where
  "spec_field_conf_ok th invoice =
     list_all (\<lambda>f. field_confidence_threshold th \<le> confidence f) (spec_required_fields invoice)"

definition spec_category_ok :: "thresholds \<Rightarrow> invoice \<Rightarrow> bool" where
  "spec_category_ok th invoice =
     list_all
       (\<lambda>li. category li \<noteq> None \<longrightarrow>
          (case category_confidence li of
             None \<Rightarrow> False
           | Some c \<Rightarrow> category_confidence_threshold th \<le> c))
       (line_items invoice)"

text \<open>
  A line item as the classification stage leaves it: \<^verbatim>\<open>_classify_line_items\<close> sets
  \<^verbatim>\<open>category\<close> and \<^verbatim>\<open>category_confidence\<close> in the same step or sets neither, and the
  classifier gives a described item a confidence above zero.
\<close>

definition classified_together :: "line_item \<Rightarrow> bool" where
  "classified_together li \<longleftrightarrow>
     (category li = None \<longleftrightarrow> category_confidence li = None) \<and> category_confidence li \<noteq> Some 0"

text \<open>
  Section 4.3, step 2 of the specification: the type predicate of a candidate text for a
  field. A monetary field takes a text that contains a digit and has at most 50 characters;
  the invoice number one that contains a letter or a digit and has at most 30 characters;
  a date one that matches a registered date pattern; the vendor one of more than 2 and
  fewer than 100 characters with no digit in it; a percentage one that matches
  \<^verbatim>\<open>N(.N)?%\<close>.
\<close>

definition spec_type_predicate :: "str \<Rightarrow> str \<Rightarrow> bool" where
  "spec_type_predicate text0 field_type =
     (if field_type \<in> set amount_types
      then list_ex is_digit text0 \<and> length text0 \<le> 50
      else if field_type = ascii ''invoice_number''
      then list_ex (\<lambda>c. is_alpha c \<or> is_digit c) text0 \<and> length text0 \<le> 30
      else if field_type = ascii ''date''
      then list_ex (\<lambda>p. re_search (fst p) text0 \<noteq> None) date_patterns
      else if field_type = ascii ''vendor''
      then 2 < length text0 \<and> length text0 < 100 \<and> \<not> list_ex is_digit text0
      else if field_type = ascii ''tax_rate''
      then re_search [Cls is_digit 1 None, Opt [lit 46, Cls is_digit 1 None], lit 37] text0 \<noteq> None
      else False)"

text \<open>
  What \<^verbatim>\<open>_looks_like_value\<close> tests, said of the characters of the stripped text: a monetary
  field takes a text with a digit, a point or a comma in it and fewer than 50 characters;
  the invoice number one with an ASCII letter or digit in it and fewer than 30 characters;
  a date one in which one to four digits, a separator, one or two digits, a separator and
  one to four digits follow each other; the vendor one of more than 2 and fewer than 100
  characters with no digit, point or comma in it; no other field type takes any text.
\<close>

definition value_shape :: "str \<Rightarrow> str \<Rightarrow> bool" where
  "value_shape text0 field_type =
     (if field_type \<in> set amount_types
      then list_ex (\<lambda>c. is_digit c \<or> c = 46 \<or> c = 44) (strip text0) \<and> length (strip text0) < 50
      else if field_type = ascii ''invoice_number''
      then list_ex (\<lambda>c. is_alpha c \<or> is_digit c) (strip text0) \<and> length (strip text0) < 30
      else if field_type = ascii ''date''
      then re_search rx_date_like (strip text0) \<noteq> None
      else if field_type = ascii ''vendor''
      then 2 < length (strip text0) \<and> length (strip text0) < 100 \<and>
           \<not> list_ex (\<lambda>c. is_digit c \<or> c = 46 \<or> c = 44) (strip text0)
      else False)"

text \<open>The \<^verbatim>\<open>FieldValue\<close>s inside an invoice.\<close>

definition present_fields :: "field_value option list \<Rightarrow> field_value list" where
  "present_fields fs = concat (map (\<lambda>f. case f of None \<Rightarrow> [] | Some fv \<Rightarrow> [fv]) fs)"

definition line_item_fields :: "line_item \<Rightarrow> field_value list" where
  "line_item_fields li =
     description li #
     present_fields [quantity li, unit_price li, total li, li_tax_amount li, li_tax_rate li]"

text \<open>The fields that \<^verbatim>\<open>_find_field_by_patterns\<close> and \<^verbatim>\<open>_find_currency\<close> fill, the fields
  that copy the confidence of a token, and all of them.\<close>

definition found_fields :: "invoice \<Rightarrow> field_value list" where
  "found_fields invoice =
     [invoice_number invoice, invoice_date invoice, name (vendor invoice),
      grand_total (amounts invoice), currency (amounts invoice)] @
     present_fields
       [due_date invoice, address (vendor invoice), tax_id (vendor invoice),
        phone (vendor invoice), email (vendor invoice), subtotal (amounts invoice),
        tax_amount (amounts invoice), tax_rate (amounts invoice), discount (amounts invoice),
        shipping (amounts invoice)]"

definition copied_fields :: "invoice \<Rightarrow> field_value list" where
  "copied_fields invoice =
     present_fields [inv_notes invoice, payment_terms invoice, po_number invoice] @
     concat (map line_item_fields (line_items invoice))"

definition invoice_fields :: "invoice \<Rightarrow> field_value list" where
  "invoice_fields invoice = found_fields invoice @ copied_fields invoice"

text \<open>The three parts of the invariant of \<open>FieldValue\<close> in section 3 of the specification.\<close>

definition confidence_in_range :: "field_value \<Rightarrow> bool" where
  "confidence_in_range f \<longleftrightarrow> 0 \<le> confidence f \<and> confidence f \<le> 1"

definition unconfirmed_is_low :: "field_value \<Rightarrow> bool" where
  "unconfirmed_is_low f \<longleftrightarrow> (evidence f = [] \<longrightarrow> confidence f \<le> 1 / 2)"

definition value_has_confidence :: "field_value \<Rightarrow> bool" where
  "value_has_confidence f \<longleftrightarrow> (val f \<noteq> VNone \<longrightarrow> 0 < confidence f)"

text \<open>
  What the extractor keeps true of its fields: a field with evidence and a confidence in
  \<open>(0, 1]\<close>; the best match that the search for a field or for the currency carries; a
  field that satisfies the three parts of the invariant; and a field that has evidence and
  the confidence of one of the tokens.
\<close>

definition confirmed :: "field_value \<Rightarrow> bool" where
  "confirmed f \<longleftrightarrow> 0 < confidence f \<and> confidence f \<le> 1 \<and> evidence f \<noteq> []"

definition best_ok :: "best \<Rightarrow> bool" where
  "best_ok b \<longleftrightarrow> 0 \<le> snd b \<and> (case fst b of None \<Rightarrow> True | Some f \<Rightarrow> confirmed f)"

definition field_ok :: "field_value \<Rightarrow> bool" where
  "field_ok f \<longleftrightarrow> confidence_in_range f \<and> unconfirmed_is_low f \<and> value_has_confidence f"

definition copied_from :: "token list \<Rightarrow> field_value \<Rightarrow> bool" where
  "copied_from tokens f \<longleftrightarrow>
     (\<exists>t \<in> set tokens. confidence f = tok_confidence t) \<and> evidence f \<noteq> []"

section \<open>Example data\<close>

definition no_evidence_field :: "pyvalue \<Rightarrow> real \<Rightarrow> field_value" where
  "no_evidence_field v c = \<lparr>val = v, confidence = c, evidence = []\<rparr>"

definition example_amounts :: amounts where
  "example_amounts =
     \<lparr>subtotal = None, tax_amount = None, tax_rate = None, discount = None, shipping = None,
      grand_total = no_evidence_field (VDecimal \<lparr>negative = False, coefficient = 10000, exponent = - 2\<rparr>) (9 / 10),
      currency = no_evidence_field (VStr (ascii ''EUR'')) (9 / 10)\<rparr>"

definition example_invoice :: invoice where
  "example_invoice =
     \<lparr>invoice_number = no_evidence_field (VStr (ascii ''INV-1'')) (9 / 10),
      invoice_date = no_evidence_field (VDate \<lparr>year = 2024, month = 3, day = 15\<rparr>) (9 / 10),
      due_date = None,
      vendor = \<lparr>name = no_evidence_field (VStr (ascii ''ACME'')) (9 / 10), address = None,
                tax_id = None, phone = None, email = None, layout_hash = None\<rparr>,
      amounts = example_amounts,
      line_items = [],
      inv_notes = None, payment_terms = None, po_number = None,
      processing_id = ascii ''job'',
      created_at = Datetime \<lparr>year = 2024, month = 3, day = 16\<rparr> 0,
      source_file = ascii ''a.pdf'',
      extraction_method = ascii ''deterministic'',
      llm_patch_applied = False,
      human_reviewed = False,
      duplicate_hash = Some (MD5 (ascii ''ACME|INV-1|2024-03-15|100.00''))\<rparr>"

definition mixed_report :: rule_report where
  "mixed_report =
     \<lparr>passed = False,
      failures = [mk_failure ''arithmetic_balance'' ''/amounts/grand_total'',
                  mk_failure ''date_logic'' ''/due_date''],
      warnings = []\<rparr>"

definition example_token :: "string \<Rightarrow> token" where
  "example_token s =
     \<lparr>tok_text = ascii s, tok_confidence = 9 / 10, tok_page = 0, tok_bbox = (0, 0, 100, 20)\<rparr>"

text \<open>What \<^verbatim>\<open>_find_currency\<close> carries once a symbol has matched.\<close>

definition currency_hit :: "str set \<Rightarrow> best \<Rightarrow> bool" where
  "currency_hit C b \<longleftrightarrow>
     (\<exists>fv code. b = (Some fv, 9 / 10) \<and> val fv = VStr code \<and> code \<in> C \<and> confidence fv = 9 / 10)"

definition example_invoice_with_tax :: invoice where
  "example_invoice_with_tax =
     example_invoice\<lparr>amounts :=
       example_amounts\<lparr>tax_amount :=
         Some (no_evidence_field (VDecimal \<lparr>negative = False, coefficient = 2000, exponent = - 2\<rparr>) (9 / 10))\<rparr>\<rparr>"

text \<open>The score of a label and a candidate as the specification words it: the smaller
  confidence, times the distance factor, times 0.8, times the type factor, clamped to
  \<open>[0, 1]\<close>, with the Euclidean distance between the centres of the two boxes.\<close>

definition bbox_center :: "bbox \<Rightarrow> real \<times> real" where
  "bbox_center b = (case b of (x1, y1, x2, y2) \<Rightarrow> ((x1 + x2) / 2, (y1 + y2) / 2))"

definition euclidean_distance :: "real \<times> real \<Rightarrow> real \<times> real \<Rightarrow> real" where
  "euclidean_distance p q = sqrt ((fst p - fst q)\<^sup>2 + (snd p - snd q)\<^sup>2)"

definition clamp01 :: "real \<Rightarrow> real" where
  "clamp01 x = (if x < 0 then 0 else if 1 < x then 1 else x)"

definition spec_score :: "token \<Rightarrow> token \<Rightarrow> str \<Rightarrow> real" where
  "spec_score label cand field_type =
     clamp01
       (min (tok_confidence label) (tok_confidence cand) *
        max (1 / 10)
          (1 - euclidean_distance (bbox_center (tok_bbox label)) (bbox_center (tok_bbox cand)) / 500) *
        (8 / 10) *
        (if spec_type_predicate (tok_text cand) field_type then 1 else 3 / 10))"

text \<open>An invoice with one line item, and a report without failures.\<close>

definition example_line_item :: "str option \<Rightarrow> real option \<Rightarrow> line_item" where
  "example_line_item c cc =
     \<lparr>description = no_evidence_field (VStr (ascii ''Paper A4'')) (9 / 10),
      quantity = None, unit_price = None, total = None, li_tax_amount = None, li_tax_rate = None,
      category = c, category_confidence = cc\<rparr>"

definition invoice_with_item :: "str option \<Rightarrow> real option \<Rightarrow> invoice" where
  "invoice_with_item c cc = example_invoice\<lparr>line_items := [example_line_item c cc]\<rparr>"

definition clean_report :: rule_report where
  "clean_report = \<lparr>passed = True, failures = [], warnings = []\<rparr>"


definition bad_patch_response :: pyvalue where
  "bad_patch_response =
     VList [VDict [(ascii ''op'', VStr (ascii ''remove'')),
                   (ascii ''path'', VStr (ascii ''/amounts/grand_total'')),
                   (ascii ''value'', VInt 0),
                   (ascii ''rationale'', VStr (ascii ''x''))]]"

definition bad_patch :: json_patch where
  "bad_patch =
     \<lparr>op = ascii ''remove'', patch_path = ascii ''/amounts/grand_total'', patch_value = VInt 0,
      rationale = ascii ''x'', cites_bbox = []\<rparr>"

definition example_invoice_with_shipping :: invoice where
  "example_invoice_with_shipping =
     example_invoice\<lparr>amounts :=
       example_amounts\<lparr>shipping :=
         Some (no_evidence_field (VDecimal \<lparr>negative = False, coefficient = 2000, exponent = - 2\<rparr>) (9 / 10))\<rparr>\<rparr>"

definition total_patch :: json_patch where
  "total_patch =
     \<lparr>op = ascii ''replace'', patch_path = ascii ''/amounts/grand_total'', patch_value = VInt 1000,
      rationale = ascii ''Grand total text shows 1000'', cites_bbox = [ascii ''p0#bx_1'']\<rparr>"

definition example_invoice_patched :: invoice where
  "example_invoice_patched =
     example_invoice\<lparr>amounts :=
       example_amounts\<lparr>shipping :=
         Some (no_evidence_field (VDecimal \<lparr>negative = False, coefficient = 2000, exponent = - 2\<rparr>) (9 / 10)),
         grand_total := no_evidence_field (VInt 1000) (9 / 10)\<rparr>\<rparr>"

text \<open>The caches the extractor can reach: what \<^verbatim>\<open>_extract_vendor\<close> stores for a layout
  are four absent fields.\<close>

definition cache_ok :: "vendor_cache \<Rightarrow> bool" where
  "cache_ok cache \<longleftrightarrow>
     (\<forall>h z. cache h = Some z \<longrightarrow>
        z = \<lparr>z_address = None, z_tax_id = None, z_phone = None, z_email = None\<rparr>)"

text \<open>Two tokens of one page, the invoice the extractor builds from them, and the times
  of two runs.\<close>

definition vendor_text :: str where "vendor_text = ascii ''ACME Company''"

definition header_text :: str where "header_text = ascii ''Invoice total date 15/03/2024''"

definition vendor_token :: token where
  "vendor_token =
     \<lparr>tok_text = vendor_text, tok_confidence = 95 / 100, tok_page = 0, tok_bbox = (0, 0, 100, 20)\<rparr>"

definition header_token :: token where
  "header_token =
     \<lparr>tok_text = header_text, tok_confidence = 95 / 100, tok_page = 0, tok_bbox = (0, 30, 100, 50)\<rparr>"

definition example_tokens :: "token list" where
  "example_tokens = [vendor_token, header_token]"

text \<open>Some label of a field type occurs in the text of a token.\<close>

definition label_hit :: "str \<Rightarrow> token \<Rightarrow> bool" where
  "label_hit field_type t =
     list_ex (\<lambda>pattern. str_contains (lower (tok_text t)) (lower pattern)) (patterns_for field_type)"

definition header_field :: "pyvalue \<Rightarrow> field_value" where
  "header_field v = \<lparr>val = v, confidence = 19 / 25, evidence = [evidence_of header_token]\<rparr>"

definition example_extracted :: "datetime \<Rightarrow> invoice" where
  "example_extracted now =
     \<lparr>invoice_number = header_field (VStr header_text),
      invoice_date = header_field (VDate \<lparr>year = 2024, month = 3, day = 15\<rparr>),
      due_date = None,
      vendor =
        \<lparr>name = \<lparr>val = VStr vendor_text, confidence = 19 / 25, evidence = [evidence_of vendor_token]\<rparr>,
         address = None, tax_id = None, phone = None, email = None,
         layout_hash = Some (MD5 (ascii ''ACME Company|Invoice total date 15/03/2024''))\<rparr>,
      amounts =
        \<lparr>subtotal = None, tax_amount = None, tax_rate = None, discount = None, shipping = None,
         grand_total = header_field (VDecimal \<lparr>negative = False, coefficient = 15032024, exponent = 0\<rparr>),
         currency = \<lparr>val = VStr (ascii ''EUR''), confidence = 1 / 10, evidence = []\<rparr>\<rparr>,
      line_items =
        [\<lparr>description = token_field header_token (VStr header_text),
          quantity = None,
          unit_price = Some (token_field header_token
            (VDecimal \<lparr>negative = False, coefficient = 15032024, exponent = 0\<rparr>)),
          total = Some (token_field header_token
            (VDecimal \<lparr>negative = False, coefficient = 15032024, exponent = 0\<rparr>)),
          li_tax_amount = None, li_tax_rate = None, category = None, category_confidence = None\<rparr>],
      inv_notes = None, payment_terms = None, po_number = None,
      processing_id = ascii ''job-1'',
      created_at = now,
      source_file = ascii ''invoice.pdf'',
      extraction_method = ascii ''deterministic'',
      llm_patch_applied = False,
      human_reviewed = False,
      duplicate_hash =
        Some (MD5 (ascii ''ACME Company|Invoice total date 15/03/2024|2024-03-15|15032024''))\<rparr>"

text \<open>A third token, on the next page, that the character recognition gave the
  confidence \<open>0\<close>, and the invoice the extractor builds from the three tokens.\<close>

definition zero_confidence_token :: token where
  "zero_confidence_token =
     \<lparr>tok_text = ascii ''Net terms'', tok_confidence = 0, tok_page = 1, tok_bbox = (0, 0, 100, 20)\<rparr>"

definition example_extracted_with_terms :: "datetime \<Rightarrow> invoice" where
  "example_extracted_with_terms now =
     (example_extracted now)
       \<lparr>vendor := (vendor (example_extracted now))
          \<lparr>layout_hash := Some (MD5 (ascii ''ACME Company|Invoice total date 15/03/2024|Net terms''))\<rparr>,
        payment_terms := Some (token_field zero_confidence_token (VStr (ascii ''Net terms'')))\<rparr>"

definition first_run_time :: datetime where
  "first_run_time = Datetime \<lparr>year = 2024, month = 3, day = 16\<rparr> 0"

definition second_run_time :: datetime where
  "second_run_time = Datetime \<lparr>year = 2024, month = 3, day = 16\<rparr> 1"

section \<open>Properties of the decision\<close>

lemma fixable_loop_iff: "fixable_loop fs \<longleftrightarrow> (\<exists>f \<in> set fs. rule f \<in> set fixable_rules)"
  by (induction fs) auto

lemma field_confidence_loop_iff:
  "field_confidence_loop th fs \<longleftrightarrow> (\<forall>f \<in> set fs. field_confidence_threshold th \<le> confidence f)"
  by (induction fs) auto

lemma category_confidence_loop_iff:
  "category_confidence_loop th lis \<longleftrightarrow>
     (\<forall>li \<in> set lis. \<forall>c. category_confidence li = Some c \<longrightarrow>
        c = 0 \<or> category_confidence_threshold th \<le> c)"
  by (induction lis) (auto split: option.splits)

lemma check_field_confidence_spec:
  "check_field_confidence th invoice = spec_field_conf_ok th invoice"
  by (auto simp: check_field_confidence_def spec_field_conf_ok_def spec_required_fields_def)

lemma check_category_confidence_spec:
  assumes "\<forall>li \<in> set (line_items invoice). classified_together li"
  shows "check_category_confidence th invoice = spec_category_ok th invoice"
proof -
  have "category_confidence_loop th lis \<longleftrightarrow>
      list_all (\<lambda>li. category li \<noteq> None \<longrightarrow>
          (case category_confidence li of
             None \<Rightarrow> False
           | Some c \<Rightarrow> category_confidence_threshold th \<le> c)) lis"
    if "\<forall>li \<in> set lis. classified_together li" for lis
    using that
    by (induction lis) (auto simp: classified_together_def split: option.splits)
  from this [OF assms] show ?thesis
    by (simp add: check_category_confidence_def spec_category_ok_def)
qed

text \<open>
  C1, as the code has it. For an invoice whose line items carry \<open>category\<close> and
  \<open>category_confidence\<close> together, with a confidence other than zero, the decision is
  \<open>auto_post\<close> exactly when \<open>field_conf_ok\<close>, \<open>rules_passed\<close> and \<open>category_ok\<close> of section
  4.5 all hold; otherwise it is \<open>llm_fallback\<close> exactly when the rules failed and at least
  one failure of the report names a rule of the repairable set; in every other case it is
  \<open>needs_review\<close>.
\<close>

theorem decision_policy:
  assumes "\<forall>li \<in> set (line_items invoice). classified_together li"
  shows
  "(make_processing_decision th invoice rr = auto_post \<longleftrightarrow>
      spec_field_conf_ok th invoice \<and> passed rr \<and> spec_category_ok th invoice) \<and>
   (make_processing_decision th invoice rr = llm_fallback \<longleftrightarrow>
      \<not> (spec_field_conf_ok th invoice \<and> passed rr \<and> spec_category_ok th invoice) \<and>
      \<not> passed rr \<and> (\<exists>f \<in> set (failures rr). rule f \<in> set fixable_rules)) \<and>
   (make_processing_decision th invoice rr = needs_review \<longleftrightarrow>
      \<not> (spec_field_conf_ok th invoice \<and> passed rr \<and> spec_category_ok th invoice) \<and>
      \<not> (\<not> passed rr \<and> (\<exists>f \<in> set (failures rr). rule f \<in> set fixable_rules)))"
  by (simp add: make_processing_decision_def has_fixable_rules_def fixable_loop_iff Let_def
      check_field_confidence_spec check_category_confidence_spec [OF assms])

theorem decision_policy_witness:
  "make_processing_decision ProcessingThresholds
     (invoice_with_item (Some (ascii ''office'')) (Some (8 / 10))) mixed_report = llm_fallback \<and>
   make_processing_decision ProcessingThresholds
     (invoice_with_item (Some (ascii ''office'')) (Some (8 / 10))) clean_report = auto_post"
proof -
  let ?i = "invoice_with_item (Some (ascii ''office'')) (Some (8 / 10))"
  have together: "\<forall>li \<in> set (line_items ?i). classified_together li"
    by (simp add: invoice_with_item_def example_line_item_def classified_together_def)
  have failed: "\<not> passed mixed_report"
    by (simp add: mixed_report_def)
  have some: "\<exists>f \<in> set (failures mixed_report). rule f \<in> set fixable_rules"
    by (simp add: mixed_report_def mk_failure_def fixable_rules_def)
  have fields: "spec_field_conf_ok ProcessingThresholds ?i"
    by (simp add: spec_field_conf_ok_def spec_required_fields_def invoice_with_item_def
        example_invoice_def example_amounts_def no_evidence_field_def ProcessingThresholds_def)
  have categories: "spec_category_ok ProcessingThresholds ?i"
    by (simp add: spec_category_ok_def invoice_with_item_def example_line_item_def
        ProcessingThresholds_def)
  have clean: "passed clean_report"
    by (simp add: clean_report_def)
  from decision_policy [OF together, of ProcessingThresholds mixed_report]
    decision_policy [OF together, of ProcessingThresholds clean_report]
    failed some fields categories clean
  show ?thesis by blast
qed

text \<open>
  C1 as stated asks every failure to be repairable. The report below has a repairable
  failure (\<open>arithmetic_balance\<close>) and one that is not (\<open>date_logic\<close>), and the decision
  is still \<open>llm_fallback\<close>. A line item with a category and the confidence \<open>0\<close> does not
  stop \<open>auto_post\<close>, and a line item with no category and the confidence \<open>0.5\<close> does.
\<close>

theorem decision_every_failure_counterexample:
  "make_processing_decision ProcessingThresholds example_invoice mixed_report = llm_fallback \<and>
   rule (failures mixed_report ! 1) = ascii ''date_logic'' \<and>
   ascii ''date_logic'' \<notin> set fixable_rules \<and>
   make_processing_decision ProcessingThresholds
     (invoice_with_item (Some (ascii ''other'')) (Some 0)) clean_report = auto_post \<and>
   \<not> spec_category_ok ProcessingThresholds (invoice_with_item (Some (ascii ''other'')) (Some 0)) \<and>
   make_processing_decision ProcessingThresholds
     (invoice_with_item None (Some (1 / 2))) clean_report = needs_review \<and>
   spec_field_conf_ok ProcessingThresholds (invoice_with_item None (Some (1 / 2))) \<and>
   passed clean_report \<and>
   spec_category_ok ProcessingThresholds (invoice_with_item None (Some (1 / 2)))"
proof -
  have a: "make_processing_decision ProcessingThresholds example_invoice mixed_report = llm_fallback \<and>
      rule (failures mixed_report ! 1) = ascii ''date_logic'' \<and>
      ascii ''date_logic'' \<notin> set fixable_rules"
    by (simp add: make_processing_decision_def has_fixable_rules_def mixed_report_def
        mk_failure_def fixable_rules_def ascii_def)
  have fields: "check_field_confidence ProcessingThresholds (invoice_with_item c cc)" for c cc
    by (simp add: check_field_confidence_def invoice_with_item_def
        example_invoice_def example_amounts_def no_evidence_field_def ProcessingThresholds_def)
  have b: "make_processing_decision ProcessingThresholds
      (invoice_with_item (Some (ascii ''other'')) (Some 0)) clean_report = auto_post"
    using fields [of "Some (ascii ''other'')" "Some 0"]
    by (simp add: make_processing_decision_def check_category_confidence_def
        invoice_with_item_def example_line_item_def clean_report_def)
  have c: "\<not> spec_category_ok ProcessingThresholds (invoice_with_item (Some (ascii ''other'')) (Some 0))"
    by (simp add: spec_category_ok_def invoice_with_item_def example_line_item_def
        ProcessingThresholds_def)
  have d: "make_processing_decision ProcessingThresholds
      (invoice_with_item None (Some (1 / 2))) clean_report = needs_review"
    using fields [of None "Some (1 / 2)"]
    by (simp add: make_processing_decision_def check_category_confidence_def
        invoice_with_item_def example_line_item_def clean_report_def ProcessingThresholds_def)
  have e: "spec_field_conf_ok ProcessingThresholds (invoice_with_item None (Some (1 / 2)))"
    by (simp add: spec_field_conf_ok_def spec_required_fields_def invoice_with_item_def
        example_invoice_def example_amounts_def no_evidence_field_def ProcessingThresholds_def)
  have f: "passed clean_report"
    by (simp add: clean_report_def)
  have g: "spec_category_ok ProcessingThresholds (invoice_with_item None (Some (1 / 2)))"
    by (simp add: spec_category_ok_def invoice_with_item_def example_line_item_def)
  from a b c d e f g show ?thesis by blast
qed

section \<open>Properties of the currency lookup\<close>

lemma symbols_loop_hit: "currency_hit C b \<Longrightarrow> currency_hit C (currency_symbols_loop t code syms b)"
  by (induction syms arbitrary: b) (auto simp: currency_hit_def Let_def)

lemma symbols_loop_miss:
  "\<forall>s \<in> set syms. \<not> str_contains (tok_text t) s \<Longrightarrow> currency_symbols_loop t code syms b = b"
  by (induction syms arbitrary: b) auto

lemma symbols_loop_match:
  "\<exists>s \<in> set syms. str_contains (tok_text t) s \<Longrightarrow> code \<in> C \<Longrightarrow>
   currency_hit C (currency_symbols_loop t code syms (None, 0))"
proof (induction syms)
  case Nil
  then show ?case by simp
next
  case (Cons s syms)
  show ?case
  proof (cases "str_contains (tok_text t) s")
    case True
    have "currency_hit C (Some \<lparr>val = VStr code, confidence = 9 / 10, evidence = [evidence_of t]\<rparr>, 9 / 10)"
      using Cons.prems(2) by (simp add: currency_hit_def)
    then show ?thesis using True by (simp add: Let_def symbols_loop_hit)
  next
    case False
    then show ?thesis using Cons by simp
  qed
qed

lemma codes_loop_hit: "currency_hit C b \<Longrightarrow> currency_hit C (currency_codes_loop t entries b)"
proof (induction entries arbitrary: b)
  case Nil
  then show ?case by simp
next
  case (Cons e entries)
  obtain code syms where e: "e = (code, syms)" by (cases e)
  have "currency_hit C (currency_symbols_loop t code syms b)"
    using Cons.prems by (rule symbols_loop_hit)
  then show ?case unfolding e by (simp add: Cons.IH)
qed

lemma codes_loop_miss:
  "\<forall>(code, syms) \<in> set entries. \<forall>s \<in> set syms. \<not> str_contains (tok_text t) s \<Longrightarrow>
   currency_codes_loop t entries b = b"
  by (induction entries arbitrary: b) (auto simp: symbols_loop_miss)

lemma codes_loop_match:
  "\<exists>(code, syms) \<in> set entries. \<exists>s \<in> set syms. str_contains (tok_text t) s \<Longrightarrow>
   fst ` set entries \<subseteq> C \<Longrightarrow>
   currency_hit C (currency_codes_loop t entries (None, 0))"
proof (induction entries)
  case Nil
  then show ?case by simp
next
  case (Cons e entries)
  obtain code syms where e: "e = (code, syms)" by (cases e)
  show ?case
  proof (cases "\<exists>s \<in> set syms. str_contains (tok_text t) s")
    case True
    then have "currency_hit C (currency_symbols_loop t code syms (None, 0))"
      using Cons.prems(2) e by (intro symbols_loop_match) auto
    then show ?thesis by (simp add: e codes_loop_hit)
  next
    case False
    then have "currency_symbols_loop t code syms (None, 0) = (None, 0)"
      by (intro symbols_loop_miss) auto
    moreover have "\<exists>(code, syms) \<in> set entries. \<exists>s \<in> set syms. str_contains (tok_text t) s"
      using Cons.prems(1) False e by auto
    ultimately show ?thesis using Cons by (simp add: e)
  qed
qed

lemma tokens_loop_hit: "currency_hit C b \<Longrightarrow> currency_hit C (currency_tokens_loop ts b)"
  by (induction ts arbitrary: b) (auto simp: codes_loop_hit)

lemma tokens_loop_miss:
  "\<forall>t \<in> set ts. \<forall>(code, syms) \<in> set currency_patterns. \<forall>s \<in> set syms. \<not> str_contains (tok_text t) s \<Longrightarrow>
   currency_tokens_loop ts b = b"
  by (induction ts arbitrary: b) (auto simp: codes_loop_miss)

lemma tokens_loop_match:
  "\<exists>t \<in> set ts. \<exists>(code, syms) \<in> set currency_patterns. \<exists>s \<in> set syms. str_contains (tok_text t) s \<Longrightarrow>
   currency_hit (fst ` set currency_patterns) (currency_tokens_loop ts (None, 0))"
proof (induction ts)
  case Nil
  then show ?case by simp
next
  case (Cons t ts)
  show ?case
  proof (cases "\<exists>(code, syms) \<in> set currency_patterns. \<exists>s \<in> set syms. str_contains (tok_text t) s")
    case True
    then have "currency_hit (fst ` set currency_patterns) (currency_codes_loop t currency_patterns (None, 0))"
      by (intro codes_loop_match) auto
    then show ?thesis by (simp add: tokens_loop_hit)
  next
    case False
    then have "currency_codes_loop t currency_patterns (None, 0) = (None, 0)"
      by (intro codes_loop_miss) auto
    moreover have "\<exists>t \<in> set ts. \<exists>(code, syms) \<in> set currency_patterns. \<exists>s \<in> set syms. str_contains (tok_text t) s"
      using Cons.prems False by auto
    ultimately show ?thesis using Cons by simp
  qed
qed

text \<open>
  C7: when no token contains a symbol of the currency table, the required lookup returns
  \<open>EUR\<close> with confidence \<open>0.1\<close> and no evidence; when some token does, it
  returns a code of the table with confidence \<open>0.9\<close>.
\<close>

theorem find_currency_default_or_table:
  "((\<forall>t \<in> set tokens. \<forall>(code, syms) \<in> set currency_patterns. \<forall>s \<in> set syms.
        \<not> str_contains (tok_text t) s) \<longrightarrow>
      find_currency tokens True =
        Some \<lparr>val = VStr (ascii ''EUR''), confidence = 1 / 10, evidence = []\<rparr>) \<and>
   ((\<exists>t \<in> set tokens. \<exists>(code, syms) \<in> set currency_patterns. \<exists>s \<in> set syms.
        str_contains (tok_text t) s) \<longrightarrow>
      (\<exists>fv code. find_currency tokens True = Some fv \<and> val fv = VStr code \<and>
         code \<in> fst ` set currency_patterns \<and> confidence fv = 9 / 10))"
proof (intro conjI impI)
  assume "\<forall>t \<in> set tokens. \<forall>(code, syms) \<in> set currency_patterns. \<forall>s \<in> set syms.
        \<not> str_contains (tok_text t) s"
  then have "currency_tokens_loop tokens (None, 0) = (None, 0)"
    by (rule tokens_loop_miss)
  then show "find_currency tokens True =
        Some \<lparr>val = VStr (ascii ''EUR''), confidence = 1 / 10, evidence = []\<rparr>"
    by (simp add: find_currency_def)
next
  assume "\<exists>t \<in> set tokens. \<exists>(code, syms) \<in> set currency_patterns. \<exists>s \<in> set syms.
        str_contains (tok_text t) s"
  then have "currency_hit (fst ` set currency_patterns) (currency_tokens_loop tokens (None, 0))"
    by (rule tokens_loop_match)
  then obtain fv code where
    "currency_tokens_loop tokens (None, 0) = (Some fv, 9 / 10)" "val fv = VStr code"
    "code \<in> fst ` set currency_patterns" "confidence fv = 9 / 10"
    unfolding currency_hit_def by blast
  then show "\<exists>fv code. find_currency tokens True = Some fv \<and> val fv = VStr code \<and>
         code \<in> fst ` set currency_patterns \<and> confidence fv = 9 / 10"
    by (intro exI [of _ fv] exI [of _ code]) (simp add: find_currency_def)
qed

theorem find_currency_default_or_table_witness:
  "find_currency [example_token ''Total 100.00''] True =
     Some \<lparr>val = VStr (ascii ''EUR''), confidence = 1 / 10, evidence = []\<rparr> \<and>
   (\<exists>fv code. find_currency [example_token ''100 USD''] True = Some fv \<and> val fv = VStr code \<and>
      code \<in> fst ` set currency_patterns \<and> confidence fv = 9 / 10)"
proof -
  have t1: "tok_text (example_token ''Total 100.00'') = [84, 111, 116, 97, 108, 32, 49, 48, 48, 46, 48, 48]"
    by (simp add: example_token_def ascii_def)
  have miss: "\<forall>t \<in> set [example_token ''Total 100.00'']. \<forall>(code, syms) \<in> set currency_patterns.
      \<forall>s \<in> set syms. \<not> str_contains (tok_text t) s"
    by (simp add: t1 currency_patterns_def ascii_def)
  have t2: "tok_text (example_token ''100 USD'') = [49, 48, 48, 32, 85, 83, 68]"
    by (simp add: example_token_def ascii_def)
  have "str_contains (tok_text (example_token ''100 USD'')) (ascii ''USD'')"
    by (simp add: t2 ascii_def)
  then have match: "\<exists>t \<in> set [example_token ''100 USD'']. \<exists>(code, syms) \<in> set currency_patterns.
      \<exists>s \<in> set syms. str_contains (tok_text t) s"
    by (simp add: currency_patterns_def)
  from find_currency_default_or_table [of "[example_token ''Total 100.00'']"] miss
       find_currency_default_or_table [of "[example_token ''100 USD'']"] match
  show ?thesis by blast
qed

section \<open>Properties of the amount parser\<close>

lemmas decimal_eval =
  Decimal_of_str_def strip_def is_space_def is_digit_def parse_exponent_def nat_of_digits_def
  digit_val_def

lemma parse_amount_comma_point:
  "parse_amount (ascii ''1,234.56'') = Some \<lparr>negative = False, coefficient = 123456, exponent = - 2\<rparr>"
proof -
  have t: "ascii ''1,234.56'' = [49, 44, 50, 51, 52, 46, 53, 54]"
    by (simp add: ascii_def)
  have f: "filter (\<lambda>c. is_digit c \<or> c = 46 \<or> c = 44 \<or> c = 45) [49, 44, 50, 51, 52, 46, 53, 54]
             = [49, 44, 50, 51, 52, 46, 53, 54]"
    by (simp add: is_digit_def)
  have d: "Decimal_of_str [49, 50, 51, 52, 46, 53, 54]
             = Some \<lparr>negative = False, coefficient = 123456, exponent = - 2\<rparr>"
    by (simp add: decimal_eval)
  show ?thesis unfolding parse_amount_def t f Let_def by (simp add: d)
qed

lemma parse_amount_point_comma:
  "parse_amount (ascii ''1.234,56'') = Some \<lparr>negative = False, coefficient = 123456, exponent = - 5\<rparr>"
proof -
  have t: "ascii ''1.234,56'' = [49, 46, 50, 51, 52, 44, 53, 54]"
    by (simp add: ascii_def)
  have f: "filter (\<lambda>c. is_digit c \<or> c = 46 \<or> c = 44 \<or> c = 45) [49, 46, 50, 51, 52, 44, 53, 54]
             = [49, 46, 50, 51, 52, 44, 53, 54]"
    by (simp add: is_digit_def)
  have d: "Decimal_of_str [49, 46, 50, 51, 52, 53, 54]
             = Some \<lparr>negative = False, coefficient = 123456, exponent = - 5\<rparr>"
    by (simp add: decimal_eval)
  show ?thesis unfolding parse_amount_def t f Let_def by (simp add: d)
qed

lemma parse_amount_decimal_comma:
  "parse_amount (ascii ''1,56'') = Some \<lparr>negative = False, coefficient = 156, exponent = - 2\<rparr>"
proof -
  have t: "ascii ''1,56'' = [49, 44, 53, 54]"
    by (simp add: ascii_def)
  have f: "filter (\<lambda>c. is_digit c \<or> c = 46 \<or> c = 44 \<or> c = 45) [49, 44, 53, 54] = [49, 44, 53, 54]"
    by (simp add: is_digit_def)
  have d: "Decimal_of_str [49, 46, 53, 54]
             = Some \<lparr>negative = False, coefficient = 156, exponent = - 2\<rparr>"
    by (simp add: decimal_eval)
  show ?thesis unfolding parse_amount_def t f Let_def by (simp add: d)
qed

lemma parse_amount_thousands_comma:
  "parse_amount (ascii ''1,234'') = Some \<lparr>negative = False, coefficient = 1234, exponent = 0\<rparr>"
proof -
  have t: "ascii ''1,234'' = [49, 44, 50, 51, 52]"
    by (simp add: ascii_def)
  have f: "filter (\<lambda>c. is_digit c \<or> c = 46 \<or> c = 44 \<or> c = 45) [49, 44, 50, 51, 52] = [49, 44, 50, 51, 52]"
    by (simp add: is_digit_def)
  have d: "Decimal_of_str [49, 50, 51, 52]
             = Some \<lparr>negative = False, coefficient = 1234, exponent = 0\<rparr>"
    by (simp add: decimal_eval)
  show ?thesis unfolding parse_amount_def t f Let_def by (simp add: d)
qed

text \<open>
  C3, as the code has it: \<open>"1,234.56"\<close> is parsed to 1234.56, \<open>"1,56"\<close> to 1.56 and
  \<open>"1,234"\<close> to 1234; in \<open>"1.234,56"\<close> both separators occur, the comma is dropped as a
  thousands separator, and the result is 1.23456.
\<close>

theorem parse_amount_boundaries:
  "map_option dec_val (parse_amount (ascii ''1,234.56'')) = Some (123456 / 100) \<and>
   map_option dec_val (parse_amount (ascii ''1.234,56'')) = Some (123456 / 100000) \<and>
   map_option dec_val (parse_amount (ascii ''1,56'')) = Some (156 / 100) \<and>
   map_option dec_val (parse_amount (ascii ''1,234'')) = Some 1234"
  by (simp add: parse_amount_comma_point parse_amount_point_comma parse_amount_decimal_comma
      parse_amount_thousands_comma dec_val_def)

text \<open>C3 as stated fails at \<open>"1.234,56"\<close>: the parser does not return 1234.56.\<close>

theorem parse_amount_european_counterexample:
  "map_option dec_val (parse_amount (ascii ''1.234,56'')) \<noteq> Some (123456 / 100)"
  by (simp add: parse_amount_point_comma dec_val_def)

section \<open>Properties of the rules engine\<close>

text \<open>
  C10: in every report of \<open>validate_invoice\<close> the flag \<open>passed\<close> holds exactly when the
  list of failures is empty, so \<open>ok\<close> agrees with \<open>passed\<close>.
\<close>

theorem validate_invoice_passed_iff_no_failures:
  "passed (validate_invoice th invoice) = (failures (validate_invoice th invoice) = []) \<and>
   ok (validate_invoice th invoice) = passed (validate_invoice th invoice)"
  by (simp add: validate_invoice_def ok_def Let_def)

lemma arithmetic_with_tax:
  "validate_arithmetic ProcessingThresholds example_invoice_with_tax =
     [\<lparr>rule = ascii ''arithmetic_balance'', path = ascii ''/amounts/grand_total'',
       expected = Some 120, actual = Some 100, tolerance = Some (2 / 100)\<rparr>]"
proof -
  have a: "amounts example_invoice_with_tax =
      example_amounts\<lparr>tax_amount :=
         Some (no_evidence_field (VDecimal \<lparr>negative = False, coefficient = 2000, exponent = - 2\<rparr>) (9 / 10))\<rparr>"
    by (simp add: example_invoice_with_tax_def)
  have g: "to_decimal (val (grand_total (amounts example_invoice_with_tax))) = Some 100"
    by (simp add: a example_amounts_def no_evidence_field_def to_decimal_def dec_val_def)
  have s: "present (subtotal (amounts example_invoice_with_tax)) = None"
    by (simp add: a example_amounts_def present_def)
  have t: "add_present (tax_amount (amounts example_invoice_with_tax)) 100 = Some 120"
    by (simp add: a add_present_def present_def no_evidence_field_def to_decimal_def dec_val_def)
  have h: "add_present (shipping (amounts example_invoice_with_tax)) 120 = Some 120"
    by (simp add: a example_amounts_def add_present_def present_def)
  have d: "sub_present (discount (amounts example_invoice_with_tax)) 120 = Some 120"
    by (simp add: a example_amounts_def sub_present_def present_def)
  have "validate_arithmetic_try ProcessingThresholds example_invoice_with_tax =
     Some [\<lparr>rule = ascii ''arithmetic_balance'', path = ascii ''/amounts/grand_total'',
       expected = Some 120, actual = Some 100, tolerance = Some (2 / 100)\<rparr>]"
    unfolding validate_arithmetic_try_def g s by (simp add: t h d ProcessingThresholds_def)
  then show ?thesis by (simp add: validate_arithmetic_def)
qed

text \<open>
  C2 at an invoice without subtotal, with a grand total of 100.00 and a tax amount of
  20.00: the expected total starts from the grand total and the tax is still added, so
  the rule \<open>arithmetic_balance\<close> fails (expected 120, actual 100).
\<close>

theorem arithmetic_balance_without_subtotal:
  "subtotal (amounts example_invoice_with_tax) = None \<and>
   validate_arithmetic ProcessingThresholds example_invoice_with_tax =
     [\<lparr>rule = ascii ''arithmetic_balance'', path = ascii ''/amounts/grand_total'',
       expected = Some 120, actual = Some 100, tolerance = Some (2 / 100)\<rparr>] \<and>
   \<lparr>rule = ascii ''arithmetic_balance'', path = ascii ''/amounts/grand_total'',
       expected = Some 120, actual = Some 100, tolerance = Some (2 / 100)\<rparr>
     \<in> set (failures (validate_invoice ProcessingThresholds example_invoice_with_tax))"
proof -
  have "subtotal (amounts example_invoice_with_tax) = None"
    by (simp add: example_invoice_with_tax_def example_amounts_def)
  moreover have "set (validate_arithmetic ProcessingThresholds example_invoice_with_tax)
      \<subseteq> set (failures (validate_invoice ProcessingThresholds example_invoice_with_tax))"
    by (simp add: validate_invoice_def Let_def)
  ultimately show ?thesis using arithmetic_with_tax by simp
qed

section \<open>Properties of the confidence score\<close>

lemma calculate_token_distance_centers:
  "calculate_token_distance t1 t2 =
     euclidean_distance (bbox_center (tok_bbox t1)) (bbox_center (tok_bbox t2))"
  by (simp add: calculate_token_distance_def euclidean_distance_def bbox_center_def Let_def
      split: prod.splits)

lemma clamp01_min_max: "min 1 (max 0 x) = clamp01 x"
  by (simp add: clamp01_def min_def max_def)

lemma re_match_class_from_zero: "re_match [Cls P 0 hi] s \<noteq> None"
  by (cases s) (simp_all split: option.splits)

lemma re_match_class_hit:
  "P c \<Longrightarrow> hi \<noteq> Some 0 \<Longrightarrow> re_match [Cls P (Suc 0) hi] (c # cs) \<noteq> None"
  using re_match_class_from_zero [of P "map_option (\<lambda>h. h - 1) hi" cs]
  by (auto split: option.splits)

lemma re_match_class_miss:
  "\<not> P c \<Longrightarrow> re_match [Cls P (Suc 0) hi] (c # cs) = None"
  "re_match [Cls P (Suc 0) hi] [] = None"
  by simp_all

lemma re_search_class:
  "hi \<noteq> Some 0 \<Longrightarrow> re_search [Cls P (Suc 0) hi] s \<noteq> None \<longleftrightarrow> list_ex P s"
proof (induction s)
  case Nil
  then show ?case by simp
next
  case (Cons c cs)
  show ?case
  proof (cases "P c")
    case True
    with re_match_class_hit [of P c hi cs] Cons.prems show ?thesis
      by (auto simp del: re_match.simps split: option.splits)
  next
    case False
    with re_match_class_miss(1) [of P c hi cs] Cons show ?thesis
      by (simp del: re_match.simps)
  qed
qed

lemma looks_like_value_shape: "looks_like_value text0 field_type = value_shape text0 field_type"
  using re_search_class [of None "\<lambda>c. is_digit c \<or> c = 46 \<or> c = 44" "strip text0"]
    re_search_class [of "Some 1" "\<lambda>c. is_alpha c \<or> is_digit c" "strip text0"]
  by (auto simp: looks_like_value_def value_shape_def Let_def rx_number_chars_def rx_alnum_def)

text \<open>
  C8, as the code has it: the confidence of a label token and a candidate token is
  \<open>min(conf_label, conf_cand) \<cdot> max(0.1, 1 - d/500) \<cdot> 0.8 \<cdot> (1 or 0.3)\<close> clamped to
  \<open>[0, 1]\<close>, where \<open>d\<close> is the Euclidean distance between the centres of the two boxes and
  the last factor is 1 when the stripped text of the candidate has the shape that
  \<^verbatim>\<open>_looks_like_value\<close> asks of the field type.
\<close>

theorem field_confidence_formula:
  "calculate_field_confidence label_token value_token field_type =
     clamp01
       (min (tok_confidence label_token) (tok_confidence value_token) *
        max (1 / 10)
          (1 - euclidean_distance (bbox_center (tok_bbox label_token))
                 (bbox_center (tok_bbox value_token)) / 500) *
        (8 / 10) *
        (if value_shape (tok_text value_token) field_type then 1 else 3 / 10)) \<and>
   0 \<le> calculate_field_confidence label_token value_token field_type \<and>
   calculate_field_confidence label_token value_token field_type \<le> 1"
proof -
  have "calculate_field_confidence label_token value_token field_type =
     clamp01
       (min (tok_confidence label_token) (tok_confidence value_token) *
        max (1 / 10)
          (1 - euclidean_distance (bbox_center (tok_bbox label_token))
                 (bbox_center (tok_bbox value_token)) / 500) *
        (8 / 10) *
        (if value_shape (tok_text value_token) field_type then 1 else 3 / 10))"
    unfolding calculate_field_confidence_def Let_def calculate_token_distance_centers
      clamp01_min_max looks_like_value_shape ..
  moreover have "0 \<le> clamp01 x" "clamp01 x \<le> 1" for x
    by (simp_all add: clamp01_def)
  ultimately show ?thesis by simp
qed

lemma example_token_distance:
  "euclidean_distance (bbox_center (tok_bbox (example_token s))) (bbox_center (tok_bbox (example_token t))) = 0"
  by (simp add: euclidean_distance_def bbox_center_def example_token_def)

lemma example_token_fields:
  "tok_confidence (example_token s) = 9 / 10" "tok_text (example_token s) = ascii s"
  by (simp_all add: example_token_def)

lemma vendor_not_amount: "ascii ''vendor'' \<notin> set amount_types"
  "ascii ''vendor'' \<noteq> ascii ''invoice_number''" "ascii ''vendor'' \<noteq> ascii ''date''"
  "ascii ''total'' \<in> set amount_types"
  by (simp_all add: amount_types_def ascii_def)

lemma strip_examples:
  "strip (ascii ''ACME'') = ascii ''ACME''" "strip (ascii ''Inc.'') = ascii ''Inc.''"
  "strip (ascii '','') = ascii '',''"
  by (simp_all add: strip_def is_space_def ascii_def)

theorem field_confidence_formula_witness:
  "calculate_field_confidence (example_token ''Vendor'') (example_token ''ACME'') (ascii ''vendor'') = 18 / 25"
proof -
  have shape: "value_shape (ascii ''ACME'') (ascii ''vendor'')"
    unfolding value_shape_def strip_examples
    by (simp add: vendor_not_amount) (simp add: ascii_def is_digit_def)
  from field_confidence_formula [of "example_token ''Vendor''" "example_token ''ACME''" "ascii ''vendor''"]
  have "calculate_field_confidence (example_token ''Vendor'') (example_token ''ACME'') (ascii ''vendor'') =
     clamp01
       (min (tok_confidence (example_token ''Vendor'')) (tok_confidence (example_token ''ACME'')) *
        max (1 / 10)
          (1 - euclidean_distance (bbox_center (tok_bbox (example_token ''Vendor'')))
                 (bbox_center (tok_bbox (example_token ''ACME''))) / 500) *
        (8 / 10) *
        (if value_shape (tok_text (example_token ''ACME'')) (ascii ''vendor'') then 1 else 3 / 10))"
    by blast
  then show ?thesis
    unfolding example_token_distance example_token_fields
    using shape by (simp add: clamp01_def)
qed

text \<open>
  C8 as stated, with the type predicate of section 4.3: the code takes \<open>Inc.\<close> for no vendor
  name, because of its point, and the comma alone for an amount.
\<close>

theorem type_predicate_counterexample:
  "calculate_field_confidence (example_token ''Vendor'') (example_token ''Inc.'') (ascii ''vendor'') = 27 / 125 \<and>
   spec_score (example_token ''Vendor'') (example_token ''Inc.'') (ascii ''vendor'') = 18 / 25 \<and>
   calculate_field_confidence (example_token ''Total'') (example_token '','') (ascii ''total'') = 18 / 25 \<and>
   spec_score (example_token ''Total'') (example_token '','') (ascii ''total'') = 27 / 125"
proof -
  have code1: "\<not> looks_like_value (ascii ''Inc.'') (ascii ''vendor'')"
    unfolding looks_like_value_shape value_shape_def strip_examples
    by (simp add: vendor_not_amount) (simp add: ascii_def)
  have spec1: "spec_type_predicate (ascii ''Inc.'') (ascii ''vendor'')"
    unfolding spec_type_predicate_def
    by (simp add: vendor_not_amount) (simp add: ascii_def is_digit_def)
  have code2: "looks_like_value (ascii '','') (ascii ''total'')"
    unfolding looks_like_value_shape value_shape_def strip_examples
    by (simp add: vendor_not_amount) (simp add: ascii_def)
  have spec2: "\<not> spec_type_predicate (ascii '','') (ascii ''total'')"
    unfolding spec_type_predicate_def
    by (simp add: vendor_not_amount) (simp add: ascii_def is_digit_def)
  have d: "calculate_token_distance (example_token s) (example_token t) = 0" for s t
    by (simp add: calculate_token_distance_centers example_token_distance)
  have a: "calculate_field_confidence (example_token ''Vendor'') (example_token ''Inc.'') (ascii ''vendor'') = 27 / 125"
    unfolding calculate_field_confidence_def Let_def d example_token_fields
    using code1 by simp
  have b: "spec_score (example_token ''Vendor'') (example_token ''Inc.'') (ascii ''vendor'') = 18 / 25"
    unfolding spec_score_def example_token_distance example_token_fields
    using spec1 by (simp add: clamp01_def)
  have c: "calculate_field_confidence (example_token ''Total'') (example_token '','') (ascii ''total'') = 18 / 25"
    unfolding calculate_field_confidence_def Let_def d example_token_fields
    using code2 by simp
  have e: "spec_score (example_token ''Total'') (example_token '','') (ascii ''total'') = 27 / 125"
    unfolding spec_score_def example_token_distance example_token_fields
    using spec2 by (simp add: clamp01_def)
  from a b c e show ?thesis by blast
qed

section \<open>Properties of the repair gateway\<close>

lemma JsonPatch_bad:
  "JsonPatch (VDict [(ascii ''op'', VStr (ascii ''remove'')),
                   (ascii ''path'', VStr (ascii ''/amounts/grand_total'')),
                   (ascii ''value'', VInt 0),
                   (ascii ''rationale'', VStr (ascii ''x''))]) = Some bad_patch"
  by (simp add: JsonPatch_def bad_patch_def ascii_def)

lemma parse_bad: "parse_llm_response (Some bad_patch_response) = Some [bad_patch]"
  by (simp add: parse_llm_response_def bad_patch_response_def JsonPatch_bad)

text \<open>
  C4 at the response \<^verbatim>\<open>[{"op": "remove", "path": "/amounts/grand_total", "value": 0,
  "rationale": "x"}]\<close>: the gateway returns the patch, although its operation is not
  allowed, its rationale has one character and it cites no box. \<open>validate_patch\<close> would
  refuse it.
\<close>

theorem gateway_returns_contract_violation:
  "parse_llm_response (Some bad_patch_response) = Some [bad_patch] \<and>
   propose_patch (Some bad_patch_response) = Some [bad_patch] \<and>
   op bad_patch \<notin> set [ascii ''replace'', ascii ''add''] \<and>
   length (rationale bad_patch) < 10 \<and>
   cites_bbox bad_patch = [] \<and>
   \<not> validate_patch bad_patch"
proof -
  have "op bad_patch \<notin> set [ascii ''replace'', ascii ''add'']"
    by (simp add: bad_patch_def ascii_def)
  moreover from this have "\<not> validate_patch bad_patch"
    by (simp add: validate_patch_def)
  ultimately show ?thesis
    by (simp add: parse_bad propose_patch_def) (simp add: bad_patch_def ascii_def)
qed

section \<open>Properties of the pipeline\<close>

lemma shipping_arith:
  "validate_arithmetic ProcessingThresholds example_invoice_with_shipping =
     [\<lparr>rule = ascii ''arithmetic_balance'', path = ascii ''/amounts/grand_total'',
       expected = Some 120, actual = Some 100, tolerance = Some (2 / 100)\<rparr>]"
proof -
  have a: "amounts example_invoice_with_shipping =
      example_amounts\<lparr>shipping :=
         Some (no_evidence_field (VDecimal \<lparr>negative = False, coefficient = 2000, exponent = - 2\<rparr>) (9 / 10))\<rparr>"
    by (simp add: example_invoice_with_shipping_def)
  have g: "to_decimal (val (grand_total (amounts example_invoice_with_shipping))) = Some 100"
    by (simp add: a example_amounts_def no_evidence_field_def to_decimal_def dec_val_def)
  have s: "present (subtotal (amounts example_invoice_with_shipping)) = None"
    by (simp add: a example_amounts_def present_def)
  have t: "add_present (tax_amount (amounts example_invoice_with_shipping)) 100 = Some 100"
    by (simp add: a example_amounts_def add_present_def present_def)
  have h: "add_present (shipping (amounts example_invoice_with_shipping)) 100 = Some 120"
    by (simp add: a add_present_def present_def no_evidence_field_def to_decimal_def dec_val_def)
  have d: "sub_present (discount (amounts example_invoice_with_shipping)) 120 = Some 120"
    by (simp add: a example_amounts_def sub_present_def present_def)
  have "validate_arithmetic_try ProcessingThresholds example_invoice_with_shipping =
     Some [\<lparr>rule = ascii ''arithmetic_balance'', path = ascii ''/amounts/grand_total'',
       expected = Some 120, actual = Some 100, tolerance = Some (2 / 100)\<rparr>]"
    unfolding validate_arithmetic_try_def g s by (simp add: t h d ProcessingThresholds_def)
  then show ?thesis by (simp add: validate_arithmetic_def)
qed

lemma shipping_decision:
  "make_processing_decision ProcessingThresholds example_invoice_with_shipping
     (validate_invoice ProcessingThresholds example_invoice_with_shipping) = llm_fallback"
proof -
  obtain rest where f: "failures (validate_invoice ProcessingThresholds example_invoice_with_shipping) =
      \<lparr>rule = ascii ''arithmetic_balance'', path = ascii ''/amounts/grand_total'',
       expected = Some 120, actual = Some 100, tolerance = Some (2 / 100)\<rparr> # rest"
    by (simp add: validate_invoice_def Let_def shipping_arith)
  have p: "\<not> passed (validate_invoice ProcessingThresholds example_invoice_with_shipping)"
    using f by (simp add: validate_invoice_def Let_def)
  have "has_fixable_rules (validate_invoice ProcessingThresholds example_invoice_with_shipping)"
    unfolding has_fixable_rules_def f by (simp add: fixable_rules_def)
  with p show ?thesis by (simp add: make_processing_decision_def Let_def)
qed

lemma apply_total_patch:
  "apply_patch_to_invoice example_invoice_with_shipping [total_patch] = example_invoice_patched"
proof -
  have s: "split_on 47 (strip_char 47 (patch_path total_patch)) = [ascii ''amounts'', ascii ''grand_total'']"
    by (simp add: total_patch_def strip_char_def ascii_def)
  have "apply_replace_patch example_invoice_with_shipping total_patch = Some example_invoice_patched"
    unfolding apply_replace_patch_def s
    by (simp add: example_invoice_with_shipping_def example_invoice_patched_def total_patch_def
        example_amounts_def no_evidence_field_def)
  then show ?thesis by (simp add: total_patch_def)
qed

lemma patched_amounts:
  "amounts example_invoice_patched =
     \<lparr>subtotal = None, tax_amount = None, tax_rate = None, discount = None,
      shipping = Some (no_evidence_field (VDecimal \<lparr>negative = False, coefficient = 2000, exponent = - 2\<rparr>) (9 / 10)),
      grand_total = no_evidence_field (VInt 1000) (9 / 10),
      currency = no_evidence_field (VStr (ascii ''EUR'')) (9 / 10)\<rparr>"
  by (simp add: example_invoice_patched_def example_amounts_def)

lemma patched_arith: "validate_arithmetic ProcessingThresholds example_invoice_patched = []"
proof -
  have g: "to_decimal (val (grand_total (amounts example_invoice_patched))) = Some 1000"
    by (simp add: patched_amounts no_evidence_field_def to_decimal_def dec_val_def)
  have s: "present (subtotal (amounts example_invoice_patched)) = None"
    by (simp add: patched_amounts present_def)
  have t: "add_present (tax_amount (amounts example_invoice_patched)) 1000 = Some 1000"
    by (simp add: patched_amounts add_present_def present_def)
  have h: "add_present (shipping (amounts example_invoice_patched)) 1000 = Some 1020"
    by (simp add: patched_amounts add_present_def present_def no_evidence_field_def to_decimal_def dec_val_def)
  have d: "sub_present (discount (amounts example_invoice_patched)) 1020 = Some 1020"
    by (simp add: patched_amounts sub_present_def present_def)
  have "validate_arithmetic_try ProcessingThresholds example_invoice_patched = Some []"
    unfolding validate_arithmetic_try_def g s by (simp add: t h d ProcessingThresholds_def)
  then show ?thesis by (simp add: validate_arithmetic_def)
qed

lemma patched_line_sum: "validate_line_sum ProcessingThresholds example_invoice_patched = []"
proof -
  have l: "line_items example_invoice_patched = []"
    by (simp add: example_invoice_patched_def example_invoice_def)
  have "validate_line_sum_try ProcessingThresholds example_invoice_patched = Some []"
    unfolding validate_line_sum_try_def l by (simp add: patched_amounts present_def)
  then show ?thesis by (simp add: validate_line_sum_def)
qed

lemma patched_dates: "validate_dates example_invoice_patched = []"
  by (simp add: validate_dates_def example_invoice_patched_def example_invoice_def
      no_evidence_field_def present_def)

lemma patched_currency: "validate_currency example_invoice_patched = []"
proof -
  have c: "val (currency (amounts example_invoice_patched)) \<in> set (map VStr currency_codes)"
    by (simp add: patched_amounts no_evidence_field_def currency_codes_def)
  have t: "truthy (val (currency (amounts example_invoice_patched)))"
    by (simp add: patched_amounts no_evidence_field_def ascii_def)
  have n: "non_negative_loop (amount_fields example_invoice_patched) = []"
    by (simp add: amount_fields_def patched_amounts no_evidence_field_def to_decimal_def dec_val_def)
  show ?thesis unfolding validate_currency_def using c t n by simp
qed

lemma patched_hash: "validate_duplicate_hash example_invoice_patched = []"
  by (simp add: validate_duplicate_hash_def example_invoice_patched_def example_invoice_def)

lemma patched_tax: "validate_tax_coherence ProcessingThresholds example_invoice_patched = []"
  by (simp add: validate_tax_coherence_def validate_tax_coherence_try_def patched_amounts present_def)

lemma places_1000: "decimal_places \<lparr>negative = False, coefficient = 1000, exponent = 0\<rparr> = 0"
  by (simp add: decimal_places_def Decimal_str_def digits_of.simps Let_def)

lemma places_2000: "decimal_places \<lparr>negative = False, coefficient = 2000, exponent = - 2\<rparr> = 2"
  by (simp add: decimal_places_def Decimal_str_def digits_of.simps Let_def)

lemma patched_rounding: "validate_rounding_policy ProcessingThresholds example_invoice_patched = []"
  by (simp add: validate_rounding_policy_def amount_fields_def patched_amounts no_evidence_field_def
      places_1000 places_2000 ProcessingThresholds_def)

lemma patched_report:
  "validate_invoice ProcessingThresholds example_invoice_patched =
     \<lparr>passed = True, failures = [], warnings = []\<rparr>"
  by (simp add: validate_invoice_def patched_arith patched_line_sum patched_dates patched_currency
      patched_hash patched_tax patched_rounding)

text \<open>
  C5 at an invoice with a grand total of 100.00 and shipping of 20.00, whose arithmetic
  failure sends it to the fallback, and the patch that replaces the grand total by 1000:
  the validation after the patch passes and the status is \<open>auto_posted\<close>, but
  \<open>llm_patch_applied\<close> of the invoice of the result is still false.
\<close>

theorem patch_applied_flag_not_set:
  "res_status (process_from_validation ProcessingThresholds example_invoice_with_shipping
      (Some [total_patch])) = ascii ''auto_posted'' \<and>
   res_llm_patch (process_from_validation ProcessingThresholds example_invoice_with_shipping
      (Some [total_patch])) = Some [total_patch] \<and>
   passed (res_rule_report (process_from_validation ProcessingThresholds example_invoice_with_shipping
      (Some [total_patch]))) \<and>
   llm_patch_applied (res_invoice (process_from_validation ProcessingThresholds
      example_invoice_with_shipping (Some [total_patch]))) = False"
proof -
  have "process_from_validation ProcessingThresholds example_invoice_with_shipping (Some [total_patch]) =
      \<lparr>res_invoice = example_invoice_patched,
       res_rule_report = \<lparr>passed = True, failures = [], warnings = []\<rparr>,
       res_llm_patch = Some [total_patch], res_status = ascii ''auto_posted''\<rparr>"
    unfolding process_from_validation_def Let_def shipping_decision
    by (simp del: apply_patch_to_invoice.simps add: apply_total_patch patched_report)
  then show ?thesis by (simp add: example_invoice_patched_def example_invoice_def)
qed

text \<open>No stage from the validation on writes \<open>llm_patch_applied\<close>.\<close>

lemma apply_replace_patch_flag:
  "apply_replace_patch invoice patch = Some invoice' \<Longrightarrow> llm_patch_applied invoice' = llm_patch_applied invoice"
  by (auto simp: apply_replace_patch_def split: list.splits if_splits option.splits)

lemma apply_patch_to_invoice_flag:
  "llm_patch_applied (apply_patch_to_invoice invoice patches) = llm_patch_applied invoice"
  by (induction patches arbitrary: invoice) (auto simp: apply_replace_patch_flag split: option.splits)

lemma process_from_validation_flag:
  "llm_patch_applied (res_invoice (process_from_validation th invoice fallback)) = llm_patch_applied invoice"
  by (simp del: apply_patch_to_invoice.simps
      add: process_from_validation_def Let_def apply_patch_to_invoice_flag
      split: action.splits option.splits list.splits)

text \<open>The status after a patch follows the validation of the patched invoice.\<close>

lemma process_from_validation_patched_status:
  "make_processing_decision th invoice (validate_invoice th invoice) = llm_fallback \<Longrightarrow>
   res_status (process_from_validation th invoice (Some (p # ps))) =
     (if passed (validate_invoice th (apply_patch_to_invoice invoice (p # ps)))
      then ascii ''auto_posted'' else ascii ''needs_review'')"
  by (simp del: apply_patch_to_invoice.simps add: process_from_validation_def Let_def)

section \<open>Properties of the extractor\<close>

lemma field_tokens_loop_no_patterns: "field_tokens_loop tokens ft [] ts b = b"
  by (induction ts arbitrary: b) auto

lemma find_field_without_patterns:
  "patterns_for ft = [] \<Longrightarrow> find_field_by_patterns tokens ft False = None"
  by (simp add: find_field_by_patterns_def field_tokens_loop_no_patterns)

lemma no_patterns:
  "patterns_for (ascii ''address'') = []" "patterns_for (ascii ''tax_id'') = []"
  "patterns_for (ascii ''phone'') = []" "patterns_for (ascii ''email'') = []"
  "patterns_for (ascii ''subtotal'') = []" "patterns_for (ascii ''tax_rate'') = []"
  "patterns_for (ascii ''due_date'') = []"
  by (simp_all add: patterns_for_def label_patterns_def ascii_def)

lemma extract_vendor_cache_ok:
  assumes "cache_ok cache"
  shows "fst (extract_vendor cache tokens h) = fst (extract_vendor Map.empty tokens h)"
    and "cache_ok (snd (extract_vendor cache tokens h))"
proof -
  have "a = \<lparr>z_address = None, z_tax_id = None, z_phone = None, z_email = None\<rparr>"
    if "cache h = Some a" for a
    using assms that by (simp add: cache_ok_def)
  then have z: "Option.bind (cache h) f = None" if "f \<in> {z_address, z_tax_id, z_phone, z_email}" for f
    using that by (cases "cache h") auto
  show "fst (extract_vendor cache tokens h) = fst (extract_vendor Map.empty tokens h)"
    by (simp add: extract_vendor_def Let_def z find_field_without_patterns no_patterns or_else_def
        split: option.splits)
  show "cache_ok (snd (extract_vendor cache tokens h))"
    using assms
    by (auto simp: extract_vendor_def Let_def cache_ok_def find_field_without_patterns no_patterns
        or_else_def split: option.splits if_splits)
qed

lemma extract_invoice_cache_ok:
  assumes "cache_ok cache"
  shows "fst (extract_invoice cache now tokens filename pid) =
         fst (extract_invoice Map.empty now tokens filename pid)"
    and "cache_ok (snd (extract_invoice cache now tokens filename pid))"
  using extract_vendor_cache_ok [OF assms, of tokens "create_layout_fingerprint tokens"]
  by (simp_all add: extract_invoice_def Let_def split_beta)

lemma Invoice_created_at:
  "Invoice (i\<lparr>created_at := t\<rparr>) = map_sum id (\<lambda>j. j\<lparr>created_at := t\<rparr>) (Invoice i)"
  by (simp add: Invoice_def)

lemma extract_invoice_clock:
  "fst (extract_invoice cache now2 tokens filename pid) =
     map_sum id (\<lambda>j. j\<lparr>created_at := now2\<rparr>) (fst (extract_invoice cache now1 tokens filename pid))"
  by (simp add: extract_invoice_def Let_def split_beta Invoice_def
      split: sum.splits option.splits prod.splits)

lemma validate_invoice_created_at:
  "validate_invoice th (i\<lparr>created_at := t\<rparr>) = validate_invoice th i"
proof -
  have sel: "amounts (i\<lparr>created_at := t\<rparr>) = amounts i"
    "line_items (i\<lparr>created_at := t\<rparr>) = line_items i"
    "invoice_date (i\<lparr>created_at := t\<rparr>) = invoice_date i"
    "due_date (i\<lparr>created_at := t\<rparr>) = due_date i"
    "duplicate_hash (i\<lparr>created_at := t\<rparr>) = duplicate_hash i"
    by simp_all
  show ?thesis
    unfolding validate_invoice_def validate_arithmetic_def validate_arithmetic_try_def
      validate_line_sum_def validate_line_sum_try_def validate_dates_def validate_currency_def
      validate_duplicate_hash_def validate_tax_coherence_def validate_tax_coherence_try_def
      validate_rounding_policy_def amount_fields_def sel ..
qed

lemma vendor_chars:
  "vendor_text = [65, 67, 77, 69, 32, 67, 111, 109, 112, 97, 110, 121]"
  by (simp add: vendor_text_def ascii_def)

lemma header_chars:
  "header_text = [73, 110, 118, 111, 105, 99, 101, 32, 116, 111, 116, 97, 108, 32, 100, 97, 116,
     101, 32, 49, 53, 47, 48, 51, 47, 50, 48, 50, 52]"
  by (simp add: header_text_def ascii_def)

lemma vendor_lower:
  "lower vendor_text = [97, 99, 109, 101, 32, 99, 111, 109, 112, 97, 110, 121]"
  by (simp add: vendor_chars)

lemma header_lower:
  "lower header_text = [105, 110, 118, 111, 105, 99, 101, 32, 116, 111, 116, 97, 108, 32, 100, 97,
     116, 101, 32, 49, 53, 47, 48, 51, 47, 50, 48, 50, 52]"
  by (simp add: header_chars)

lemma token_texts [simp]:
  "tok_text vendor_token = vendor_text" "tok_text header_token = header_text"
  by (simp_all add: vendor_token_def header_token_def)

lemma field_update_idem:
  "field_update tokens ft t (field_update tokens ft t b) = field_update tokens ft t b"
  by (simp add: field_update_def Let_def split: option.splits)

lemma field_patterns_loop_eq:
  "field_patterns_loop tokens ft t ps b =
     (if list_ex (\<lambda>pattern. str_contains (lower (tok_text t)) (lower pattern)) ps
      then field_update tokens ft t b else b)"
proof (induction ps arbitrary: b)
  case Nil
  then show ?case by simp
next
  case (Cons p ps)
  then show ?case by (simp add: field_update_idem)
qed

lemma field_patterns_loop_hit:
  "field_patterns_loop tokens ft t (patterns_for ft) b =
     (if label_hit ft t then field_update tokens ft t b else b)"
  by (simp add: field_patterns_loop_eq label_hit_def)

lemma find_field_two_tokens:
  "find_field_by_patterns [t1, t2] ft required =
     (let b1 = (if label_hit ft t1 then field_update [t1, t2] ft t1 (None, 0) else (None, 0));
          b2 = (if label_hit ft t2 then field_update [t1, t2] ft t2 b1 else b1)
      in if required \<and> fst b2 = None then Some \<lparr>val = VNone, confidence = 0, evidence = []\<rparr>
         else fst b2)"
  by (simp add: find_field_by_patterns_def field_patterns_loop_hit Let_def)

lemma hits_vendor: "label_hit (ascii ''vendor'') vendor_token" "\<not> label_hit (ascii ''vendor'') header_token"
  by (simp_all add: label_hit_def patterns_for_def label_patterns_def ascii_def vendor_lower header_lower)

lemma hits_total: "\<not> label_hit (ascii ''total'') vendor_token" "label_hit (ascii ''total'') header_token"
  by (simp_all add: label_hit_def patterns_for_def label_patterns_def ascii_def vendor_lower header_lower)

lemma hits_number: "\<not> label_hit (ascii ''invoice_number'') vendor_token" "label_hit (ascii ''invoice_number'') header_token"
  by (simp_all add: label_hit_def patterns_for_def label_patterns_def ascii_def vendor_lower header_lower)

lemma hits_date: "\<not> label_hit (ascii ''date'') vendor_token" "label_hit (ascii ''date'') header_token"
  by (simp_all add: label_hit_def patterns_for_def label_patterns_def ascii_def vendor_lower header_lower)

lemma hits_tax: "\<not> label_hit (ascii ''tax'') vendor_token" "\<not> label_hit (ascii ''tax'') header_token"
  by (simp_all add: label_hit_def patterns_for_def label_patterns_def ascii_def vendor_lower header_lower)

lemma hits_discount: "\<not> label_hit (ascii ''discount'') vendor_token" "\<not> label_hit (ascii ''discount'') header_token"
  by (simp_all add: label_hit_def patterns_for_def label_patterns_def ascii_def vendor_lower header_lower)

lemma hits_shipping: "\<not> label_hit (ascii ''shipping'') vendor_token" "\<not> label_hit (ascii ''shipping'') header_token"
  by (simp_all add: label_hit_def patterns_for_def label_patterns_def ascii_def vendor_lower header_lower)

lemma sqrt_900: "sqrt 900 = 30"
  by (rule real_sqrt_unique) simp_all

lemma distances:
  "calculate_token_distance vendor_token vendor_token = 0"
  "calculate_token_distance vendor_token header_token = 30"
  "calculate_token_distance header_token vendor_token = 30"
  "calculate_token_distance header_token header_token = 0"
  by (simp_all add: calculate_token_distance_def vendor_token_def header_token_def sqrt_900)

lemma strip_vendor: "strip vendor_text = vendor_text"
  by (simp add: vendor_chars strip_def is_space_def)

lemma strip_header: "strip header_text = header_text"
  by (simp add: header_chars strip_def is_space_def)

lemma lengths: "length vendor_text = 12" "length header_text = 29"
  by (simp_all add: vendor_chars header_chars)

lemma vendor_no_number: "re_search rx_number_chars vendor_text = None"
  by (simp add: vendor_chars rx_number_chars_def is_digit_def)

lemma header_number: "re_search rx_number_chars header_text = Some [49, 53]"
  by (simp add: header_chars rx_number_chars_def is_digit_def)

lemma header_alnum: "re_search rx_alnum header_text = Some [73]"
  by (simp add: header_chars rx_alnum_def is_digit_def is_alpha_def)

lemma header_date_like:
  "re_search rx_date_like header_text = Some [49, 53, 47, 48, 51, 47, 50, 48, 50, 52]"
  by (simp add: header_chars rx_date_like_def is_digit_def is_sep_def)

lemma types:
  "ascii ''vendor'' \<notin> set amount_types" "ascii ''vendor'' \<noteq> ascii ''invoice_number''"
  "ascii ''vendor'' \<noteq> ascii ''date''"
  "ascii ''total'' \<in> set amount_types"
  "ascii ''invoice_number'' \<notin> set amount_types"
  "ascii ''date'' \<notin> set amount_types" "ascii ''date'' \<noteq> ascii ''invoice_number''"
  by (simp_all add: amount_types_def ascii_def)

lemma looks_vendor: "looks_like_value vendor_text (ascii ''vendor'')"
  by (simp add: looks_like_value_def strip_vendor types lengths vendor_no_number)

lemma looks_total: "looks_like_value header_text (ascii ''total'')"
  by (simp add: looks_like_value_def strip_header types lengths header_number)

lemma looks_number: "looks_like_value header_text (ascii ''invoice_number'')"
  by (simp add: looks_like_value_def strip_header types lengths header_alnum)

lemma looks_date: "looks_like_value header_text (ascii ''date'')"
  by (simp add: looks_like_value_def strip_header types header_date_like)

lemma pages: "tok_page vendor_token = 0" "tok_page header_token = 0"
  by (simp_all add: vendor_token_def header_token_def)

lemma near_vendor:
  "find_value_near_token example_tokens vendor_token (ascii ''vendor'') = Some vendor_token"
  by (simp add: find_value_near_token_def example_tokens_def distances pages looks_vendor)

lemma near_header:
  "looks_like_value header_text ft \<Longrightarrow>
   find_value_near_token example_tokens header_token ft = Some header_token"
  by (simp add: find_value_near_token_def example_tokens_def distances pages)

lemma confs: "tok_confidence vendor_token = 95 / 100" "tok_confidence header_token = 95 / 100"
  by (simp_all add: vendor_token_def header_token_def)

lemma conf_vendor:
  "calculate_field_confidence vendor_token vendor_token (ascii ''vendor'') = 19 / 25"
  by (simp add: calculate_field_confidence_def distances confs looks_vendor)

lemma conf_header:
  "looks_like_value header_text ft \<Longrightarrow>
   calculate_field_confidence header_token header_token ft = 19 / 25"
  by (simp add: calculate_field_confidence_def distances confs)

lemma header_amount:
  "parse_amount header_text = Some \<lparr>negative = False, coefficient = 15032024, exponent = 0\<rparr>"
proof -
  have f: "filter (\<lambda>c. is_digit c \<or> c = 46 \<or> c = 44 \<or> c = 45) header_text
      = [49, 53, 48, 51, 50, 48, 50, 52]"
    by (simp add: header_chars is_digit_def)
  have d: "Decimal_of_str [49, 53, 48, 51, 50, 48, 50, 52]
      = Some \<lparr>negative = False, coefficient = 15032024, exponent = 0\<rparr>"
    by (simp add: decimal_eval)
  show ?thesis unfolding parse_amount_def f Let_def by (simp add: d)
qed

lemma header_date: "parse_date header_text = Some \<lparr>year = 2024, month = 3, day = 15\<rparr>"
proof -
  have iso: "re_search rx_iso header_text = None"
    by (simp add: header_chars rx_iso_def lit_def is_digit_def)
  have short: "re_search (rx_short 47) header_text = Some [49, 53, 47, 48, 51, 47, 50, 48, 50, 52]"
    by (simp add: header_chars rx_short_def lit_def is_digit_def)
  have sp: "strptime [49, 53, 47, 48, 51, 47, 50, 48, 50, 52] (DMY, 47)
      = Some \<lparr>year = 2024, month = 3, day = 15\<rparr>"
    by (simp add: strptime_def make_date_def days_in_month_def nat_of_digits_def digit_val_def)
  show ?thesis
    by (simp add: parse_date_def date_patterns_def iso short sp)
qed

lemma value_vendor: "parse_field_value vendor_text (ascii ''vendor'') = VStr vendor_text"
  by (simp add: parse_field_value_def strip_vendor types)

lemma value_total:
  "parse_field_value header_text (ascii ''total'') =
     VDecimal \<lparr>negative = False, coefficient = 15032024, exponent = 0\<rparr>"
  by (simp add: parse_field_value_def strip_header types header_amount)

lemma value_number: "parse_field_value header_text (ascii ''invoice_number'') = VStr header_text"
  by (simp add: parse_field_value_def strip_header types)

lemma value_date:
  "parse_field_value header_text (ascii ''date'') = VDate \<lparr>year = 2024, month = 3, day = 15\<rparr>"
  by (simp add: parse_field_value_def strip_header types header_date)

lemma find_vendor:
  "find_field_by_patterns example_tokens (ascii ''vendor'') True =
     Some \<lparr>val = VStr vendor_text, confidence = 19 / 25, evidence = [evidence_of vendor_token]\<rparr>"
  unfolding example_tokens_def find_field_two_tokens
  by (simp add: hits_vendor field_update_def near_vendor [unfolded example_tokens_def]
      conf_vendor value_vendor Let_def)

lemma find_header:
  assumes "\<not> label_hit ft vendor_token" "label_hit ft header_token" "looks_like_value header_text ft"
  shows "find_field_by_patterns example_tokens ft True =
     Some \<lparr>val = parse_field_value header_text ft, confidence = 19 / 25,
           evidence = [evidence_of header_token]\<rparr>"
  unfolding example_tokens_def find_field_two_tokens
  by (simp add: assms field_update_def near_header [unfolded example_tokens_def]
      conf_header Let_def)

lemma find_none:
  assumes "\<not> label_hit ft vendor_token" "\<not> label_hit ft header_token"
  shows "find_field_by_patterns example_tokens ft False = None"
  unfolding example_tokens_def find_field_two_tokens
  by (simp add: assms)

lemma fingerprint:
  "create_layout_fingerprint example_tokens = MD5 (ascii ''ACME Company|Invoice total date 15/03/2024'')"
proof -
  have "sort_key (\<lambda>t. (tok_page t, fst (snd (tok_bbox t)), fst (tok_bbox t))) example_tokens
      = [vendor_token, header_token]"
    by (simp add: example_tokens_def vendor_token_def header_token_def)
  moreover have "join [124] [vendor_text, header_text] = ascii ''ACME Company|Invoice total date 15/03/2024''"
    by (simp add: vendor_chars header_chars ascii_def)
  ultimately show ?thesis by (simp add: create_layout_fingerprint_def)
qed

lemma vendor_result:
  "fst (extract_vendor Map.empty example_tokens (create_layout_fingerprint example_tokens)) =
     Inr (vendor (example_extracted now))"
  by (simp add: extract_vendor_def find_vendor Let_def find_field_without_patterns no_patterns
      or_else_def example_extracted_def fingerprint)

lemma currency_default:
  "find_currency example_tokens True = Some \<lparr>val = VStr (ascii ''EUR''), confidence = 1 / 10, evidence = []\<rparr>"
proof -
  have "\<forall>t \<in> set example_tokens. \<forall>(code, syms) \<in> set currency_patterns. \<forall>s \<in> set syms.
      \<not> str_contains (tok_text t) s"
    by (simp add: example_tokens_def currency_patterns_def ascii_def vendor_chars header_chars)
  then have "currency_tokens_loop example_tokens (None, 0) = (None, 0)"
    by (rule tokens_loop_miss)
  then show ?thesis by (simp add: find_currency_def)
qed

lemma amounts_result: "extract_amounts example_tokens = Inr (amounts (example_extracted now))"
  by (simp add: extract_amounts_def find_header [OF hits_total looks_total] value_total
      currency_default find_field_without_patterns no_patterns find_none [OF hits_tax]
      find_none [OF hits_discount] find_none [OF hits_shipping] Amounts_def example_extracted_def
      header_field_def)

lemma line_item_tokens: "find_line_item_tokens example_tokens = [[header_token]]"
proof -
  have "\<not> looks_like_line_item vendor_text"
    by (simp add: looks_like_line_item_def vendor_chars is_digit_def)
  moreover have "looks_like_line_item header_text"
    by (simp add: looks_like_line_item_def header_chars is_digit_def is_alpha_def)
  ultimately show ?thesis by (simp add: find_line_item_tokens_def example_tokens_def)
qed

lemma header_truthy_amount:
  "truthy_amount header_text = Some \<lparr>negative = False, coefficient = 15032024, exponent = 0\<rparr>"
  by (simp add: truthy_amount_def header_amount)

lemma header_no_quantity: "re_match rx_quantity (strip header_text) = None"
  unfolding strip_header by (simp add: header_chars rx_quantity_def lit_def is_digit_def)

lemma header_no_tax_word:
  "\<not> contains_any (lower header_text) [ascii ''tax'', ascii ''vat'', [1590, 1585, 1610, 1576, 1577]]"
  by (simp add: contains_any_def header_lower ascii_def)

lemma header_no_percentage: "truthy_percentage header_text = None"
proof -
  have "re_search rx_percentage header_text = None"
    by (simp add: header_chars rx_percentage_def lit_def is_digit_def is_space_def)
  then show ?thesis by (simp add: truthy_percentage_def parse_percentage_def)
qed

lemma header_not_blank: "\<not> blank (VStr header_text)" "\<not> blank (VStr vendor_text)"
  by (simp_all add: blank_def strip_header strip_vendor) (simp_all add: header_chars vendor_chars)

lemma line_items_result: "extract_line_items example_tokens = Inr (line_items (example_extracted now))"
proof -
  have d: "extract_line_description [header_token] = Some (token_field header_token (VStr header_text))"
    by (simp add: extract_line_description_def)
  have p: "present (Some (token_field header_token (VStr header_text))) = Some (VStr header_text)"
    by (simp add: present_def token_field_def) (simp add: header_chars)
  have q: "extract_line_quantity [header_token] = None"
    by (simp add: extract_line_quantity_def header_no_quantity)
  have u: "extract_line_unit_price [header_token] =
      Some (token_field header_token (VDecimal \<lparr>negative = False, coefficient = 15032024, exponent = 0\<rparr>))"
    by (simp add: extract_line_unit_price_def header_truthy_amount)
  have t: "extract_line_total [header_token] =
      Some (token_field header_token (VDecimal \<lparr>negative = False, coefficient = 15032024, exponent = 0\<rparr>))"
    by (simp add: extract_line_total_def header_truthy_amount)
  have x: "extract_line_tax_amount [header_token] = None"
    by (simp add: extract_line_tax_amount_def header_no_tax_word)
  have r: "extract_line_tax_rate [header_token] = None"
    by (simp add: extract_line_tax_rate_def header_no_percentage)
  have b: "\<not> blank (val (token_field header_token (VStr header_text)))"
    by (simp add: token_field_def header_not_blank)
  show ?thesis
    unfolding extract_line_items_def line_item_tokens
    by (simp add: d p q u t x r LineItem_def b example_extracted_def)
qed

lemma notes_result: "extract_notes example_tokens = None"
  by (simp add: extract_notes_def example_tokens_def lengths looks_total)

lemma payment_terms_result: "extract_payment_terms example_tokens = None"
  by (simp add: extract_payment_terms_def example_tokens_def contains_any_def vendor_lower
      header_lower ascii_def)

lemma po_number_result: "extract_po_number example_tokens = None"
  by (simp add: extract_po_number_def example_tokens_def contains_any_def vendor_lower
      header_lower ascii_def)

lemma duplicate_hash_result:
  "create_duplicate_hash (VStr vendor_text) (VStr header_text)
     (VDate \<lparr>year = 2024, month = 3, day = 15\<rparr>)
     (VDecimal \<lparr>negative = False, coefficient = 15032024, exponent = 0\<rparr>) =
   MD5 (ascii ''ACME Company|Invoice total date 15/03/2024|2024-03-15|15032024'')"
proof -
  have d: "py_str (VDate \<lparr>year = 2024, month = 3, day = 15\<rparr>) = [50, 48, 50, 52, 45, 48, 51, 45, 49, 53]"
    by (simp add: zero_pad_def digits_of.simps)
  have g: "digits_of 15032024 = [49, 53, 48, 51, 50, 48, 50, 52]"
    by (simp add: digits_of.simps)
  have a: "py_str (VDecimal \<lparr>negative = False, coefficient = 15032024, exponent = 0\<rparr>)
      = [49, 53, 48, 51, 50, 48, 50, 52]"
    by (simp add: Decimal_str_def g Let_def)
  show ?thesis
    unfolding create_duplicate_hash_def d a
    by (simp add: vendor_chars header_chars ascii_def)
qed

lemma extract_example:
  "fst (extract_invoice Map.empty now example_tokens (ascii ''invoice.pdf'') (ascii ''job-1'')) =
     Inr (example_extracted now)"
proof -
  have v: "val (name (vendor (example_extracted now))) = VStr vendor_text"
    and g: "val (grand_total (amounts (example_extracted now))) =
       VDecimal \<lparr>negative = False, coefficient = 15032024, exponent = 0\<rparr>"
    and c: "val (currency (amounts (example_extracted now))) = VStr (ascii ''EUR'')"
    by (simp_all add: example_extracted_def header_field_def)
  have n: "find_field_by_patterns example_tokens (ascii ''invoice_number'') True =
      Some (header_field (VStr header_text))"
    by (simp add: find_header [OF hits_number looks_number] value_number header_field_def)
  have d: "find_field_by_patterns example_tokens (ascii ''date'') True =
      Some (header_field (VDate \<lparr>year = 2024, month = 3, day = 15\<rparr>))"
    by (simp add: find_header [OF hits_date looks_date] value_date header_field_def)
  have i: "Invoice (example_extracted now) = Inr (example_extracted now)"
    by (simp add: Invoice_def v g c)
      (simp add: example_extracted_def header_field_def header_not_blank)
  have "fst (extract_invoice Map.empty now example_tokens (ascii ''invoice.pdf'') (ascii ''job-1'')) =
      Invoice (example_extracted now)"
    unfolding extract_invoice_def Let_def split_beta fst_conv
      vendor_result [of now] amounts_result [of now] line_items_result [of now] n d
    by (simp add: v g notes_result payment_terms_result po_number_result
        find_field_without_patterns no_patterns header_field_def duplicate_hash_result)
      (simp add: example_extracted_def header_field_def)
  with i show ?thesis by simp
qed

text \<open>
  C6, as the code has it: two runs of \<open>extract_invoice\<close> on the same tokens, file name
  and processing id, from any two caches the extractor can reach and at any two times,
  both fail or both succeed; when they succeed the two invoices differ at most in
  \<open>created_at\<close>, which is the time of the run, and \<open>validate_invoice\<close> gives the same
  report for both. The cache after a run is again one the extractor can reach.
\<close>

theorem extract_validate_deterministic_except_created_at:
  assumes "cache_ok cache1" and "cache_ok cache2"
  shows "(\<forall>i1. fst (extract_invoice cache1 now1 tokens filename pid) = Inr i1 \<longrightarrow>
            fst (extract_invoice cache2 now2 tokens filename pid) = Inr (i1\<lparr>created_at := now2\<rparr>) \<and>
            created_at i1 = now1 \<and>
            validate_invoice th (i1\<lparr>created_at := now2\<rparr>) = validate_invoice th i1) \<and>
         (fst (extract_invoice cache1 now1 tokens filename pid) = Inl ValidationError \<longrightarrow>
            fst (extract_invoice cache2 now2 tokens filename pid) = Inl ValidationError) \<and>
         cache_ok (snd (extract_invoice cache1 now1 tokens filename pid))"
proof -
  have e: "fst (extract_invoice cache2 now2 tokens filename pid) =
      map_sum id (\<lambda>j. j\<lparr>created_at := now2\<rparr>) (fst (extract_invoice cache1 now1 tokens filename pid))"
    using extract_invoice_cache_ok(1) [OF assms(1)] extract_invoice_cache_ok(1) [OF assms(2)]
      extract_invoice_clock [of Map.empty now2 tokens filename pid now1]
    by simp
  have c: "created_at i1 = now1" if "fst (extract_invoice cache1 now1 tokens filename pid) = Inr i1" for i1
    using that
    by (auto simp: extract_invoice_def Let_def split_beta Invoice_def
        split: sum.splits option.splits prod.splits if_splits)
  show ?thesis
    using e c extract_invoice_cache_ok(2) [OF assms(1)]
    by (auto simp: validate_invoice_created_at)
qed

theorem extract_validate_deterministic_except_created_at_witness:
  "fst (extract_invoice Map.empty first_run_time example_tokens (ascii ''invoice.pdf'') (ascii ''job-1''))
     = Inr (example_extracted first_run_time) \<and>
   fst (extract_invoice
          (snd (extract_invoice Map.empty first_run_time example_tokens (ascii ''invoice.pdf'')
                  (ascii ''job-1'')))
          second_run_time example_tokens (ascii ''invoice.pdf'') (ascii ''job-1''))
     = Inr ((example_extracted first_run_time)\<lparr>created_at := second_run_time\<rparr>) \<and>
   validate_invoice ProcessingThresholds
       ((example_extracted first_run_time)\<lparr>created_at := second_run_time\<rparr>)
     = validate_invoice ProcessingThresholds (example_extracted first_run_time)"
proof -
  have ok0: "cache_ok Map.empty"
    by (simp add: cache_ok_def)
  have ok1: "cache_ok (snd (extract_invoice Map.empty first_run_time example_tokens
      (ascii ''invoice.pdf'') (ascii ''job-1'')))"
    using extract_validate_deterministic_except_created_at [OF ok0 ok0] by blast
  from extract_validate_deterministic_except_created_at
         [OF ok0 ok1, of first_run_time example_tokens "ascii ''invoice.pdf''" "ascii ''job-1''"
            second_run_time ProcessingThresholds]
       extract_example [of first_run_time]
  show ?thesis by blast
qed

text \<open>
  C6 as stated fails: the second run on the same tokens returns an invoice that differs
  from the first one in \<open>created_at\<close>.
\<close>

theorem two_runs_differ_counterexample:
  "fst (extract_invoice Map.empty first_run_time example_tokens (ascii ''invoice.pdf'') (ascii ''job-1''))
     = Inr (example_extracted first_run_time) \<and>
   fst (extract_invoice
          (snd (extract_invoice Map.empty first_run_time example_tokens (ascii ''invoice.pdf'')
                  (ascii ''job-1'')))
          second_run_time example_tokens (ascii ''invoice.pdf'') (ascii ''job-1''))
     = Inr (example_extracted second_run_time) \<and>
   example_extracted first_run_time \<noteq> example_extracted second_run_time"
proof -
  have "cache_ok Map.empty"
    by (simp add: cache_ok_def)
  then have "cache_ok (snd (extract_invoice Map.empty first_run_time example_tokens
      (ascii ''invoice.pdf'') (ascii ''job-1'')))"
    by (rule extract_invoice_cache_ok(2))
  then have "fst (extract_invoice
          (snd (extract_invoice Map.empty first_run_time example_tokens (ascii ''invoice.pdf'')
                  (ascii ''job-1'')))
          second_run_time example_tokens (ascii ''invoice.pdf'') (ascii ''job-1''))
     = Inr (example_extracted second_run_time)"
    by (simp add: extract_invoice_cache_ok(1) extract_example)
  moreover have "created_at (example_extracted first_run_time)
      \<noteq> created_at (example_extracted second_run_time)"
    by (simp add: example_extracted_def first_run_time_def second_run_time_def)
  then have "example_extracted first_run_time \<noteq> example_extracted second_run_time"
    by auto
  ultimately show ?thesis by (simp add: extract_example)
qed

section \<open>Properties of the schema and of the extracted fields\<close>

lemma confirmed_field_ok: "confirmed f \<Longrightarrow> field_ok f"
  by (simp add: confirmed_def field_ok_def confidence_in_range_def unconfirmed_is_low_def
      value_has_confidence_def)

lemma calculate_field_confidence_range:
  "0 \<le> calculate_field_confidence l v ft" "calculate_field_confidence l v ft \<le> 1"
  by (simp_all add: calculate_field_confidence_def Let_def)

lemma field_update_best_ok: "best_ok b \<Longrightarrow> best_ok (field_update tokens ft t b)"
  using calculate_field_confidence_range [of t _ ft]
  by (auto simp: field_update_def Let_def best_ok_def confirmed_def split: option.splits)

lemma field_patterns_loop_best_ok:
  "best_ok b \<Longrightarrow> best_ok (field_patterns_loop tokens ft t ps b)"
  by (induction ps arbitrary: b) (simp_all add: field_update_best_ok)

lemma field_tokens_loop_best_ok:
  "best_ok b \<Longrightarrow> best_ok (field_tokens_loop tokens ft ps ts b)"
  by (induction ts arbitrary: b) (simp_all add: field_patterns_loop_best_ok)

lemma best_ok_start: "best_ok (None, 0)"
  by (simp add: best_ok_def)

lemma find_field_by_patterns_field_ok:
  assumes "find_field_by_patterns tokens ft required = Some f"
  shows "field_ok f"
proof -
  let ?b = "field_tokens_loop tokens ft (patterns_for ft) tokens (None, 0)"
  have ok: "best_ok ?b"
    by (rule field_tokens_loop_best_ok) (rule best_ok_start)
  show ?thesis
  proof (cases "fst ?b")
    case None
    with assms have "f = \<lparr>val = VNone, confidence = 0, evidence = []\<rparr>"
      by (simp add: find_field_by_patterns_def Let_def split: if_splits)
    then show ?thesis
      by (simp add: field_ok_def confidence_in_range_def unconfirmed_is_low_def
          value_has_confidence_def)
  next
    case (Some g)
    with assms have "f = g"
      by (simp add: find_field_by_patterns_def Let_def)
    with ok Some show ?thesis
      by (simp add: best_ok_def confirmed_field_ok)
  qed
qed

lemma currency_symbols_loop_best_ok: "best_ok b \<Longrightarrow> best_ok (currency_symbols_loop t code syms b)"
  by (induction syms arbitrary: b) (auto simp: best_ok_def confirmed_def Let_def)

lemma currency_codes_loop_best_ok: "best_ok b \<Longrightarrow> best_ok (currency_codes_loop t entries b)"
proof (induction entries arbitrary: b)
  case Nil
  then show ?case by simp
next
  case (Cons e entries)
  obtain code syms where e: "e = (code, syms)" by (cases e)
  from Cons.prems have "best_ok (currency_symbols_loop t code syms b)"
    by (rule currency_symbols_loop_best_ok)
  then show ?case unfolding e by (simp add: Cons.IH)
qed

lemma currency_tokens_loop_best_ok: "best_ok b \<Longrightarrow> best_ok (currency_tokens_loop ts b)"
  by (induction ts arbitrary: b) (simp_all add: currency_codes_loop_best_ok)

lemma find_currency_field_ok:
  assumes "find_currency tokens required = Some f"
  shows "field_ok f"
proof -
  let ?b = "currency_tokens_loop tokens (None, 0)"
  have ok: "best_ok ?b"
    by (rule currency_tokens_loop_best_ok) (rule best_ok_start)
  show ?thesis
  proof (cases "fst ?b")
    case None
    with assms have "f = \<lparr>val = VStr (ascii ''EUR''), confidence = 1 / 10, evidence = []\<rparr>"
      by (simp add: find_currency_def Let_def split: if_splits)
    then show ?thesis
      by (simp add: field_ok_def confidence_in_range_def unconfirmed_is_low_def
          value_has_confidence_def)
  next
    case (Some g)
    with assms have "f = g"
      by (simp add: find_currency_def Let_def)
    with ok Some show ?thesis
      by (simp add: best_ok_def confirmed_field_ok)
  qed
qed

lemma token_field_copied: "t \<in> set tokens \<Longrightarrow> copied_from tokens (token_field t v)"
  by (auto simp: copied_from_def token_field_def)

lemma find_in_set: "find P xs = Some x \<Longrightarrow> x \<in> set xs"
  by (induction xs) (auto split: if_splits)

lemma longest_token_in: "longest_token b ts \<in> insert b (set ts)"
  by (induction ts arbitrary: b) auto

lemma extract_line_description_copied:
  "extract_line_description g = Some f \<Longrightarrow> set g \<subseteq> set tokens \<Longrightarrow> copied_from tokens f"
  using longest_token_in [of "hd g" "tl g"]
  by (cases g) (auto simp: extract_line_description_def Let_def intro!: token_field_copied)

lemma extract_line_quantity_copied:
  "extract_line_quantity g = Some f \<Longrightarrow> set g \<subseteq> set tokens \<Longrightarrow> copied_from tokens f"
  by (auto simp: extract_line_quantity_def split: option.splits
      dest!: find_in_set intro!: token_field_copied)

lemma extract_line_unit_price_copied:
  "extract_line_unit_price g = Some f \<Longrightarrow> set g \<subseteq> set tokens \<Longrightarrow> copied_from tokens f"
  by (auto simp: extract_line_unit_price_def split: option.splits
      dest!: find_in_set intro!: token_field_copied)

lemma extract_line_total_copied:
  assumes "extract_line_total g = Some f" "set g \<subseteq> set tokens"
  shows "copied_from tokens f"
proof (cases "rev (filter (\<lambda>t. truthy_amount (tok_text t) \<noteq> None) g)")
  case Nil
  with assms show ?thesis by (simp add: extract_line_total_def)
next
  case (Cons t ts)
  then have "t \<in> set (rev (filter (\<lambda>t. truthy_amount (tok_text t) \<noteq> None) g))"
    by simp
  then have "t \<in> set tokens"
    using assms(2) by auto
  with assms(1) Cons show ?thesis
    by (auto simp: extract_line_total_def intro!: token_field_copied)
qed

lemma extract_line_tax_amount_copied:
  "extract_line_tax_amount g = Some f \<Longrightarrow> set g \<subseteq> set tokens \<Longrightarrow> copied_from tokens f"
  by (auto simp: extract_line_tax_amount_def split: option.splits
      dest!: find_in_set intro!: token_field_copied)

lemma extract_line_tax_rate_copied:
  "extract_line_tax_rate g = Some f \<Longrightarrow> set g \<subseteq> set tokens \<Longrightarrow> copied_from tokens f"
  by (auto simp: extract_line_tax_rate_def split: option.splits
      dest!: find_in_set intro!: token_field_copied)

lemma line_item_groups_subset:
  "g \<in> set (line_item_groups ts cur) \<Longrightarrow> set g \<subseteq> set ts \<union> set cur"
proof (induction ts arbitrary: cur)
  case Nil
  then show ?case by (simp split: if_splits)
next
  case (Cons a ts)
  from Cons.prems
  have "g \<in> set (line_item_groups ts (cur @ [a])) \<or> g = cur \<or> g \<in> set (line_item_groups ts [])"
    by (auto split: if_splits)
  then show ?case
    using Cons.IH [of "cur @ [a]"] Cons.IH [of "[]"] by auto
qed

lemma line_items_loop_copied:
  "line_items_loop gs = Inr lis \<Longrightarrow> \<forall>g \<in> set gs. set g \<subseteq> set tokens \<Longrightarrow>
   \<forall>li \<in> set lis. \<forall>f \<in> set (line_item_fields li). copied_from tokens f"
proof (induction gs arbitrary: lis)
  case Nil
  then show ?case by simp
next
  case (Cons g gs)
  have sub: "set g \<subseteq> set tokens" and rest: "\<forall>g \<in> set gs. set g \<subseteq> set tokens"
    using Cons.prems(2) by simp_all
  show ?case
  proof (cases "present (extract_line_description g)")
    case None
    with Cons.prems(1) have "line_items_loop gs = Inr lis" by simp
    from Cons.IH [OF this rest] show ?thesis .
  next
    case (Some v)
    show ?thesis
    proof (cases "extract_line_description g")
      case None
      with Some Cons.prems(1) have "line_items_loop gs = Inr lis" by simp
      from Cons.IH [OF this rest] show ?thesis .
    next
      case d: (Some description')
      let ?li = "\<lparr>description = description',
                   quantity = extract_line_quantity g,
                   unit_price = extract_line_unit_price g,
                   total = extract_line_total g,
                   li_tax_amount = extract_line_tax_amount g,
                   li_tax_rate = extract_line_tax_rate g,
                   category = None,
                   category_confidence = None\<rparr>"
      from Cons.prems(1) Some d obtain tail where tail: "line_items_loop gs = Inr tail"
        and lis: "lis = ?li # tail"
        by (auto simp: LineItem_def split: sum.splits if_splits)
      have "\<forall>f \<in> set (line_item_fields ?li). copied_from tokens f"
        using d sub
        by (auto simp: line_item_fields_def present_fields_def split: option.splits
            intro: extract_line_description_copied extract_line_quantity_copied
              extract_line_unit_price_copied extract_line_total_copied
              extract_line_tax_amount_copied extract_line_tax_rate_copied)
      with Cons.IH [OF tail rest] lis show ?thesis by simp
    qed
  qed
qed

lemma extract_line_items_copied:
  assumes "extract_line_items tokens = Inr lis"
  shows "\<forall>li \<in> set lis. \<forall>f \<in> set (line_item_fields li). copied_from tokens f"
proof -
  have "\<forall>g \<in> set (find_line_item_tokens tokens). set g \<subseteq> set tokens"
    using line_item_groups_subset [of _ tokens "[]"] by (simp add: find_line_item_tokens_def)
  with assms show ?thesis
    unfolding extract_line_items_def by (rule line_items_loop_copied)
qed

lemma foldl_min_in: "foldl min (a :: real) xs \<in> insert a (set xs)"
  by (induction xs arbitrary: a) (auto simp: min_def)

lemma extract_notes_copied:
  assumes "extract_notes tokens = Some f"
  shows "copied_from tokens f"
proof -
  let ?long = "filter (\<lambda>t. length (tok_text t) > 20 \<and> \<not> looks_like_value (tok_text t) (ascii ''total'')) tokens"
  have sub: "set ?long \<subseteq> set tokens"
    by (rule filter_is_subset)
  show ?thesis
  proof (cases ?long)
    case Nil
    from assms show ?thesis
      unfolding extract_notes_def Nil by simp
  next
    case (Cons t ts)
    from assms have f: "f = \<lparr>val = VStr (join [32] (map tok_text (t # ts))),
        confidence = foldl min (tok_confidence t) (map tok_confidence ts),
        evidence = map evidence_of (t # ts)\<rparr>"
      unfolding extract_notes_def Cons by simp
    from sub have "set (t # ts) \<subseteq> set tokens"
      unfolding Cons .
    moreover have "foldl min (tok_confidence t) (map tok_confidence ts) \<in> tok_confidence ` set (t # ts)"
      using foldl_min_in [of "tok_confidence t" "map tok_confidence ts"] by auto
    ultimately have "\<exists>u \<in> set tokens. foldl min (tok_confidence t) (map tok_confidence ts) = tok_confidence u"
      by auto
    then show ?thesis
      by (simp add: copied_from_def f)
  qed
qed

lemma extract_payment_terms_copied:
  "extract_payment_terms tokens = Some f \<Longrightarrow> copied_from tokens f"
  by (auto simp: extract_payment_terms_def dest!: find_in_set intro!: token_field_copied)

lemma extract_po_number_copied:
  "extract_po_number tokens = Some f \<Longrightarrow> copied_from tokens f"
  by (auto simp: extract_po_number_def dest!: find_in_set intro!: token_field_copied)

lemma extract_vendor_fields:
  assumes "cache_ok cache" "fst (extract_vendor cache tokens h) = Inr v"
  shows "find_field_by_patterns tokens (ascii ''vendor'') True = Some (name v)"
    and "address v = None" "tax_id v = None" "phone v = None" "email v = None"
proof -
  from extract_vendor_cache_ok(1) [OF assms(1), of tokens h] assms(2)
  have v: "fst (extract_vendor Map.empty tokens h) = Inr v"
    by simp
  then show "find_field_by_patterns tokens (ascii ''vendor'') True = Some (name v)"
    by (auto simp: extract_vendor_def Let_def split: option.splits)
  from v show "address v = None" "tax_id v = None" "phone v = None" "email v = None"
    by (auto simp: extract_vendor_def Let_def find_field_without_patterns no_patterns or_else_def
        split: option.splits)
qed

lemma extract_amounts_fields:
  assumes "extract_amounts tokens = Inr a"
  shows "find_field_by_patterns tokens (ascii ''total'') True = Some (grand_total a)"
    and "find_currency tokens True = Some (currency a)"
    and "subtotal a = find_field_by_patterns tokens (ascii ''subtotal'') False"
    and "tax_amount a = find_field_by_patterns tokens (ascii ''tax'') False"
    and "tax_rate a = find_field_by_patterns tokens (ascii ''tax_rate'') False"
    and "discount a = find_field_by_patterns tokens (ascii ''discount'') False"
    and "shipping a = find_field_by_patterns tokens (ascii ''shipping'') False"
  using assms
  by (auto simp: extract_amounts_def Amounts_def split: option.splits if_splits)

lemma extract_invoice_fields:
  assumes "fst (extract_invoice cache now tokens filename pid) = Inr i"
  shows "fst (extract_vendor cache tokens (create_layout_fingerprint tokens)) = Inr (vendor i)"
    and "extract_amounts tokens = Inr (amounts i)"
    and "find_field_by_patterns tokens (ascii ''invoice_number'') True = Some (invoice_number i)"
    and "find_field_by_patterns tokens (ascii ''date'') True = Some (invoice_date i)"
    and "due_date i = find_field_by_patterns tokens (ascii ''due_date'') False"
    and "extract_line_items tokens = Inr (line_items i)"
    and "inv_notes i = extract_notes tokens"
    and "payment_terms i = extract_payment_terms tokens"
    and "po_number i = extract_po_number tokens"
  using assms
  by (auto simp: extract_invoice_def Let_def split_beta Invoice_def
      split: sum.splits option.splits if_splits)

lemma present_fields_ok:
  "(\<And>f. Some f \<in> set fs \<Longrightarrow> P f) \<Longrightarrow> list_all P (present_fields fs)"
  by (induction fs) (auto simp: present_fields_def split: option.splits)

lemma found_fields_ok:
  assumes "cache_ok cache" "fst (extract_invoice cache now tokens filename pid) = Inr i"
  shows "list_all field_ok (found_fields i)"
proof -
  note i = extract_invoice_fields [OF assms(2)]
  note v = extract_vendor_fields [OF assms(1) i(1)]
  note a = extract_amounts_fields [OF i(2)]
  have required: "field_ok (invoice_number i)" "field_ok (invoice_date i)" "field_ok (name (vendor i))"
    "field_ok (grand_total (amounts i))" "field_ok (currency (amounts i))"
    using i(3,4) v(1) a(1,2)
    by (blast intro: find_field_by_patterns_field_ok find_currency_field_ok)+
  have optional: "list_all field_ok
      (present_fields
        [due_date i, address (vendor i), tax_id (vendor i), phone (vendor i), email (vendor i),
         subtotal (amounts i), tax_amount (amounts i), tax_rate (amounts i), discount (amounts i),
         shipping (amounts i)])"
    unfolding i(5) v(2-5) a(3-7)
    by (rule present_fields_ok) (auto intro: find_field_by_patterns_field_ok)
  from required optional show ?thesis
    by (simp add: found_fields_def)
qed

lemma copied_fields_ok:
  assumes "fst (extract_invoice cache now tokens filename pid) = Inr i"
  shows "list_all (copied_from tokens) (copied_fields i)"
proof -
  note i = extract_invoice_fields [OF assms]
  have "list_all (copied_from tokens) (present_fields [inv_notes i, payment_terms i, po_number i])"
    unfolding i(7-9)
    by (rule present_fields_ok)
      (auto intro: extract_notes_copied extract_payment_terms_copied extract_po_number_copied)
  moreover have "list_all (copied_from tokens) (concat (map line_item_fields (line_items i)))"
    using extract_line_items_copied [OF i(6)] by (auto simp: list_all_iff)
  ultimately show ?thesis
    by (simp add: copied_fields_def)
qed

text \<open>
  C9, as the code has it. Every \<open>FieldValue\<close> that can be constructed has its confidence in
  \<open>[0, 1]\<close>. In an invoice that the extractor returns, from tokens with confidences in
  \<open>[0, 1]\<close> and a cache it has filled itself, every \<open>FieldValue\<close> has its confidence in
  \<open>[0, 1]\<close> and, when its evidence is empty, a confidence of at most \<open>0.5\<close>; the fields found
  by a label or in the currency table have a positive confidence when their value is not
  null, and so has every field when the confidence of every token is positive.
\<close>

theorem FieldValue_confidence_range:
  "(FieldValue v c ev = Inr fv \<longrightarrow> confidence_in_range fv) \<and>
   (cache_ok cache \<and> list_all (\<lambda>t. 0 \<le> tok_confidence t \<and> tok_confidence t \<le> 1) tokens \<and>
    fst (extract_invoice cache now tokens filename pid) = Inr invoice \<longrightarrow>
      list_all (\<lambda>f. confidence_in_range f \<and> unconfirmed_is_low f) (invoice_fields invoice) \<and>
      list_all value_has_confidence (found_fields invoice) \<and>
      (list_all (\<lambda>t. 0 < tok_confidence t) tokens \<longrightarrow>
         list_all value_has_confidence (invoice_fields invoice)))"
proof (intro conjI impI)
  assume "FieldValue v c ev = Inr fv"
  then show "confidence_in_range fv"
    by (auto simp: FieldValue_def confidence_in_range_def split: if_splits)
next
  assume h: "cache_ok cache \<and> list_all (\<lambda>t. 0 \<le> tok_confidence t \<and> tok_confidence t \<le> 1) tokens \<and>
    fst (extract_invoice cache now tokens filename pid) = Inr invoice"
  then have found: "list_all field_ok (found_fields invoice)"
    by (blast intro: found_fields_ok)
  from h have copied: "list_all (copied_from tokens) (copied_fields invoice)"
    by (blast intro: copied_fields_ok)
  from h have range: "\<forall>t \<in> set tokens. 0 \<le> tok_confidence t \<and> tok_confidence t \<le> 1"
    by (simp add: list_all_iff)
  have "confidence_in_range f \<and> unconfirmed_is_low f" if "copied_from tokens f" for f
    using that range
    by (auto simp: copied_from_def confidence_in_range_def unconfirmed_is_low_def)
  with found copied
  show "list_all (\<lambda>f. confidence_in_range f \<and> unconfirmed_is_low f) (invoice_fields invoice)"
    by (auto simp: invoice_fields_def list_all_iff field_ok_def)
  from found show "list_all value_has_confidence (found_fields invoice)"
    by (simp add: list_all_iff field_ok_def)
  assume "list_all (\<lambda>t. 0 < tok_confidence t) tokens"
  then have "value_has_confidence f" if "copied_from tokens f" for f
    using that by (auto simp: copied_from_def value_has_confidence_def list_all_iff)
  with found copied show "list_all value_has_confidence (invoice_fields invoice)"
    by (auto simp: invoice_fields_def list_all_iff field_ok_def)
qed

theorem FieldValue_confidence_range_witness:
  "FieldValue (VStr (ascii ''EUR'')) (1 / 10) [] = Inr (no_evidence_field (VStr (ascii ''EUR'')) (1 / 10)) \<and>
   confidence_in_range (no_evidence_field (VStr (ascii ''EUR'')) (1 / 10)) \<and>
   fst (extract_invoice Map.empty first_run_time example_tokens (ascii ''invoice.pdf'') (ascii ''job-1''))
     = Inr (example_extracted first_run_time) \<and>
   list_all (\<lambda>f. confidence_in_range f \<and> unconfirmed_is_low f)
     (invoice_fields (example_extracted first_run_time)) \<and>
   list_all value_has_confidence (invoice_fields (example_extracted first_run_time))"
proof -
  have c: "FieldValue (VStr (ascii ''EUR'')) (1 / 10) [] = Inr (no_evidence_field (VStr (ascii ''EUR'')) (1 / 10))"
    by (simp add: FieldValue_def no_evidence_field_def)
  have ok: "cache_ok Map.empty"
    by (simp add: cache_ok_def)
  have range: "list_all (\<lambda>t. 0 \<le> tok_confidence t \<and> tok_confidence t \<le> 1) example_tokens"
    by (simp add: example_tokens_def vendor_token_def header_token_def)
  have positive: "list_all (\<lambda>t. 0 < tok_confidence t) example_tokens"
    by (simp add: example_tokens_def vendor_token_def header_token_def)
  from FieldValue_confidence_range
         [where v = "VStr (ascii ''EUR'')" and c = "1 / 10" and ev = "[]"
            and fv = "no_evidence_field (VStr (ascii ''EUR'')) (1 / 10)"
            and cache = Map.empty and tokens = example_tokens and now = first_run_time
            and filename = "ascii ''invoice.pdf''" and pid = "ascii ''job-1''"
            and invoice = "example_extracted first_run_time"]
       c ok range positive extract_example [of first_run_time]
  show ?thesis by blast
qed

lemma find_value_near_other_page:
  "tok_page z \<noteq> tok_page t \<Longrightarrow>
   find_value_near_token (ts @ [z]) t ft = find_value_near_token ts t ft"
  by (simp add: find_value_near_token_def)

lemma field_update_other_page:
  "tok_page z \<noteq> tok_page t \<Longrightarrow> field_update (ts @ [z]) ft t b = field_update ts ft t b"
  by (simp add: field_update_def find_value_near_other_page)

lemma field_tokens_loop_other_page:
  "\<forall>t \<in> set us. tok_page z \<noteq> tok_page t \<Longrightarrow>
   field_tokens_loop (ts @ [z]) ft ps us b = field_tokens_loop ts ft ps us b"
  by (induction us arbitrary: b) (simp_all add: field_patterns_loop_eq field_update_other_page)

lemma field_tokens_loop_append:
  "field_tokens_loop tokens ft ps (us @ vs) b =
     field_tokens_loop tokens ft ps vs (field_tokens_loop tokens ft ps us b)"
  by (induction us arbitrary: b) simp_all

lemma find_field_other_page:
  assumes "\<forall>t \<in> set ts. tok_page z \<noteq> tok_page t" "\<not> label_hit ft z"
  shows "find_field_by_patterns (ts @ [z]) ft required = find_field_by_patterns ts ft required"
  using assms
  by (simp add: find_field_by_patterns_def Let_def field_tokens_loop_append
      field_tokens_loop_other_page field_patterns_loop_hit)

lemma currency_tokens_loop_append:
  "currency_tokens_loop (us @ vs) b = currency_tokens_loop vs (currency_tokens_loop us b)"
  by (induction us arbitrary: b) simp_all

lemma find_currency_no_symbol:
  assumes "\<forall>(code, syms) \<in> set currency_patterns. \<forall>s \<in> set syms. \<not> str_contains (tok_text z) s"
  shows "find_currency (ts @ [z]) required = find_currency ts required"
  using codes_loop_miss [OF assms]
  by (simp add: find_currency_def currency_tokens_loop_append)

lemma line_item_groups_no_item:
  "\<not> looks_like_line_item (tok_text z) \<Longrightarrow>
   line_item_groups (ts @ [z]) cur = line_item_groups ts cur"
  by (induction ts arbitrary: cur) simp_all

lemma extract_line_items_no_item:
  "\<not> looks_like_line_item (tok_text z) \<Longrightarrow> extract_line_items (ts @ [z]) = extract_line_items ts"
  by (simp add: extract_line_items_def find_line_item_tokens_def line_item_groups_no_item)

lemma extract_notes_short:
  "length (tok_text z) \<le> 20 \<Longrightarrow> extract_notes (ts @ [z]) = extract_notes ts"
  by (simp add: extract_notes_def)

lemma find_append_none: "find P xs = None \<Longrightarrow> find P (xs @ ys) = find P ys"
  by (induction xs) (auto split: if_splits)

lemma zero_text: "tok_text zero_confidence_token = ascii ''Net terms''"
  by (simp add: zero_confidence_token_def)

lemma zero_lower: "lower (ascii ''Net terms'') = ascii ''net terms''"
  by (simp add: ascii_def)

lemma zero_no_label:
  "\<not> label_hit (ascii ''vendor'') zero_confidence_token"
  "\<not> label_hit (ascii ''total'') zero_confidence_token"
  "\<not> label_hit (ascii ''invoice_number'') zero_confidence_token"
  "\<not> label_hit (ascii ''date'') zero_confidence_token"
  "\<not> label_hit (ascii ''tax'') zero_confidence_token"
  "\<not> label_hit (ascii ''discount'') zero_confidence_token"
  "\<not> label_hit (ascii ''shipping'') zero_confidence_token"
  unfolding label_hit_def zero_text zero_lower
  by (simp_all add: patterns_for_def label_patterns_def ascii_def)

lemma zero_other_page: "\<forall>t \<in> set example_tokens. tok_page zero_confidence_token \<noteq> tok_page t"
  by (simp add: example_tokens_def pages zero_confidence_token_def)

lemma zero_no_symbol:
  "\<forall>(code, syms) \<in> set currency_patterns. \<forall>s \<in> set syms.
     \<not> str_contains (tok_text zero_confidence_token) s"
  unfolding zero_text by (simp add: currency_patterns_def ascii_def)

lemma zero_no_item: "\<not> looks_like_line_item (tok_text zero_confidence_token)"
  unfolding zero_text by (simp add: looks_like_line_item_def ascii_def is_digit_def)

lemma zero_short: "length (tok_text zero_confidence_token) \<le> 20"
  unfolding zero_text by (simp add: ascii_def)

lemma zero_terms:
  "extract_payment_terms (example_tokens @ [zero_confidence_token]) =
     Some (token_field zero_confidence_token (VStr (ascii ''Net terms'')))"
proof -
  let ?P = "\<lambda>t. contains_any (lower (tok_text t))
      [ascii ''payment'', ascii ''terms'', ascii ''due'', ascii ''net'', ascii ''days'']"
  have "find ?P example_tokens = None"
    using payment_terms_result by (simp add: extract_payment_terms_def)
  moreover have "?P zero_confidence_token"
    unfolding zero_text zero_lower by (simp add: contains_any_def ascii_def)
  ultimately have "find ?P (example_tokens @ [zero_confidence_token]) = Some zero_confidence_token"
    by (simp add: find_append_none)
  then show ?thesis
    by (simp add: extract_payment_terms_def zero_text)
qed

lemma zero_po_number: "extract_po_number (example_tokens @ [zero_confidence_token]) = None"
proof -
  let ?P = "\<lambda>t. contains_any (lower (tok_text t))
      [ascii ''po'', ascii ''purchase order'', ascii ''order no'', ascii ''order number'']"
  have "find ?P example_tokens = None"
    using po_number_result by (simp add: extract_po_number_def)
  moreover have "\<not> ?P zero_confidence_token"
    unfolding zero_text zero_lower by (simp add: contains_any_def ascii_def)
  ultimately have "find ?P (example_tokens @ [zero_confidence_token]) = None"
    by (simp add: find_append_none)
  then show ?thesis
    by (simp add: extract_po_number_def)
qed

lemma zero_fingerprint:
  "create_layout_fingerprint (example_tokens @ [zero_confidence_token]) =
     MD5 (ascii ''ACME Company|Invoice total date 15/03/2024|Net terms'')"
proof -
  have "sort_key (\<lambda>t. (tok_page t, fst (snd (tok_bbox t)), fst (tok_bbox t)))
      (example_tokens @ [zero_confidence_token]) = [vendor_token, header_token, zero_confidence_token]"
    by (simp add: example_tokens_def vendor_token_def header_token_def zero_confidence_token_def)
  moreover have "join [124] [vendor_text, header_text, ascii ''Net terms''] =
      ascii ''ACME Company|Invoice total date 15/03/2024|Net terms''"
    by (simp add: vendor_chars header_chars ascii_def)
  ultimately show ?thesis by (simp add: create_layout_fingerprint_def zero_text)
qed

lemma extract_example_with_terms:
  "fst (extract_invoice Map.empty now (example_tokens @ [zero_confidence_token])
          (ascii ''invoice.pdf'') (ascii ''job-1'')) =
     Inr (example_extracted_with_terms now)"
proof -
  note same = find_field_other_page [OF zero_other_page]
  have v: "val (name (vendor (example_extracted now))) = VStr vendor_text"
    and g: "val (grand_total (amounts (example_extracted now))) =
       VDecimal \<lparr>negative = False, coefficient = 15032024, exponent = 0\<rparr>"
    and c: "val (currency (amounts (example_extracted now))) = VStr (ascii ''EUR'')"
    by (simp_all add: example_extracted_def header_field_def)
  have vendor': "fst (extract_vendor Map.empty (example_tokens @ [zero_confidence_token])
        (create_layout_fingerprint (example_tokens @ [zero_confidence_token]))) =
      Inr (vendor (example_extracted_with_terms now))"
    by (simp add: extract_vendor_def same zero_no_label find_vendor Let_def
        find_field_without_patterns no_patterns or_else_def example_extracted_def
        example_extracted_with_terms_def zero_fingerprint)
  have fields: "find_field_by_patterns (example_tokens @ [zero_confidence_token]) ft required =
      find_field_by_patterns example_tokens ft required" if "patterns_for ft = []" for ft required
    by (simp add: find_field_by_patterns_def that field_tokens_loop_no_patterns)
  have amounts': "extract_amounts (example_tokens @ [zero_confidence_token]) =
      Inr (amounts (example_extracted now))"
    unfolding extract_amounts_def same [OF zero_no_label(2)] same [OF zero_no_label(5)]
      same [OF zero_no_label(6)] same [OF zero_no_label(7)] fields [OF no_patterns(5)]
      fields [OF no_patterns(6)] find_currency_no_symbol [OF zero_no_symbol]
    by (rule amounts_result [unfolded extract_amounts_def])
  have items': "extract_line_items (example_tokens @ [zero_confidence_token]) =
      Inr (line_items (example_extracted now))"
    by (simp add: extract_line_items_no_item [OF zero_no_item] line_items_result)
  have n: "find_field_by_patterns (example_tokens @ [zero_confidence_token]) (ascii ''invoice_number'') True =
      Some (header_field (VStr header_text))"
    by (simp add: same zero_no_label find_header [OF hits_number looks_number] value_number
        header_field_def)
  have d: "find_field_by_patterns (example_tokens @ [zero_confidence_token]) (ascii ''date'') True =
      Some (header_field (VDate \<lparr>year = 2024, month = 3, day = 15\<rparr>))"
    by (simp add: same zero_no_label find_header [OF hits_date looks_date] value_date
        header_field_def)
  have due: "find_field_by_patterns (example_tokens @ [zero_confidence_token]) (ascii ''due_date'') False = None"
    by (simp add: find_field_without_patterns no_patterns)
  have notes': "extract_notes (example_tokens @ [zero_confidence_token]) = None"
    by (simp add: extract_notes_short [OF zero_short] notes_result)
  have sel: "vendor (example_extracted_with_terms now) =
        (vendor (example_extracted now))
          \<lparr>layout_hash := Some (MD5 (ascii ''ACME Company|Invoice total date 15/03/2024|Net terms''))\<rparr>"
    by (simp add: example_extracted_with_terms_def)
  have i: "Invoice (example_extracted_with_terms now) = Inr (example_extracted_with_terms now)"
    by (simp add: Invoice_def example_extracted_with_terms_def v g c)
      (simp add: example_extracted_def header_field_def header_not_blank)
  have "fst (extract_invoice Map.empty now (example_tokens @ [zero_confidence_token])
          (ascii ''invoice.pdf'') (ascii ''job-1'')) =
      Invoice (example_extracted_with_terms now)"
    unfolding extract_invoice_def Let_def split_beta fst_conv
      vendor' amounts' items' n d due notes' zero_terms zero_po_number
    by (simp add: sel v g header_field_def duplicate_hash_result)
      (simp add: example_extracted_with_terms_def example_extracted_def header_field_def)
  with i show ?thesis by simp
qed

text \<open>
  C9 as stated fails: the constructor accepts a non-null value with the confidence \<open>0\<close>
  and an empty evidence list with the confidence \<open>0.9\<close>; and in the invoice that the
  extractor returns for the three tokens, the payment terms are not null and have the
  confidence \<open>0\<close> of the token they were read from.
\<close>

theorem FieldValue_invariant_counterexample:
  "FieldValue (VStr (ascii ''x'')) 0 [] = Inr (no_evidence_field (VStr (ascii ''x'')) 0) \<and>
   val (no_evidence_field (VStr (ascii ''x'')) 0) \<noteq> VNone \<and>
   \<not> 0 < confidence (no_evidence_field (VStr (ascii ''x'')) 0) \<and>
   FieldValue VNone (9 / 10) [] = Inr (no_evidence_field VNone (9 / 10)) \<and>
   evidence (no_evidence_field VNone (9 / 10)) = [] \<and>
   \<not> confidence (no_evidence_field VNone (9 / 10)) \<le> 1 / 2 \<and>
   fst (extract_invoice Map.empty first_run_time (example_tokens @ [zero_confidence_token])
          (ascii ''invoice.pdf'') (ascii ''job-1'')) =
     Inr (example_extracted_with_terms first_run_time) \<and>
   payment_terms (example_extracted_with_terms first_run_time) =
     Some (token_field zero_confidence_token (VStr (ascii ''Net terms''))) \<and>
   val (token_field zero_confidence_token (VStr (ascii ''Net terms''))) \<noteq> VNone \<and>
   \<not> 0 < confidence (token_field zero_confidence_token (VStr (ascii ''Net terms'')))"
proof -
  have a: "FieldValue (VStr (ascii ''x'')) 0 [] = Inr (no_evidence_field (VStr (ascii ''x'')) 0) \<and>
      val (no_evidence_field (VStr (ascii ''x'')) 0) \<noteq> VNone \<and>
      \<not> 0 < confidence (no_evidence_field (VStr (ascii ''x'')) 0) \<and>
      FieldValue VNone (9 / 10) [] = Inr (no_evidence_field VNone (9 / 10)) \<and>
      evidence (no_evidence_field VNone (9 / 10)) = [] \<and>
      \<not> confidence (no_evidence_field VNone (9 / 10)) \<le> 1 / 2"
    by (simp add: FieldValue_def no_evidence_field_def)
  have b: "payment_terms (example_extracted_with_terms first_run_time) =
      Some (token_field zero_confidence_token (VStr (ascii ''Net terms'')))"
    by (simp add: example_extracted_with_terms_def)
  have c: "val (token_field zero_confidence_token (VStr (ascii ''Net terms''))) \<noteq> VNone \<and>
      \<not> 0 < confidence (token_field zero_confidence_token (VStr (ascii ''Net terms'')))"
    by (simp add: token_field_def zero_confidence_token_def)
  from a b c extract_example_with_terms [of first_run_time] show ?thesis by blast
qed

end
